(* ===== verification/Prelude.thy ===== *)
theory Prelude
  imports Main
begin

text \<open>
  Shared vocabulary of the development: the JavaScript string operations the
  front end calls (\<open>String.prototype.trim\<close>, \<open>toLowerCase\<close>, \<open>split\<close>,
  \<open>Array.prototype.join\<close>, the \<open>||\<close> default on strings, \<open>row[i] ?? ''\<close>),
  written over HOL's \<open>string = char list\<close>. A HOL \<open>char\<close> is one of 256 code
  points, so the model covers strings of Latin-1 code points; the whitespace
  and case tables below are the ECMAScript tables restricted to that range.
  The collection \<open>js_simps\<close> gathers the characteristic equations that the
  component proofs use.
\<close>

named_theorems js_simps "characteristic equations of the JavaScript string helpers"

abbreviation dq :: char where "dq \<equiv> CHR 0x22"
abbreviation nl :: char where "nl \<equiv> CHR 0x0A"
abbreviation cr :: char where "cr \<equiv> CHR 0x0D"

section \<open>Whitespace and trimming\<close>

text \<open>ECMAScript WhiteSpace and LineTerminator below U+0100: TAB, LF, VT, FF, CR,
  SPACE and NO-BREAK SPACE. This is the class \<open>\s\<close> of regular expressions and
  what \<open>trim\<close> removes.\<close>

definition is_ws :: "char \<Rightarrow> bool" where
  "is_ws c \<longleftrightarrow> (let n = of_char c :: nat in (9 \<le> n \<and> n \<le> 13) \<or> n = 32 \<or> n = 160)"

definition js_trim :: "string \<Rightarrow> string" where
  "js_trim s = rev (dropWhile is_ws (rev (dropWhile is_ws s)))"

text \<open>A string is blank when trimming leaves nothing: \<open>s.trim() === ''\<close>.\<close>

definition is_blank :: "string \<Rightarrow> bool" where
  "is_blank s \<longleftrightarrow> js_trim s = []"

text \<open>\<open>s.replace(/\s+/g, '')\<close>: every whitespace character removed.\<close>

definition strip_ws :: "string \<Rightarrow> string" where
  "strip_ws s = filter (\<lambda>c. \<not> is_ws c) s"

section \<open>Lower case\<close>

text \<open>\<open>toLowerCase\<close> on Latin-1: A-Z and U+00C0..U+00DE except U+00D7 move up by 32.\<close>

definition js_lower_char :: "char \<Rightarrow> char" where
  "js_lower_char c =
     (let n = of_char c :: nat
      in if (65 \<le> n \<and> n \<le> 90) \<or> (192 \<le> n \<and> n \<le> 222 \<and> n \<noteq> 215)
         then char_of (n + 32) else c)"

definition js_lower :: "string \<Rightarrow> string" where
  "js_lower s = map js_lower_char s"

text \<open>\<open>toUpperCase\<close> on Latin-1: a-z and U+00E0..U+00FE except U+00F7 move down by
  32, and U+00DF becomes \<open>SS\<close>. The upper case of U+00B5 and U+00FF lies outside
  Latin-1; the model leaves them, a case of the restriction above.\<close>

definition js_upper_char :: "char \<Rightarrow> string" where
  "js_upper_char c =
     (let n = of_char c :: nat
      in if (97 \<le> n \<and> n \<le> 122) \<or> (224 \<le> n \<and> n \<le> 254 \<and> n \<noteq> 247) then [char_of (n - 32)]
         else if n = 223 then ''SS'' else [c])"

definition js_upper :: "string \<Rightarrow> string" where
  "js_upper s = concat (map js_upper_char s)"

section \<open>Defaults and indexing\<close>

text \<open>\<open>a || b\<close> on strings: the empty string is falsy.\<close>

definition js_or :: "string \<Rightarrow> string \<Rightarrow> string" where
  "js_or a b = (if a = [] then b else a)"

text \<open>\<open>xs[i] ?? ''\<close>: reading past the end of a JavaScript array gives
  \<open>undefined\<close>, which \<open>??\<close> replaces by the empty string.\<close>

definition cell_at :: "string list \<Rightarrow> nat \<Rightarrow> string" where
  "cell_at xs i = (if i < length xs then xs ! i else [])"

text \<open>\<open>s.startsWith(p)\<close>.\<close>

definition starts_with :: "string \<Rightarrow> string \<Rightarrow> bool" where
  "starts_with s p \<longleftrightarrow> take (length p) s = p"

section \<open>Split and join\<close>

text \<open>\<open>s.split(d)\<close> for a one-character separator: always at least one piece.\<close>

fun split_on :: "char \<Rightarrow> string \<Rightarrow> string list" where
  "split_on d [] = [[]]"
| "split_on d (c # cs) =
     (let ps = split_on d cs in if c = d then [] # ps else (c # hd ps) # tl ps)"

text \<open>\<open>xs.join(sep)\<close>.\<close>

fun join_with :: "string \<Rightarrow> string list \<Rightarrow> string" where
  "join_with sep [] = []"
| "join_with sep [x] = x"
| "join_with sep (x # y # xs) = x @ sep @ join_with sep (y # xs)"

section \<open>Lemmas on the helpers\<close>

lemma is_blank_iff [js_simps]: "is_blank s \<longleftrightarrow> (\<forall>c \<in> set s. is_ws c)"
proof -
  have "is_blank s \<longleftrightarrow> (\<forall>c \<in> set (dropWhile is_ws s). is_ws c)"
    by (simp add: is_blank_def js_trim_def dropWhile_eq_Nil_conv)
  also have "\<dots> \<longleftrightarrow> dropWhile is_ws s = []"
    using hd_dropWhile [of is_ws s]
    by (cases "dropWhile is_ws s") (auto dest: set_dropWhileD)
  also have "\<dots> \<longleftrightarrow> (\<forall>c \<in> set s. is_ws c)"
    by (auto simp: dropWhile_eq_Nil_conv dest: set_dropWhileD)
  finally show ?thesis .
qed

lemma js_trim_no_ws [js_simps]:
  "(\<forall>c \<in> set s. \<not> is_ws c) \<Longrightarrow> js_trim s = s"
proof -
  assume "\<forall>c \<in> set s. \<not> is_ws c"
  then have "dropWhile is_ws s = s" and "dropWhile is_ws (rev s) = rev s"
    by (auto simp: dropWhile_eq_self_iff hd_rev last_in_set
        intro: hd_in_set split: list.splits)
  then show ?thesis by (simp add: js_trim_def)
qed

lemma set_js_trim: "set (js_trim s) \<subseteq> set s"
proof -
  have sub: "set (dropWhile P xs) \<subseteq> set xs" for P and xs :: string
    by (auto dest: set_dropWhileD)
  show ?thesis
    unfolding js_trim_def set_rev by (rule subset_trans [OF sub]) (simp add: sub)
qed

lemma split_on_nonempty [simp]: "split_on d s \<noteq> []"
  by (induction s) (auto simp: Let_def)

lemma join_split_on [js_simps]: "join_with [d] (split_on d s) = s"
proof (induction s)
  case Nil
  then show ?case by simp
next
  case (Cons c cs)
  obtain p ps where ps: "split_on d cs = p # ps"
    by (cases "split_on d cs") auto
  with Cons show ?case
    by (cases ps) (auto simp: Let_def)
qed

lemma split_on_append_sep:
  "d \<notin> set x \<Longrightarrow> split_on d (x @ d # s) = x # split_on d s"
  by (induction x) (auto simp: Let_def)

lemma split_on_no_sep: "d \<notin> set x \<Longrightarrow> split_on d x = [x]"
  by (induction x) (auto simp: Let_def)

lemma split_join_on [js_simps]:
  "xs \<noteq> [] \<Longrightarrow> \<forall>x \<in> set xs. d \<notin> set x \<Longrightarrow> split_on d (join_with [d] xs) = xs"
proof (induction xs)
  case Nil
  then show ?case by simp
next
  case (Cons x xs)
  then show ?case
    by (cases xs) (simp_all add: split_on_no_sep split_on_append_sep)
qed

lemma set_join_with:
  "set (join_with sep xs) \<subseteq> set sep \<union> \<Union> (set ` set xs)"
  by (induction sep xs rule: join_with.induct) auto

lemma sep_in_join_with:
  "2 \<le> length xs \<Longrightarrow> set sep \<subseteq> set (join_with sep xs)"
  by (induction sep xs rule: join_with.induct) auto

lemma sep_notin_split_on: "p \<in> set (split_on d s) \<Longrightarrow> d \<notin> set p"
proof (induction s arbitrary: p)
  case Nil
  then show ?case by simp
next
  case (Cons c cs)
  obtain q qs where qs: "split_on d cs = q # qs"
    by (cases "split_on d cs") auto
  with Cons show ?case by (auto simp: Let_def split: if_splits)
qed

lemma rtrim_prefix: "rev (dropWhile P (rev s)) @ rev (takeWhile P (rev s)) = s"
  by (metis rev_append rev_rev_ident takeWhile_dropWhile_id)

lemma ltrim_rtrim:
  assumes "dropWhile P s = s"
  shows "dropWhile P (rev (dropWhile P (rev s))) = rev (dropWhile P (rev s))"
proof (cases "rev (dropWhile P (rev s)) = []")
  case True
  then show ?thesis by (metis dropWhile.simps(1))
next
  case False
  have "hd s = hd (rev (dropWhile P (rev s)))"
    using False rtrim_prefix [of P s] by (metis hd_append2)
  moreover have "s = [] \<or> \<not> P (hd s)"
    using assms by (simp add: dropWhile_eq_self_iff)
  ultimately show ?thesis
    using False by (auto simp: dropWhile_eq_self_iff)
qed

lemma dropWhile_idem [simp]: "dropWhile P (dropWhile P xs) = dropWhile P xs"
  by (induction xs) auto

lemma js_trim_idem [simp]: "js_trim (js_trim s) = js_trim s"
proof -
  let ?l = "dropWhile is_ws s"
  have "dropWhile is_ws ?l = ?l"
    by simp
  then have "dropWhile is_ws (rev (dropWhile is_ws (rev ?l))) = rev (dropWhile is_ws (rev ?l))"
    by (rule ltrim_rtrim)
  then show ?thesis
    by (simp add: js_trim_def)
qed

lemma foldl_upd_map_add:
  "foldl (\<lambda>m (k, v). m(k \<mapsto> v)) m xs = m ++ map_of (rev xs)"
  by (induction xs arbitrary: m) (auto simp: map_add_upd_left map_of_append)

lemma map_of_rev_distinct:
  "distinct (map fst xs) \<Longrightarrow> (k, v) \<in> set xs \<Longrightarrow> map_of (rev xs) k = Some v"
  by (simp add: map_of_is_SomeI rev_map [symmetric])

lemma js_trim_Nil [simp]: "js_trim [] = []"
  by (simp add: js_trim_def)

text \<open>The definitions and library facts that evaluate the helpers on literal strings.\<close>

lemmas js_eval = js_lower_def js_lower_char_def char_of_def bit_simps js_trim_def is_ws_def
  strip_ws_def js_or_def is_blank_def cell_at_def starts_with_def

lemma set_split_on: "p \<in> set (split_on d s) \<Longrightarrow> set p \<subseteq> set s"
proof (induction s arbitrary: p)
  case Nil
  then show ?case by simp
next
  case (Cons c cs)
  obtain q qs where qs: "split_on d cs = q # qs"
    by (cases "split_on d cs") auto
  with Cons show ?case by (fastforce simp: Let_def split: if_splits)
qed

lemma js_trim_ends:
  assumes "js_trim s \<noteq> []"
  shows "\<not> is_ws (hd (js_trim s)) \<and> \<not> is_ws (last (js_trim s))"
proof -
  let ?l = "dropWhile is_ws s"
  have ne: "dropWhile is_ws (rev ?l) \<noteq> []" using assms by (simp add: js_trim_def)
  have "hd (js_trim s) = hd ?l"
    using assms rtrim_prefix [of is_ws ?l] by (metis hd_append2 js_trim_def)
  moreover have "\<not> is_ws (hd ?l)"
  proof -
    have "?l \<noteq> []"
    proof
      assume "?l = []"
      then show False using ne by (metis dropWhile.simps(1) rev.simps(1))
    qed
    then show ?thesis by (metis hd_dropWhile)
  qed
  moreover have "last (js_trim s) = hd (dropWhile is_ws (rev ?l))"
    using ne by (simp add: js_trim_def last_rev)
  moreover have "\<not> is_ws (hd (dropWhile is_ws (rev ?l)))" using ne by (metis hd_dropWhile)
  ultimately show ?thesis by simp
qed

lemma js_trim_id_iff [js_simps]:
  "js_trim s = s \<longleftrightarrow> s = [] \<or> (\<not> is_ws (hd s) \<and> \<not> is_ws (last s))"
proof
  assume "js_trim s = s"
  then show "s = [] \<or> (\<not> is_ws (hd s) \<and> \<not> is_ws (last s))"
    using js_trim_ends [of s] by (cases "s = []") simp_all
next
  assume a: "s = [] \<or> (\<not> is_ws (hd s) \<and> \<not> is_ws (last s))"
  show "js_trim s = s"
  proof (cases "s = []")
    case False
    then have "dropWhile is_ws s = s" "dropWhile is_ws (rev s) = rev s"
      using a by (simp_all add: dropWhile_eq_self_iff hd_rev)
    then show ?thesis by (simp add: js_trim_def)
  qed simp
qed

end
