(* ===== verification/Backend.thy ===== *)
theory Backend
  imports Prelude
begin

text \<open>
  The data model the front end shares with the backend actor, translated from the
  generated interface \<open>src/frontend/src/backend.d.ts\<close>: the enums as datatypes with
  the interface's constructors, the \<open>Resource\<close> interface as a record, \<open>Time\<close>
  (a JavaScript \<open>bigint\<close> of nanoseconds) as \<open>int\<close>. The field \<open>id\<close> is
  \<open>res_id\<close> here, because \<open>id\<close> is the identity function of HOL.

  The actor itself is not part of the sources under \<open>src/\<close>; its one operation
  the import pipeline depends on, \<open>addBulkResources\<close>, is modelled from the
  specification (section 6): the submitted records are appended to the stored
  collection, in order.
\<close>

type_synonym time = int

datatype BillabilityStatus = billable | nonBillable

datatype NonBillableStatus =
    availableForDeployment
  | solutionInvestment
  | biBench
  | partialBench
  | projectBuffer
  | benchBlocked
  | maternity
  | deliverySupport

datatype ResourceStatus = active | inactive

text \<open>The run-time value stored in the optional \<open>nonBillableStatus\<close> field. The
  interface types it as \<open>NonBillableStatus\<close>, but JavaScript does not enforce this:
  a lookup in a plain object literal can also return a member inherited from
  \<open>Object.prototype\<close> (see \<open>parseNonBillableStatus\<close>). \<open>NB_foreign k\<close> is such
  a value, found under the key \<open>k\<close>.\<close>

datatype nb_value = NB NonBillableStatus | NB_foreign string

record resource =
  res_id :: string
  doj :: time
  status :: ResourceStatus
  client :: string
  assignmentStartDate :: time
  totalExperience :: string
  name :: string
  role :: string
  skillTags :: "string list"
  projectManager :: string
  deliveryHead :: string
  assignmentEndDate :: time
  email :: string
  employeeId :: string
  projectId :: "string option"
  practice :: string
  primarySkills :: "string list"
  billabilityStatus :: BillabilityStatus
  contactNumber :: string
  department :: string
  secondarySkills :: "string list"
  location :: string
  nonBillableStatus :: "nb_value option"
  project :: string
  reportingManager :: string

datatype UserRole = pm | pmo | admin | deliveryHead | employee | management

text \<open>\<open>ProjectStatus\<close>: its constructors carry the prefix \<open>ps_\<close>, because \<open>active\<close>
  is already the constructor of \<open>ResourceStatus\<close>. The fields of \<open>Milestone\<close>,
  \<open>Project\<close> and \<open>TimesheetEntry\<close> whose names the records above already use (\<open>id\<close>,
  \<open>name\<close>, \<open>status\<close>, \<open>projectId\<close>, \<open>description\<close>) carry the record's prefix.\<close>

datatype ProjectStatus = ps_active | ps_completed | ps_onHold | ps_planning

datatype TimesheetStatus = submitted | approved | draft

record Milestone =
  milestone_id :: string
  title :: string
  completed :: bool
  dueDate :: time

record Project =
  project_id :: string
  project_status :: ProjectStatus
  assignedResourceIds :: "string list"
  endDate :: time
  project_name :: string
  project_description :: string
  budget :: int
  startDate :: time
  milestones :: "Milestone list"
  managerName :: string

record TimesheetEntry =
  entry_id :: string
  entry_status :: TimesheetStatus
  resourceId :: string
  entry_date :: time
  entry_description :: string
  entry_projectId :: string
  hoursLogged :: int

record UserProfile =
  appRole :: UserRole
  profile_name :: string

section \<open>The backend actor's resource collection\<close>

record actor_store =
  stored_resources :: "resource list"

text \<open>\<open>addBulkResources(resourceList)\<close>: the whole list is stored in one call.\<close>

definition addBulkResources :: "resource list \<Rightarrow> actor_store \<Rightarrow> actor_store" where
  "addBulkResources rs st = st\<lparr>stored_resources := stored_resources st @ rs\<rparr>"

lemma addBulkResources_Nil [simp]: "addBulkResources [] st = st"
  by (simp add: addBulkResources_def)

lemma stored_addBulkResources [simp]:
  "stored_resources (addBulkResources rs st) = stored_resources st @ rs"
  by (simp add: addBulkResources_def)

end
