(* ===== verification/Access.thy ===== *)
theory Access
  imports Backend
begin

text \<open>
  Who sees what: the role table \<open>ROLE_ACCESS\<close>, \<open>getDefaultRoute\<close>, the components
  \<open>RouteGuard\<close>, \<open>RootLayout\<close> and \<open>IndexRedirect\<close> of \<open>src/frontend/src/App.tsx\<close>,
  the navigation of \<open>components/Layout.tsx\<close>, the role check of
  \<open>pages/ReportsPage.tsx\<close>, the buttons of \<open>components/AccessDeniedScreen.tsx\<close>, and
  the demo session of \<open>hooks/useDemoAuth.ts\<close>.

  A component that only decides what to render is a function from its inputs to a
  datatype of the things it can render. Its inputs are \<open>auth_env\<close>: whether the
  identity provider has an identity and is still initialising, the demo profile of
  the demo context (demo mode is "a demo profile is set"), and the state of the
  profile query (\<open>None\<close> while \<open>data\<close> is undefined, \<open>Some None\<close> for \<open>null\<close>).
  The demo session and the logout buttons change state: \<open>session\<close> holds the
  identity, the stored demo profile (\<open>localStorage\<close>), the demo hook's state and
  the current route, and \<open>session_step\<close> applies one user action to it.
\<close>

section \<open>Role access\<close>

definition ROLE_ACCESS :: "UserRole \<Rightarrow> string list" where
  "ROLE_ACCESS r =
     (case r of
        admin \<Rightarrow> [''/dashboard'', ''/resources'', ''/projects'', ''/timesheets'', ''/reports'']
      | pmo \<Rightarrow> [''/dashboard'', ''/resources'', ''/projects'', ''/timesheets'', ''/reports'']
      | pm \<Rightarrow> [''/dashboard'', ''/resources'', ''/projects'', ''/timesheets'']
      | deliveryHead \<Rightarrow> [''/dashboard'', ''/resources'', ''/projects'', ''/timesheets'', ''/reports'']
      | management \<Rightarrow> [''/dashboard'', ''/reports'']
      | employee \<Rightarrow> [''/dashboard'', ''/timesheets''])"

text \<open>\<open>ROLE_ACCESS[role]?.[0] ?? '/dashboard'\<close>.\<close>

definition getDefaultRoute :: "UserRole \<Rightarrow> string" where
  "getDefaultRoute r = (case ROLE_ACCESS r of [] \<Rightarrow> ''/dashboard'' | p # _ \<Rightarrow> p)"

section \<open>What the route components render\<close>

record auth_env =
  identity :: bool
  isInitializing :: bool
  demoProfile :: "UserProfile option"
  profile_data :: "UserProfile option option"
  profileLoading :: bool
  profileFetched :: bool

definition isDemoMode :: "auth_env \<Rightarrow> bool" where
  "isDemoMode env \<longleftrightarrow> demoProfile env \<noteq> None"

text \<open>The query's \<open>data\<close> as a profile: undefined and \<open>null\<close> are both absent.\<close>

definition userProfile :: "auth_env \<Rightarrow> UserProfile option" where
  "userProfile env = (case profile_data env of Some (Some p) \<Rightarrow> Some p | _ \<Rightarrow> None)"

definition activeProfile :: "auth_env \<Rightarrow> UserProfile option" where
  "activeProfile env = (if isDemoMode env then demoProfile env else userProfile env)"

definition isAuthenticated :: "auth_env \<Rightarrow> bool" where
  "isAuthenticated env \<longleftrightarrow> identity env \<or> isDemoMode env"

definition isProfileLoading :: "auth_env \<Rightarrow> bool" where
  "isProfileLoading env \<longleftrightarrow> (if isDemoMode env then False else isInitializing env \<or> profileLoading env)"

datatype guard_view = GuardNothing | GuardSpinner | GuardDenied UserRole string | GuardChildren

definition RouteGuard :: "auth_env \<Rightarrow> string \<Rightarrow> guard_view" where
  "RouteGuard env path =
     (if \<not> isAuthenticated env \<and> \<not> isInitializing env then GuardNothing
      else if isProfileLoading env then GuardSpinner
      else case activeProfile env of
             None \<Rightarrow> GuardNothing
           | Some p \<Rightarrow>
               if path \<notin> set (ROLE_ACCESS (appRole p))
               then GuardDenied (appRole p) (getDefaultRoute (appRole p))
               else GuardChildren)"

datatype root_view = RootLoading | RootLogin | RootProfileSetup | RootSpinner | RootShell UserProfile

definition RootLayout :: "auth_env \<Rightarrow> root_view" where
  "RootLayout env =
     (let isProfileFetched = (if isDemoMode env then True else profileFetched env);
          showProfileSetup = isAuthenticated env \<and> \<not> isProfileLoading env \<and> isProfileFetched \<and>
                             \<not> isDemoMode env \<and> profile_data env = Some None
      in if isInitializing env \<and> \<not> isDemoMode env then RootLoading
         else if \<not> isAuthenticated env then RootLogin
         else if showProfileSetup then RootProfileSetup
         else case activeProfile env of None \<Rightarrow> RootSpinner | Some p \<Rightarrow> RootShell p)"

text \<open>The effect of \<open>IndexRedirect\<close>: the route it navigates to, if any.\<close>

definition IndexRedirect :: "auth_env \<Rightarrow> string option" where
  "IndexRedirect env =
     (if \<not> identity env \<and> \<not> isDemoMode env then None
      else case activeProfile env of None \<Rightarrow> None | Some p \<Rightarrow> Some (getDefaultRoute (appRole p)))"

section \<open>Navigation\<close>

record nav_item =
  nav_path :: string
  nav_label :: string
  nav_roles :: "UserRole list"

definition ALL_NAV_ITEMS :: "nav_item list" where
  "ALL_NAV_ITEMS =
     [\<lparr>nav_path = ''/'', nav_label = ''Dashboard'', nav_roles = [admin, management]\<rparr>,
      \<lparr>nav_path = ''/resources'', nav_label = ''Resources'', nav_roles = [admin, pmo, deliveryHead]\<rparr>,
      \<lparr>nav_path = ''/timesheets'', nav_label = ''Timesheets'', nav_roles = [admin, pm, employee]\<rparr>,
      \<lparr>nav_path = ''/projects'', nav_label = ''Projects'', nav_roles = [admin, pmo, pm, deliveryHead]\<rparr>,
      \<lparr>nav_path = ''/reports'', nav_label = ''Reports'', nav_roles = [admin, management]\<rparr>]"

text \<open>\<open>allowedPaths.some((p) => (p === '/' ? item.path === '/' : item.path.startsWith(p)))\<close>;
  the fallback for a role missing from the table is unreachable, every role has an entry.\<close>

definition navItems :: "UserRole \<Rightarrow> nav_item list" where
  "navItems r =
     filter (\<lambda>item. list_ex (\<lambda>p. if p = ''/'' then nav_path item = ''/'' else starts_with (nav_path item) p)
                       (ROLE_ACCESS r))
       ALL_NAV_ITEMS"

definition isActive :: "string \<Rightarrow> nav_item \<Rightarrow> bool" where
  "isActive currentPath item \<longleftrightarrow>
     (if nav_path item = ''/'' then currentPath = ''/'' else starts_with currentPath (nav_path item))"

definition page_title :: "UserRole \<Rightarrow> string \<Rightarrow> string" where
  "page_title r currentPath =
     (case find (isActive currentPath) (navItems r) of None \<Rightarrow> ''TeamTrack'' | Some n \<Rightarrow> nav_label n)"

definition ROLE_LABELS :: "UserRole \<Rightarrow> string" where
  "ROLE_LABELS r =
     (case r of admin \<Rightarrow> ''Admin'' | pmo \<Rightarrow> ''PMO'' | pm \<Rightarrow> ''Manager / PM''
      | deliveryHead \<Rightarrow> ''Delivery Head'' | management \<Rightarrow> ''Management'' | employee \<Rightarrow> ''Employee'')"

section \<open>The reports page\<close>

definition ALLOWED_ROLES :: "UserRole list" where "ALLOWED_ROLES = [admin, management]"

definition ADMIN_ROLES :: "UserRole list" where "ADMIN_ROLES = [admin]"

datatype report_content = ReportSkeleton | ReportFrame string | ReportNotConfigured

datatype reports_view =
    ReportsNothing
  | ReportsSpinner
  | ReportsDenied "UserRole option" string
  | ReportsShown bool report_content

text \<open>\<open>ReportsPage\<close>, with the state of the embed-URL query: loading, and its data
  (an empty URL is falsy and counts as not configured).\<close>

definition ReportsPage :: "auth_env \<Rightarrow> bool \<Rightarrow> string option \<Rightarrow> reports_view" where
  "ReportsPage env urlLoading embedUrl =
     (if \<not> isDemoMode env \<and> \<not> identity env then ReportsNothing
      else if \<not> isDemoMode env \<and> profileLoading env then ReportsSpinner
      else case activeProfile env of
             None \<Rightarrow> ReportsDenied None ''/dashboard''
           | Some p \<Rightarrow>
               if appRole p \<notin> set ALLOWED_ROLES
               then ReportsDenied (Some (appRole p)) (getDefaultRoute (appRole p))
               else ReportsShown (appRole p \<in> set ADMIN_ROLES)
                      (if urlLoading then ReportSkeleton
                       else case embedUrl of
                              Some u \<Rightarrow> if u = [] then ReportNotConfigured else ReportFrame u
                            | None \<Rightarrow> ReportNotConfigured))"

section \<open>The demo session and logging out\<close>

definition DEMO_PROFILES :: "UserRole \<Rightarrow> UserProfile" where
  "DEMO_PROFILES r =
     \<lparr>appRole = r,
      profile_name = (case r of employee \<Rightarrow> ''Demo Employee'' | pm \<Rightarrow> ''Demo Manager''
                      | deliveryHead \<Rightarrow> ''Demo Delivery Head'' | pmo \<Rightarrow> ''Demo PMO''
                      | admin \<Rightarrow> ''Demo Admin'' | management \<Rightarrow> ''Demo Management'')\<rparr>"

text \<open>The demo roles the login page offers, with the description it shows for each.\<close>

definition DEMO_ROLES :: "(UserRole \<times> string) list" where
  "DEMO_ROLES =
     [(employee, ''View dashboard and log timesheets''),
      (pm, ''Manage projects, resources, and timesheets''),
      (deliveryHead, ''Full access including reports''),
      (pmo, ''Full access to all modules'')]"

text \<open>What the session consists of: the identity provider's state, the demo profile in
  \<open>localStorage\<close> under \<open>teamtrack_demo_session\<close> and in the demo hook's state, the
  caller's profile as the backend stores it, the profile query's cache, and the route.\<close>

record session =
  ii_identity :: bool
  stored_demo :: "UserProfile option"
  demo_state :: "UserProfile option"
  backend_profile :: "UserProfile option"
  profile_cache :: "UserProfile option option"
  current_route :: string

definition loginAsDemo :: "UserRole \<Rightarrow> session \<Rightarrow> session" where
  "loginAsDemo r s = s\<lparr>stored_demo := Some (DEMO_PROFILES r), demo_state := Some (DEMO_PROFILES r)\<rparr>"

definition logoutDemo :: "session \<Rightarrow> session" where
  "logoutDemo s = s\<lparr>stored_demo := None, demo_state := None\<rparr>"

text \<open>A page load: the demo hook's state starts from \<open>loadDemoSession()\<close>, the query
  cache starts empty.\<close>

definition reload :: "session \<Rightarrow> session" where
  "reload s = s\<lparr>demo_state := stored_demo s, profile_cache := None\<rparr>"

text \<open>\<open>handleLogout\<close> of \<open>Layout\<close> and of \<open>AccessDeniedScreen\<close>, given the demo flag
  each reads: in demo mode the demo session ends and the app goes to \<open>/\<close>; otherwise
  the identity is cleared and so is the query cache.\<close>

definition handleLogout :: "bool \<Rightarrow> session \<Rightarrow> session" where
  "handleLogout demo s =
     (if demo then (logoutDemo s)\<lparr>current_route := ''/''\<rparr>
      else s\<lparr>ii_identity := False, profile_cache := None\<rparr>)"

text \<open>The inputs the route components see in a session: the identity provider is done
  initialising, and the profile query is loading exactly while an identity is present
  and its result is not cached.\<close>

definition env_of :: "session \<Rightarrow> auth_env" where
  "env_of s =
     \<lparr>identity = ii_identity s, isInitializing = False, demoProfile = demo_state s,
      profile_data = profile_cache s, profileLoading = (ii_identity s \<and> profile_cache s = None),
      profileFetched = (profile_cache s \<noteq> None)\<rparr>"

datatype session_event =
    LoginII
  | FetchProfile
  | LoginDemo UserRole
  | SaveProfile string UserRole
  | LogoutShell
  | LogoutDenied
  | GoBack
  | Navigate string
  | Reload

text \<open>One user action, applied when the control that raises it is on screen. The
  login page (with its demo tab) shows when \<open>RootLayout\<close> renders it; the profile
  form when it renders the profile setup, and \<open>handleSaveProfile\<close> returns early on a
  blank name; the sidebar's logout button and its links are part of the shell, which
  \<open>RootLayout\<close> renders as \<open><Layout userProfile={activeProfile}>\<close>, leaving
  \<open>isDemoMode\<close> at its default \<open>false\<close>; the access-denied screen's buttons show
  when the guard of the current route denies it.\<close>

fun session_step :: "session_event \<Rightarrow> session \<Rightarrow> session" where
  "session_step LoginII s =
     (if RootLayout (env_of s) = RootLogin then s\<lparr>ii_identity := True, profile_cache := None\<rparr> else s)"
| "session_step FetchProfile s =
     (if ii_identity s then s\<lparr>profile_cache := Some (backend_profile s)\<rparr> else s)"
| "session_step (LoginDemo r) s =
     (if RootLayout (env_of s) = RootLogin \<and> r \<in> fst ` set DEMO_ROLES then loginAsDemo r s else s)"
| "session_step (SaveProfile nm r) s =
     (if RootLayout (env_of s) = RootProfileSetup \<and> \<not> is_blank nm
      then s\<lparr>backend_profile := Some \<lparr>appRole = r, profile_name = js_trim nm\<rparr>, profile_cache := None\<rparr>
      else s)"
| "session_step LogoutShell s =
     (case RootLayout (env_of s) of RootShell _ \<Rightarrow> handleLogout False s | _ \<Rightarrow> s)"
| "session_step LogoutDenied s =
     (case RouteGuard (env_of s) (current_route s) of
        GuardDenied _ _ \<Rightarrow> handleLogout (isDemoMode (env_of s)) s
      | _ \<Rightarrow> s)"
| "session_step GoBack s =
     (case RouteGuard (env_of s) (current_route s) of
        GuardDenied _ route \<Rightarrow> s\<lparr>current_route := route\<rparr>
      | _ \<Rightarrow> s)"
| "session_step (Navigate path) s =
     (case RootLayout (env_of s) of
        RootShell p \<Rightarrow> if path \<in> nav_path ` set (navItems (appRole p)) then s\<lparr>current_route := path\<rparr> else s
      | _ \<Rightarrow> s)"
| "session_step Reload s = reload s"

definition init_session :: session where
  "init_session = \<lparr>ii_identity = False, stored_demo = None, demo_state = None, backend_profile = None,
                   profile_cache = None, current_route = ''/''\<rparr>"

inductive session_reach :: "session \<Rightarrow> bool" where
  start: "session_reach init_session"
| step: "session_reach s \<Longrightarrow> session_reach (session_step e s)"

section \<open>Lemmas\<close>

lemma getDefaultRoute_allowed: "getDefaultRoute r \<in> set (ROLE_ACCESS r)"
  by (cases r) (simp_all add: getDefaultRoute_def ROLE_ACCESS_def)

lemma getDefaultRoute_dashboard: "getDefaultRoute r = ''/dashboard''"
  by (cases r) (simp_all add: getDefaultRoute_def ROLE_ACCESS_def)

lemmas env_defs = isDemoMode_def userProfile_def activeProfile_def isAuthenticated_def isProfileLoading_def

lemma navItems_cases:
  "navItems r = filter (\<lambda>i. nav_path i \<in> set (ROLE_ACCESS r)) ALL_NAV_ITEMS"
  by (cases r) (simp_all add: navItems_def ALL_NAV_ITEMS_def ROLE_ACCESS_def js_eval)

lemma demo_env:
  "demoProfile env = Some p \<Longrightarrow> isDemoMode env \<and> activeProfile env = Some p \<and>
     isAuthenticated env \<and> \<not> isProfileLoading env"
  by (simp add: env_defs)

lemma RootLayout_demo:
  "demo_state s = Some p \<Longrightarrow> RootLayout (env_of s) = RootShell p"
  using demo_env [of "env_of s" p] by (simp add: RootLayout_def env_of_def Let_def)

lemma session_step_cases:
  "session_step e s = s \<or> session_step e s = loginAsDemo r s \<or> session_step e s = reload s \<or>
   (\<exists>d. session_step e s = handleLogout d s) \<or>
   (\<exists>rt. session_step e s = s\<lparr>current_route := rt\<rparr>) \<or>
   session_step e s = s\<lparr>ii_identity := True, profile_cache := None\<rparr> \<or>
   session_step e s = s\<lparr>profile_cache := Some (backend_profile s)\<rparr> \<or>
   (\<exists>q. session_step e s = s\<lparr>backend_profile := q, profile_cache := None\<rparr>) \<or>
   (\<exists>r'. session_step e s = loginAsDemo r' s)"
  by (cases e) (auto split: root_view.splits guard_view.splits)

section \<open>Properties of access control\<close>

definition DEMO_PMO_ENV :: auth_env where
  "DEMO_PMO_ENV = env_of (loginAsDemo pmo init_session)"

text \<open>a route's page is rendered exactly when the user is signed in (identity or
  demo session), the profile is not loading, and the active profile's role lists the
  route in \<open>ROLE_ACCESS\<close>.\<close>

theorem RouteGuard_children_iff:
  "RouteGuard env path = GuardChildren \<longleftrightarrow>
   isAuthenticated env \<and> \<not> isProfileLoading env \<and>
   (\<exists>p. activeProfile env = Some p \<and> path \<in> set (ROLE_ACCESS (appRole p)))"
  by (auto simp: RouteGuard_def env_defs split: option.splits if_splits)

text \<open>C14:where the index page redirects a signed-in user with a loaded profile, the
  guard of that route renders the page: the default route of every role is one of its
  own routes.\<close>

theorem IndexRedirect_admitted:
  assumes "IndexRedirect env = Some path" and "\<not> isProfileLoading env"
  shows "RouteGuard env path = GuardChildren"
  using assms getDefaultRoute_allowed
  by (auto simp: IndexRedirect_def RouteGuard_def env_defs split: option.splits if_splits)

theorem IndexRedirect_admitted_witness:
  "RouteGuard DEMO_PMO_ENV ''/dashboard'' = GuardChildren"
proof -
  have "IndexRedirect DEMO_PMO_ENV = Some ''/dashboard''" "\<not> isProfileLoading DEMO_PMO_ENV"
    by (simp_all add: DEMO_PMO_ENV_def IndexRedirect_def env_of_def loginAsDemo_def init_session_def
        DEMO_PROFILES_def getDefaultRoute_dashboard env_defs)
  then show ?thesis by (rule IndexRedirect_admitted)
qed

text \<open>the sidebar lists exactly the items whose path is one of the role's routes,
  in the fixed item order; the roles written on each item are never read.\<close>

theorem navItems_routes:
  "map nav_path (navItems r) = filter (\<lambda>x. x \<in> set (ROLE_ACCESS r)) (map nav_path ALL_NAV_ITEMS)"
  by (simp add: navItems_cases filter_map comp_def)

text \<open>the Dashboard item (path \<open>/\<close>) is shown to no role, because no role's
  route list contains \<open>/\<close> and \<open>'/'.startsWith('/dashboard')\<close> is false; on the
  index page the header falls back to the product name.\<close>

theorem navItems_no_dashboard:
  "''Dashboard'' \<notin> nav_label ` set (navItems r) \<and> page_title r ''/'' = ''TeamTrack''"
  by (cases r) (simp_all add: navItems_def ALL_NAV_ITEMS_def ROLE_ACCESS_def page_title_def
      isActive_def js_eval)

text \<open>C15:the reports route admits admin, PMO, delivery head and management, but the
  reports page itself admits only admin and management: a PMO or delivery-head user
  the guard lets through (and whose sidebar lists Reports) gets the access-denied
  screen.\<close>

theorem reports_guard_page:
  assumes "RouteGuard env ''/reports'' = GuardChildren" and "activeProfile env = Some p"
  shows "appRole p \<in> {admin, pmo, deliveryHead, management} \<and>
         (ReportsPage env l u = ReportsDenied (Some (appRole p)) ''/dashboard'' \<longleftrightarrow>
          appRole p \<in> {pmo, deliveryHead})"
proof -
  have g: "isAuthenticated env" "\<not> isProfileLoading env" "''/reports'' \<in> set (ROLE_ACCESS (appRole p))"
    using assms unfolding RouteGuard_children_iff by auto
  then have roles: "appRole p \<in> {admin, pmo, deliveryHead, management}"
    by (cases "appRole p") (simp_all add: ROLE_ACCESS_def)
  moreover have "ReportsPage env l u =
      (if appRole p \<notin> set ALLOWED_ROLES then ReportsDenied (Some (appRole p)) ''/dashboard''
       else ReportsShown (appRole p \<in> set ADMIN_ROLES)
              (if l then ReportSkeleton else case u of
                 Some v \<Rightarrow> if v = [] then ReportNotConfigured else ReportFrame v
               | None \<Rightarrow> ReportNotConfigured))"
    using g(1,2) assms(2) by (simp add: ReportsPage_def env_defs getDefaultRoute_dashboard split: if_splits)
  ultimately show ?thesis
    by (auto simp: ALLOWED_ROLES_def)
qed

theorem reports_guard_page_witness:
  "appRole (DEMO_PROFILES pmo) \<in> {admin, pmo, deliveryHead, management} \<and>
   (ReportsPage DEMO_PMO_ENV False (Some ''https://x'') = ReportsDenied (Some (appRole (DEMO_PROFILES pmo))) ''/dashboard'' \<longleftrightarrow>
    appRole (DEMO_PROFILES pmo) \<in> {pmo, deliveryHead})"
proof -
  have a: "activeProfile DEMO_PMO_ENV = Some (DEMO_PROFILES pmo)"
    by (simp add: DEMO_PMO_ENV_def env_of_def loginAsDemo_def init_session_def env_defs)
  have "RouteGuard DEMO_PMO_ENV ''/reports'' = GuardChildren"
    using a by (simp add: RouteGuard_def DEMO_PMO_ENV_def env_of_def loginAsDemo_def init_session_def
        env_defs DEMO_PROFILES_def ROLE_ACCESS_def)
  then show ?thesis using reports_guard_page [OF _ a] by blast
qed

section \<open>Properties of the session\<close>

fun session_run :: "session_event list \<Rightarrow> session \<Rightarrow> session" where
  "session_run [] s = s"
| "session_run (e # es) s = session_run es (session_step e s)"

text \<open>C16:in every session reachable from a fresh page, the demo hook's state and
  the stored demo session agree: the demo profile survives a reload exactly as long as
  it is shown.\<close>

theorem session_reach_demo_sync:
  "session_reach s \<Longrightarrow> demo_state s = stored_demo s"
proof (induction rule: session_reach.induct)
  case start
  then show ?case by (simp add: init_session_def)
next
  case (step s e)
  then show ?case
    using session_step_cases [of e s pmo]
    by (auto simp: loginAsDemo_def reload_def handleLogout_def logoutDemo_def)
qed

theorem session_reach_demo_sync_witness:
  "demo_state (session_step Reload (session_step (LoginDemo pm) init_session)) =
   stored_demo (session_step Reload (session_step (LoginDemo pm) init_session))"
  using session_reach_demo_sync [OF session_reach.step [OF session_reach.step [OF session_reach.start]]] .

text \<open>C17:the sidebar's logout button does not end a demo session: the shell is
  rendered without the demo flag, so the button clears the identity provider instead,
  and the demo profile stays both in the hook and in storage; the same user is shown
  the shell again.\<close>

theorem shell_logout_keeps_demo:
  assumes "demo_state s = Some p"
  shows "demo_state (session_step LogoutShell s) = Some p \<and>
         stored_demo (session_step LogoutShell s) = stored_demo s \<and>
         RootLayout (env_of (session_step LogoutShell s)) = RootShell p"
proof -
  have "session_step LogoutShell s = handleLogout False s"
    using RootLayout_demo [OF assms] by simp
  then show ?thesis
    using assms RootLayout_demo [of "s\<lparr>ii_identity := False, profile_cache := None\<rparr>" p]
    by (simp add: handleLogout_def)
qed

theorem shell_logout_keeps_demo_witness:
  "demo_state (session_step LogoutShell (loginAsDemo pmo init_session)) = Some (DEMO_PROFILES pmo) \<and>
   stored_demo (session_step LogoutShell (loginAsDemo pmo init_session)) =
     stored_demo (loginAsDemo pmo init_session) \<and>
   RootLayout (env_of (session_step LogoutShell (loginAsDemo pmo init_session))) = RootShell (DEMO_PROFILES pmo)"
  using shell_logout_keeps_demo [of "loginAsDemo pmo init_session" "DEMO_PROFILES pmo"]
  by (simp add: loginAsDemo_def)

text \<open>the access-denied screen's logout reads the demo flag from the context, so
  in a demo session without an identity it ends the session: storage and hook are
  cleared and the login page is shown.\<close>

theorem denied_logout_ends_demo:
  assumes "demo_state s = Some p" and "\<not> ii_identity s"
    and "RouteGuard (env_of s) (current_route s) = GuardDenied r d"
  shows "stored_demo (session_step LogoutDenied s) = None \<and>
         RootLayout (env_of (session_step LogoutDenied s)) = RootLogin"
  using assms demo_env [of "env_of s" p]
  by (simp add: handleLogout_def logoutDemo_def env_of_def RootLayout_def env_defs)

theorem denied_logout_ends_demo_witness:
  "stored_demo (session_step LogoutDenied ((loginAsDemo employee init_session)\<lparr>current_route := ''/reports''\<rparr>)) = None \<and>
   RootLayout (env_of (session_step LogoutDenied ((loginAsDemo employee init_session)\<lparr>current_route := ''/reports''\<rparr>))) = RootLogin"
proof -
  let ?s = "(loginAsDemo employee init_session)\<lparr>current_route := ''/reports''\<rparr>"
  have "demo_state ?s = Some (DEMO_PROFILES employee)" "\<not> ii_identity ?s"
    by (simp_all add: loginAsDemo_def init_session_def)
  moreover have "RouteGuard (env_of ?s) (current_route ?s) = GuardDenied employee ''/dashboard''"
    by (simp add: RouteGuard_def env_of_def loginAsDemo_def init_session_def env_defs DEMO_PROFILES_def
        ROLE_ACCESS_def getDefaultRoute_dashboard)
  ultimately show ?thesis by (rule denied_logout_ends_demo)
qed

text \<open>C18:whoever signs in with a new identity picks their own role on the profile
  form, administrator included: saving the form with any non-blank name and any role,
  and fetching the profile again, shows the shell with that role.\<close>

theorem profile_setup_any_role:
  assumes "RootLayout (env_of s) = RootProfileSetup" and "\<not> is_blank nm"
  shows "RootLayout (env_of (session_step FetchProfile (session_step (SaveProfile nm r) s))) =
         RootShell \<lparr>appRole = r, profile_name = js_trim nm\<rparr>"
proof -
  have s: "demo_state s = None" "ii_identity s"
    using assms(1) by (auto simp: RootLayout_def env_of_def Let_def env_defs split: if_splits option.splits)
  then show ?thesis
    using assms by (simp add: RootLayout_def env_of_def Let_def env_defs)
qed

theorem profile_setup_any_role_witness:
  "RootLayout (env_of (session_run [LoginII, FetchProfile, SaveProfile ''Eve'' admin, FetchProfile] init_session)) =
   RootShell \<lparr>appRole = admin, profile_name = ''Eve''\<rparr>"
proof -
  let ?s = "session_run [LoginII, FetchProfile] init_session"
  have form: "RootLayout (env_of ?s) = RootProfileSetup"
    by (simp add: init_session_def RootLayout_def env_of_def env_defs)
  have nb: "\<not> is_blank ''Eve''" by (simp add: js_eval)
  have "js_trim ''Eve'' = ''Eve''" by (simp add: js_eval)
  then show ?thesis
    using profile_setup_any_role [OF form nb, of admin] by simp
qed

end
