(* ===== verification/ArraySort.thy ===== *)
theory ArraySort
  imports Prelude "HOL-Library.Multiset"
begin

text \<open>
  \<open>Array.prototype.sort(comparefn)\<close>, which the table view and the dashboard call
  with a comparator returning a number whose sign orders two elements. ECMAScript
  requires the result to be a permutation of the array and, when the comparator is
  consistent, sorted by it and stable (elements the comparator calls equal keep their
  order). \<open>js_sort\<close> is the stable insertion sort: each element, from the last to the
  first, goes in front of the first element it is not greater than. The lemmas show
  the three requirements, and that for a comparator that subtracts numeric keys the
  result is the library's stable \<open>sort_key\<close>.
\<close>

fun ins_by :: "('a \<Rightarrow> 'a \<Rightarrow> int) \<Rightarrow> 'a \<Rightarrow> 'a list \<Rightarrow> 'a list" where
  "ins_by cmp x [] = [x]"
| "ins_by cmp x (y # ys) = (if cmp x y \<le> 0 then x # y # ys else y # ins_by cmp x ys)"

definition js_sort :: "('a \<Rightarrow> 'a \<Rightarrow> int) \<Rightarrow> 'a list \<Rightarrow> 'a list" where
  "js_sort cmp xs = foldr (ins_by cmp) xs []"

text \<open>A consistent comparator on the elements of \<open>A\<close> (ECMAScript, SortCompare):
  swapping the arguments flips the sign, and "not greater" is transitive.\<close>

definition consistent_on :: "('a \<Rightarrow> 'a \<Rightarrow> int) \<Rightarrow> 'a set \<Rightarrow> bool" where
  "consistent_on cmp A \<longleftrightarrow>
     (\<forall>a\<in>A. \<forall>b\<in>A. sgn (cmp a b) = - sgn (cmp b a)) \<and>
     (\<forall>a\<in>A. \<forall>b\<in>A. \<forall>c\<in>A. cmp a b \<le> 0 \<longrightarrow> cmp b c \<le> 0 \<longrightarrow> cmp a c \<le> 0)"

abbreviation sorted_by :: "('a \<Rightarrow> 'a \<Rightarrow> int) \<Rightarrow> 'a list \<Rightarrow> bool" where
  "sorted_by cmp xs \<equiv> sorted_wrt (\<lambda>a b. cmp a b \<le> 0) xs"

lemma js_sort_simps [simp]:
  "js_sort cmp [] = []"
  "js_sort cmp (x # xs) = ins_by cmp x (js_sort cmp xs)"
  by (simp_all add: js_sort_def)

lemma mset_ins_by [simp]: "mset (ins_by cmp x xs) = add_mset x (mset xs)"
  by (induction xs) auto

lemma mset_js_sort [simp]: "mset (js_sort cmp xs) = mset xs"
  by (induction xs) auto

lemma set_ins_by [simp]: "set (ins_by cmp x xs) = insert x (set xs)"
  by (simp flip: set_mset_mset)

lemma set_js_sort [simp]: "set (js_sort cmp xs) = set xs"
  by (simp flip: set_mset_mset)

lemma length_js_sort [simp]: "length (js_sort cmp xs) = length xs"
  by (simp flip: size_mset)

lemma consistent_on_mono: "consistent_on cmp B \<Longrightarrow> A \<subseteq> B \<Longrightarrow> consistent_on cmp A"
  unfolding consistent_on_def by blast

lemma consistent_sgn:
  "consistent_on cmp A \<Longrightarrow> a \<in> A \<Longrightarrow> b \<in> A \<Longrightarrow> sgn (cmp a b) = - sgn (cmp b a)"
  unfolding consistent_on_def by blast

lemma consistent_trans:
  "consistent_on cmp A \<Longrightarrow> a \<in> A \<Longrightarrow> b \<in> A \<Longrightarrow> c \<in> A \<Longrightarrow> cmp a b \<le> 0 \<Longrightarrow> cmp b c \<le> 0 \<Longrightarrow>
   cmp a c \<le> 0"
  unfolding consistent_on_def by blast

lemma consistent_flip:
  assumes "consistent_on cmp A" "a \<in> A" "b \<in> A" "\<not> cmp a b \<le> 0"
  shows "cmp b a \<le> 0"
proof -
  have "sgn (cmp a b) = 1" using assms(4) by simp
  then have "sgn (cmp b a) = -1" using consistent_sgn [OF assms(1-3)] by simp
  then show ?thesis by (simp add: sgn_1_neg)
qed

lemma consistent_zero:
  assumes "consistent_on cmp A" "a \<in> A" "b \<in> A" "cmp a b = 0"
  shows "cmp b a = 0"
  using consistent_sgn [OF assms(1,3,2)] assms(4) by (simp add: sgn_0_0)

lemma sorted_ins_by:
  assumes "consistent_on cmp (insert x (set ys))" "sorted_by cmp ys"
  shows "sorted_by cmp (ins_by cmp x ys)"
  using assms
proof (induction ys)
  case Nil
  then show ?case by simp
next
  case (Cons y ys)
  have c: "consistent_on cmp (insert x (set ys))"
    using Cons.prems(1) by (rule consistent_on_mono) auto
  show ?case
  proof (cases "cmp x y \<le> 0")
    case True
    have "cmp x w \<le> 0" if "w \<in> set ys" for w
      using consistent_trans [OF Cons.prems(1), of x y w] True Cons.prems(2) that by simp
    then show ?thesis using True Cons.prems(2) by auto
  next
    case False
    have "cmp y x \<le> 0" using consistent_flip [OF Cons.prems(1) _ _ False] by simp
    then show ?thesis using False Cons.prems(2) Cons.IH [OF c] by simp
  qed
qed

lemma sorted_js_sort: "consistent_on cmp (set xs) \<Longrightarrow> sorted_by cmp (js_sort cmp xs)"
proof (induction xs)
  case (Cons x xs)
  have "consistent_on cmp (set xs)" using Cons.prems by (rule consistent_on_mono) auto
  then show ?case using Cons.prems Cons.IH by (simp add: sorted_ins_by)
qed simp

text \<open>Stability: the elements the comparator calls equal to \<open>x\<close> appear in the
  order they had.\<close>

lemma filter_ins_by:
  assumes "consistent_on cmp (insert y (insert x (set ys)))" "sorted_by cmp ys"
  shows "filter (\<lambda>z. cmp z y = 0) (ins_by cmp x ys) = filter (\<lambda>z. cmp z y = 0) (x # ys)"
  using assms
proof (induction ys)
  case (Cons z ys)
  have c: "consistent_on cmp (insert y (insert x (set ys)))"
    using Cons.prems(1) by (rule consistent_on_mono) auto
  show ?case
  proof (cases "cmp x z \<le> 0")
    case False
    have "\<not> (cmp z y = 0 \<and> cmp x y = 0)"
    proof
      assume e: "cmp z y = 0 \<and> cmp x y = 0"
      have "cmp y z = 0" using consistent_zero [OF Cons.prems(1), of z y] e by simp
      then have "cmp x z \<le> 0" using e consistent_trans [OF Cons.prems(1), of x y z] by simp
      then show False using False by simp
    qed
    moreover have "filter (\<lambda>w. cmp w y = 0) (ins_by cmp x ys) = filter (\<lambda>w. cmp w y = 0) (x # ys)"
      using Cons.IH [OF c] Cons.prems(2) by simp
    ultimately show ?thesis using False by simp
  qed simp
qed simp

lemma stable_js_sort:
  "consistent_on cmp (insert y (set xs)) \<Longrightarrow>
   filter (\<lambda>z. cmp z y = 0) (js_sort cmp xs) = filter (\<lambda>z. cmp z y = 0) xs"
proof (induction xs)
  case (Cons x xs)
  have c: "consistent_on cmp (insert y (set xs))" using Cons.prems by (rule consistent_on_mono) auto
  have s: "sorted_by cmp (js_sort cmp xs)"
    using sorted_js_sort consistent_on_mono [OF c] by blast
  have "consistent_on cmp (insert y (insert x (set (js_sort cmp xs))))"
    using Cons.prems by simp
  then have "filter (\<lambda>z. cmp z y = 0) (ins_by cmp x (js_sort cmp xs)) =
        filter (\<lambda>z. cmp z y = 0) (x # js_sort cmp xs)"
    using filter_ins_by [OF _ s] by blast
  then show ?case using Cons.IH [OF c] by simp
qed simp

text \<open>A comparator \<open>(a, b) => f(a) - f(b)\<close> over integer keys.\<close>

lemma ins_by_key: "ins_by (\<lambda>a b. f a - f b) x ys = insort_key f x (ys :: 'a list)"
  for f :: "'a \<Rightarrow> int"
  by (induction ys) auto

lemma js_sort_key: "js_sort (\<lambda>a b. f a - f b) xs = sort_key f (xs :: 'a list)"
  for f :: "'a \<Rightarrow> int"
  by (induction xs) (simp_all add: ins_by_key)

end
