(* ===== verification/Csv.thy ===== *)
theory Csv
  imports Prelude
begin

text \<open>
  The delimited-text side of the import and export pipeline: \<open>parseCSVLine\<close> and
  \<open>parseCSV\<close> of \<open>src/frontend/src/components/ResourceImportModal.tsx\<close>, and the
  field escaping shared by \<open>generateSampleCSV\<close> (same file) and \<open>escapeCSV\<close> of
  \<open>src/frontend/src/utils/exportUtils.ts\<close>. The character loop of
  \<open>parseCSVLine\<close> is the function \<open>csv_scan\<close>, whose arguments are the loop
  variables \<open>inQuotes\<close>, \<open>current\<close> and \<open>result\<close> and the unread rest of the line;
  the look-ahead \<open>line[i + 1] === '"'\<close> is \<open>take 1 cs = [dq]\<close> and the skip \<open>i++\<close>
  is \<open>drop 1\<close>.

  The main results: one escaped row parses back to its cells
  (\<open>parseCSVLine_csv_row\<close>), and a whole document of such rows parses back to its
  header and rows when no cell holds a line break (\<open>parseCSV_csv_doc\<close>).
\<close>

section \<open>Parsing\<close>

fun csv_scan :: "bool \<Rightarrow> string \<Rightarrow> string list \<Rightarrow> string \<Rightarrow> string list" where
  "csv_scan inQuotes cur res [] = res @ [cur]"
| "csv_scan inQuotes cur res (c # cs) =
     (if c = dq then
        (if inQuotes \<and> take 1 cs = [dq] then csv_scan inQuotes (cur @ [dq]) res (drop 1 cs)
         else csv_scan (\<not> inQuotes) cur res cs)
      else if c = CHR '','' \<and> \<not> inQuotes then csv_scan inQuotes [] (res @ [cur]) cs
      else csv_scan inQuotes (cur @ [c]) res cs)"

definition parseCSVLine :: "string \<Rightarrow> string list" where
  "parseCSVLine line = csv_scan False [] [] line"

text \<open>\<open>text.split(/\r?\n/)\<close>: split at every line feed; a carriage return right before
  a line feed belongs to the separator. The last piece is followed by no line feed and
  keeps its carriage return.\<close>

definition drop_cr :: "string \<Rightarrow> string" where
  "drop_cr p = (if p \<noteq> [] \<and> last p = cr then butlast p else p)"

definition split_lines :: "string \<Rightarrow> string list" where
  "split_lines s = (let ps = split_on nl s in map drop_cr (butlast ps) @ [last ps])"

definition parseCSV :: "string \<Rightarrow> string list \<times> string list list" where
  "parseCSV text =
     (case filter (\<lambda>l. \<not> is_blank l) (split_lines text) of
        [] \<Rightarrow> ([], [])
      | l # ls \<Rightarrow> (parseCSVLine l, map parseCSVLine ls))"

section \<open>Escaping and printing\<close>

text \<open>\<open>val.replace(/"/g, '""')\<close>.\<close>

definition quote_double :: "string \<Rightarrow> string" where
  "quote_double s = concat (map (\<lambda>c. if c = dq then [dq, dq] else [c]) s)"

definition escapeCSV :: "string \<Rightarrow> string" where
  "escapeCSV val =
     (if CHR '','' \<in> set val \<or> dq \<in> set val \<or> nl \<in> set val
      then dq # quote_double val @ [dq] else val)"

text \<open>One line of output, \<open>row.map(escape).join(',')\<close>, and a document,
  \<open>[header, ...rows].join('\n')\<close>.\<close>

definition csv_row :: "string list \<Rightarrow> string" where
  "csv_row cells = join_with '','' (map escapeCSV cells)"

definition csv_doc :: "string list list \<Rightarrow> string" where
  "csv_doc rows = join_with [nl] (map csv_row rows)"

section \<open>Scanning lemmas\<close>

declare csv_scan.simps [simp del]

lemma csv_scan_Nil [simp]: "csv_scan q cur res [] = res @ [cur]"
  by (simp add: csv_scan.simps)

lemma csv_scan_plain:
  "c \<noteq> dq \<Longrightarrow> c \<noteq> CHR '','' \<or> q \<Longrightarrow> csv_scan q cur res (c # cs) = csv_scan q (cur @ [c]) res cs"
  by (auto simp: csv_scan.simps)

lemma csv_scan_comma [simp]:
  "csv_scan False cur res (CHR '','' # cs) = csv_scan False [] (res @ [cur]) cs"
  by (simp add: csv_scan.simps)

text \<open>An unquoted field without quotes or commas is copied into \<open>current\<close>.\<close>

lemma csv_scan_raw:
  "\<forall>c \<in> set x. c \<noteq> dq \<and> c \<noteq> CHR '','' \<Longrightarrow>
   csv_scan False cur res (x @ rest) = csv_scan False (cur @ x) res rest"
  by (induction x arbitrary: cur) (simp_all add: csv_scan_plain)

text \<open>Inside quotes a doubled quote is one literal quote, and the closing quote
  leaves quoted mode, provided no further quote follows it.\<close>

lemma csv_scan_quoted:
  "take 1 rest \<noteq> [dq] \<Longrightarrow>
   csv_scan True cur res (quote_double x @ dq # rest) = csv_scan False (cur @ x) res rest"
proof (induction x arbitrary: cur)
  case Nil
  then show ?case by (simp add: quote_double_def csv_scan.simps)
next
  case (Cons c x)
  then show ?case
    by (cases "c = dq") (simp_all add: quote_double_def csv_scan.simps)
qed

lemma csv_scan_escaped:
  "rest = [] \<or> hd rest = CHR '','' \<Longrightarrow>
   csv_scan False [] res (escapeCSV x @ rest) = csv_scan False x res rest"
proof (cases "CHR '','' \<in> set x \<or> dq \<in> set x \<or> nl \<in> set x")
  case True
  moreover assume "rest = [] \<or> hd rest = CHR '',''"
  then have "take 1 rest \<noteq> [dq]" by (cases rest) auto
  ultimately show ?thesis
    by (simp add: escapeCSV_def csv_scan.simps csv_scan_quoted)
next
  case False
  then show ?thesis
    by (auto simp: escapeCSV_def intro: trans [OF csv_scan_raw])
qed

lemma csv_scan_row:
  "csv_scan False [] res (csv_row (x # xs)) = res @ x # xs"
proof (induction xs arbitrary: x res)
  case Nil
  show ?case
    using csv_scan_escaped [of "[]" res x] by (simp add: csv_row_def)
next
  case (Cons y ys)
  have "csv_row (x # y # ys) = escapeCSV x @ CHR '','' # csv_row (y # ys)"
    by (simp add: csv_row_def)
  then show ?case
    using csv_scan_escaped [of "CHR '','' # csv_row (y # ys)" res x] Cons.IH [of "res @ [x]" y]
    by simp
qed

section \<open>Properties of the parser\<close>

lemma parseCSVLine_nonempty: "parseCSVLine line \<noteq> []"
proof -
  have "csv_scan q cur res s \<noteq> []" for q cur res s
    by (induction q cur res s rule: csv_scan.induct) (auto simp: csv_scan.simps)
  then show ?thesis by (simp add: parseCSVLine_def)
qed

lemma parseCSVLine_row: "cells \<noteq> [] \<Longrightarrow> parseCSVLine (csv_row cells) = cells"
  by (cases cells) (simp_all add: parseCSVLine_def csv_scan_row)

lemma set_split_lines: "l \<in> set (split_lines s) \<Longrightarrow> set l \<subseteq> set s"
proof -
  assume l: "l \<in> set (split_lines s)"
  let ?ps = "split_on nl s"
  have dc: "set (drop_cr p) \<subseteq> set p" for p
    by (auto simp: drop_cr_def dest: in_set_butlastD)
  from l consider p where "p \<in> set (butlast ?ps)" "l = drop_cr p" | "l = last ?ps"
    by (auto simp: split_lines_def Let_def)
  then show ?thesis
  proof cases
    case 1
    then have "p \<in> set ?ps" by (blast dest: in_set_butlastD)
    then show ?thesis using 1 dc set_split_on by blast
  next
    case 2
    then have "l \<in> set ?ps" by simp
    then show ?thesis by (rule set_split_on)
  qed
qed

lemma parseCSV_blank: "is_blank text \<Longrightarrow> parseCSV text = ([], [])"
proof -
  assume "is_blank text"
  then have "is_blank l" if "l \<in> set (split_lines text)" for l
    using set_split_lines [OF that] by (auto simp: is_blank_iff)
  then have "filter (\<lambda>l. \<not> is_blank l) (split_lines text) = []"
    by (simp add: filter_empty_conv)
  then show ?thesis by (simp add: parseCSV_def)
qed

section \<open>The document round trip\<close>

lemma set_escapeCSV: "set (escapeCSV x) \<subseteq> insert dq (set x)"
  by (auto simp: escapeCSV_def quote_double_def split: if_splits)

lemma set_csv_row: "set (csv_row cells) \<subseteq> {dq, CHR '',''} \<union> \<Union> (set ` set cells)"
  using set_join_with [of "'',''" "map escapeCSV cells"] set_escapeCSV by (fastforce simp: csv_row_def)

lemma csv_row_not_blank: "2 \<le> length cells \<Longrightarrow> \<not> is_blank (csv_row cells)"
proof -
  assume "2 \<le> length cells"
  then have "CHR '','' \<in> set (csv_row cells)"
    using sep_in_join_with [of "map escapeCSV cells" "'',''"] by (simp add: csv_row_def)
  moreover have "\<not> is_ws (CHR '','')" by (simp add: is_ws_def)
  ultimately show ?thesis by (auto simp: is_blank_iff)
qed

lemma split_lines_join:
  "ls \<noteq> [] \<Longrightarrow> \<forall>l \<in> set ls. nl \<notin> set l \<and> cr \<notin> set l \<Longrightarrow> split_lines (join_with [nl] ls) = ls"
proof -
  assume ne: "ls \<noteq> []" and clean: "\<forall>l \<in> set ls. nl \<notin> set l \<and> cr \<notin> set l"
  then have "split_on nl (join_with [nl] ls) = ls" by (simp add: split_join_on)
  moreover have "drop_cr l = l" if "l \<in> set (butlast ls)" for l
  proof -
    from that have "l \<in> set ls" by (rule in_set_butlastD)
    with clean have "cr \<notin> set l" by blast
    then show ?thesis by (metis drop_cr_def last_in_set)
  qed
  then have "map drop_cr (butlast ls) = butlast ls"
    by (simp add: map_idI)
  ultimately show ?thesis
    using ne by (simp add: split_lines_def)
qed

text \<open>A row is clean when it has at least two cells (so its line holds a comma and is
  never blank) and no cell holds a line feed or carriage return.\<close>

definition clean_row :: "string list \<Rightarrow> bool" where
  "clean_row cells \<longleftrightarrow> 2 \<le> length cells \<and> (\<forall>c \<in> set cells. nl \<notin> set c \<and> cr \<notin> set c)"

lemma clean_row_line:
  "clean_row cells \<Longrightarrow> nl \<notin> set (csv_row cells) \<and> cr \<notin> set (csv_row cells)"
  using set_csv_row [of cells] by (auto simp: clean_row_def)

lemma parseCSV_doc:
  assumes clean: "\<forall>r \<in> set (header # rows). clean_row r"
  shows "parseCSV (csv_doc (header # rows)) = (header, rows)"
proof -
  have lines: "split_lines (csv_doc (header # rows)) = map csv_row (header # rows)"
    using clean unfolding csv_doc_def by (intro split_lines_join) (auto dest: clean_row_line)
  have "filter (\<lambda>l. \<not> is_blank l) (map csv_row (header # rows)) = map csv_row (header # rows)"
    using clean by (auto simp: clean_row_def csv_row_not_blank)
  moreover have "parseCSVLine (csv_row r) = r" if "r \<in> set (header # rows)" for r
    using clean that by (intro parseCSVLine_row) (auto simp: clean_row_def)
  ultimately show ?thesis
    by (simp add: parseCSV_def lines map_idI)
qed

text \<open>C2:a document printed by the exporter from rows that are clean parses back to
  exactly its header and rows.\<close>

theorem parseCSV_csv_doc:
  "\<forall>r \<in> set (header # rows). clean_row r \<Longrightarrow> parseCSV (csv_doc (header # rows)) = (header, rows)"
  by (rule parseCSV_doc)

theorem parseCSV_csv_doc_witness:
  "parseCSV (csv_doc [[''Name'', ''Email ID''], [''Smith, Ann'', ''a@x'']]) =
     ([''Name'', ''Email ID''], [[''Smith, Ann'', ''a@x'']])"
proof -
  have h: "\<forall>r \<in> set [[''Name'', ''Email ID''], [''Smith, Ann'', ''a@x'']]. clean_row r"
    by (simp add: clean_row_def)
  show ?thesis using parseCSV_csv_doc [OF h] .
qed

section \<open>The line round trip\<close>

text \<open>C1:parsing one printed line gives back exactly the cells it was printed from,
  whatever they hold: quotes, commas and line breaks are escaped and unescaped.\<close>

theorem parseCSVLine_csv_row: "cells \<noteq> [] \<Longrightarrow> parseCSVLine (csv_row cells) = cells"
  by (cases cells) (simp_all add: parseCSVLine_def csv_scan_row)

theorem parseCSVLine_csv_row_witness:
  "[''a,b'', [dq, CHR ''x'', dq], [nl]] \<noteq> [] \<and>
   parseCSVLine (csv_row [''a,b'', [dq, CHR ''x'', dq], [nl]]) = [''a,b'', [dq, CHR ''x'', dq], [nl]]"
  using parseCSVLine_csv_row [of "[''a,b'', [dq, CHR ''x'', dq], [nl]]"] by simp

end
