(* ===== verification/RowMapping.thy ===== *)
theory RowMapping
  imports Csv Backend
begin

text \<open>
  The field mapper and row validator of the bulk import, translated from
  \<open>src/frontend/src/components/ResourceImportModal.tsx\<close>: the fixed column headers
  and sample rows of the template, the lenient string-to-enum parsers
  (\<open>parseBillabilityStatus\<close>, \<open>parseNonBillableStatus\<close>, \<open>parseResourceStatus\<close>),
  \<open>parseDateToTime\<close>, \<open>parseSkills\<close>, and \<open>mapRowToResource\<close>, which pairs headers
  with cells, collects the error messages of the row and builds the resource.

  Two things the browser supplies are parameters of the model: the JavaScript date
  parser (\<open>new Date(s).getTime()\<close>, as a function to milliseconds, \<open>None\<close> for an
  invalid date) and the identifier \<open>generateId()\<close> returns for the row (time and
  randomness).
\<close>

section \<open>The template\<close>

definition COLUMN_HEADERS :: "string list" where
  "COLUMN_HEADERS =
     [''Employee ID'', ''Name'', ''Email ID'', ''Contact Number'', ''Location'', ''Client'',
      ''Project'', ''Project ID'', ''Project Manager'', ''Reporting Manager'', ''Delivery Head'',
      ''Billability Status'', ''Non-Billable Category'', ''Total Experience'', ''DOJ'',
      ''Assignment Start Date'', ''Assignment End Date'', ''Practice'', ''Primary Skills'',
      ''Secondary Skills'', ''Status'']"

definition SAMPLE_ROWS :: "string list list" where
  "SAMPLE_ROWS =
     [[''EMP001'', ''John Smith'', ''john.smith@company.com'', ''+91-9876543210'', ''Bangalore'',
       ''Acme Corp'', ''Digital Transformation'', ''PRJ-001'', ''Alice Johnson'', ''Bob Williams'',
       ''Carol Davis'', ''Billable'', '''', ''5 years'', ''2020-01-15'', ''2024-01-01'', ''2024-12-31'',
       ''Engineering'', ''Java;Spring Boot;Microservices'', ''Docker;Kubernetes;AWS'', ''Active''],
      [''EMP002'', ''Priya Sharma'', ''priya.sharma@company.com'', ''+91-9876543211'', ''Hyderabad'',
       '''', '''', '''', ''Alice Johnson'', ''Bob Williams'', ''Carol Davis'', ''Non-Billable'',
       ''Available for Deployment'', ''3 years'', ''2021-06-01'', ''2024-01-01'', ''2024-06-30'', ''QA'',
       ''Automation Testing;Selenium;Java'', ''Jenkins;Azure DevOps'', ''Active''],
      [''EMP003'', ''Rahul Verma'', ''rahul.verma@company.com'', ''+91-9876543212'', ''Mumbai'',
       ''Beta Ltd'', ''UI Modernization'', ''PRJ-002'', ''David Lee'', ''Eve Martin'', ''Frank Wilson'',
       ''Billable'', '''', ''7 years'', ''2018-03-10'', ''2024-02-01'', ''2024-11-30'', ''Frontend'',
       ''UI;UX;React;TypeScript'', ''Figma;Adobe XD'', ''Active'']]"

text \<open>\<open>generateSampleCSV\<close>: its local \<open>escape\<close> is \<open>escapeCSV\<close>.\<close>

definition generateSampleCSV :: string where
  "generateSampleCSV = csv_doc (COLUMN_HEADERS # SAMPLE_ROWS)"

section \<open>Field parsers\<close>

definition parseBillabilityStatus :: "string \<Rightarrow> BillabilityStatus" where
  "parseBillabilityStatus val =
     (if js_lower (js_trim val) = ''billable'' then billable else nonBillable)"

text \<open>The category table of \<open>parseNonBillableStatus\<close>, keyed by the normalised label.\<close>

definition NON_BILLABLE_KEYS :: "(string \<times> NonBillableStatus) list" where
  "NON_BILLABLE_KEYS =
     [(''availablefordeployment'', availableForDeployment), (''bibench'', biBench),
      (''partialbench'', partialBench), (''benchblocked'', benchBlocked),
      (''maternity'', maternity), (''solutioninvestment'', solutionInvestment),
      (''deliverysupport'', deliverySupport), (''projectbuffer'', projectBuffer)]"

text \<open>\<open>map[v]\<close> on a plain object literal: an own key gives its value; otherwise the
  members every object inherits from \<open>Object.prototype\<close> whose names have no upper
  case letter (\<open>constructor\<close> and \<open>__proto__\<close>) are found too; any other key gives
  \<open>undefined\<close>.\<close>

definition OBJECT_PROTO_KEYS :: "string list" where
  "OBJECT_PROTO_KEYS = [''constructor'', ''__proto__'']"

definition parseNonBillableStatus :: "string \<Rightarrow> nb_value option" where
  "parseNonBillableStatus val =
     (let v = strip_ws (js_lower (js_trim val))
      in case map_of NON_BILLABLE_KEYS v of
           Some s \<Rightarrow> Some (NB s)
         | None \<Rightarrow> if v \<in> set OBJECT_PROTO_KEYS then Some (NB_foreign v) else None)"

definition parseResourceStatus :: "string \<Rightarrow> ResourceStatus" where
  "parseResourceStatus val =
     (if js_lower (js_trim val) = ''inactive'' then inactive else active)"

text \<open>\<open>parseDateToTime\<close>: milliseconds times one million (nanoseconds); empty or invalid
  text gives 0.\<close>

definition parseDateToTime :: "(string \<Rightarrow> int option) \<Rightarrow> string \<Rightarrow> time" where
  "parseDateToTime date_ms val =
     (if val = [] \<or> is_blank val then 0
      else case date_ms (js_trim val) of None \<Rightarrow> 0 | Some ms \<Rightarrow> ms * 1000000)"

definition parseSkills :: "string \<Rightarrow> string list" where
  "parseSkills val =
     (if val = [] \<or> is_blank val then []
      else filter (\<lambda>s. s \<noteq> []) (map js_trim (split_on CHR '';'' val)))"

section \<open>Mapping one row\<close>

record ParsedRow =
  index :: nat
  data :: "string \<rightharpoonup> string"
  errors :: "string list"
  row_resource :: "resource option"

text \<open>\<open>headers.forEach((h, i) => { data[h.trim()] = (row[i] ?? '').trim(); })\<close>: a later
  column with the same trimmed header overwrites an earlier one.\<close>

definition row_data :: "string list \<Rightarrow> string list \<Rightarrow> string \<rightharpoonup> string" where
  "row_data headers row =
     foldl (\<lambda>m (i, h). m(js_trim h \<mapsto> js_trim (cell_at row i))) Map.empty (enumerate 0 headers)"

text \<open>\<open>data[k] || d\<close>: a missing key and an empty cell both give the default.\<close>

definition field_or :: "(string \<rightharpoonup> string) \<Rightarrow> string \<Rightarrow> string \<Rightarrow> string" where
  "field_or d k dflt = js_or (case d k of None \<Rightarrow> [] | Some v \<Rightarrow> v) dflt"

definition required_errors :: "string \<Rightarrow> string \<Rightarrow> string \<Rightarrow> string list" where
  "required_errors empId nm em =
     (if empId = [] then [''Employee ID is required''] else []) @
     (if nm = [] then [''Name is required''] else []) @
     (if em = [] then [''Email ID is required''] else [])"

definition mapRowToResource ::
  "(string \<Rightarrow> int option) \<Rightarrow> string \<Rightarrow> string list \<Rightarrow> string list \<Rightarrow> nat \<Rightarrow> ParsedRow" where
  "mapRowToResource date_ms fresh_id headers row rowIndex =
     (let d = row_data headers row;
          empId = field_or d ''Employee ID'' [];
          nm = field_or d ''Name'' [];
          em = field_or d ''Email ID'' [];
          errs = required_errors empId nm em;
          billability = parseBillabilityStatus (field_or d ''Billability Status'' ''Billable'');
          nonBillableRaw = field_or d ''Non-Billable Category'' [];
          nbs = (if billability = nonBillable then parseNonBillableStatus nonBillableRaw else None);
          r = \<lparr>res_id = fresh_id,
               doj = parseDateToTime date_ms (field_or d ''DOJ'' []),
               status = parseResourceStatus (field_or d ''Status'' ''Active''),
               client = field_or d ''Client'' [],
               assignmentStartDate = parseDateToTime date_ms (field_or d ''Assignment Start Date'' []),
               totalExperience = field_or d ''Total Experience'' [],
               name = nm,
               role = [],
               skillTags = [],
               projectManager = field_or d ''Project Manager'' [],
               deliveryHead = field_or d ''Delivery Head'' [],
               assignmentEndDate = parseDateToTime date_ms (field_or d ''Assignment End Date'' []),
               email = em,
               employeeId = empId,
               projectId = (let p = field_or d ''Project ID'' [] in if p = [] then None else Some p),
               practice = field_or d ''Practice'' [],
               primarySkills = parseSkills (field_or d ''Primary Skills'' []),
               billabilityStatus = billability,
               contactNumber = field_or d ''Contact Number'' [],
               department = [],
               secondarySkills = parseSkills (field_or d ''Secondary Skills'' []),
               location = field_or d ''Location'' [],
               nonBillableStatus = nbs,
               project = field_or d ''Project'' [],
               reportingManager = field_or d ''Reporting Manager'' []\<rparr>
      in \<lparr>index = rowIndex, data = d, errors = errs,
          row_resource = (if errs = [] then Some r else None)\<rparr>)"

section \<open>Pairing headers with cells\<close>

text \<open>The pairs the loop stores, in order; the map is the last write per key.\<close>

definition row_pairs :: "string list \<Rightarrow> string list \<Rightarrow> (string \<times> string) list" where
  "row_pairs headers row = map (\<lambda>(i, h). (js_trim h, js_trim (cell_at row i))) (enumerate 0 headers)"

lemma row_data_map_of: "row_data headers row = map_of (rev (row_pairs headers row))"
proof -
  have "row_data headers row = foldl (\<lambda>m (k, v). m(k \<mapsto> v)) Map.empty (row_pairs headers row)"
    unfolding row_data_def row_pairs_def by (simp add: foldl_map split_def)
  then show ?thesis by (simp add: foldl_upd_map_add)
qed

lemma row_data_trimmed: "row_data headers row k = Some v \<Longrightarrow> js_trim v = v"
  by (auto simp: row_data_map_of row_pairs_def dest!: map_of_SomeD)

lemma row_data_missing:
  "k \<notin> js_trim ` set headers \<Longrightarrow> row_data headers row k = None"
  by (auto simp: row_data_map_of row_pairs_def map_of_eq_None_iff in_set_enumerate_eq
      image_iff)

lemma row_data_nth:
  assumes "distinct (map js_trim headers)" and "i < length headers"
  shows "row_data headers row (js_trim (headers ! i)) = Some (js_trim (cell_at row i))"
proof -
  have "map fst (row_pairs headers row) = map js_trim headers"
    by (rule nth_equalityI) (simp_all add: row_pairs_def nth_enumerate_eq)
  moreover have "(js_trim (headers ! i), js_trim (cell_at row i)) \<in> set (row_pairs headers row)"
    using assms(2) by (force simp: row_pairs_def in_set_enumerate_eq)
  ultimately show ?thesis
    using assms(1) by (simp add: row_data_map_of map_of_rev_distinct)
qed

lemma field_or_trimmed: "js_trim dflt = dflt \<Longrightarrow> js_trim (field_or (row_data headers row) k dflt) = field_or (row_data headers row) k dflt"
  by (auto simp: field_or_def js_or_def dest: row_data_trimmed split: option.splits)

section \<open>The validation outcome of a row\<close>

lemma mapRowToResource_errors_eq:
  "errors (mapRowToResource dm fid headers row i) =
   required_errors (field_or (row_data headers row) ''Employee ID'' [])
     (field_or (row_data headers row) ''Name'' []) (field_or (row_data headers row) ''Email ID'' [])"
  by (simp add: mapRowToResource_def Let_def)

lemma mapRowToResource_index [simp]: "index (mapRowToResource dm fid headers row i) = i"
  by (simp add: mapRowToResource_def Let_def)

lemma required_errors_Nil:
  "required_errors a b c = [] \<longleftrightarrow> a \<noteq> [] \<and> b \<noteq> [] \<and> c \<noteq> []"
  by (simp add: required_errors_def)

lemma mapRowToResource_SomeD:
  assumes "row_resource (mapRowToResource dm fid headers row i) = Some r"
  shows "errors (mapRowToResource dm fid headers row i) = []"
    and "employeeId r = field_or (row_data headers row) ''Employee ID'' []"
    and "name r = field_or (row_data headers row) ''Name'' []"
    and "email r = field_or (row_data headers row) ''Email ID'' []"
    and "billabilityStatus r = parseBillabilityStatus (field_or (row_data headers row) ''Billability Status'' ''Billable'')"
    and "nonBillableStatus r = (if billabilityStatus r = nonBillable
           then parseNonBillableStatus (field_or (row_data headers row) ''Non-Billable Category'' []) else None)"
    and "res_id r = fid" and "role r = []" and "department r = []" and "skillTags r = []"
  using assms by (auto simp: mapRowToResource_def Let_def split: if_splits)

lemmas row_lemmas = mapRowToResource_errors_eq mapRowToResource_SomeD required_errors_Nil

section \<open>Properties of the row mapper\<close>

text \<open>Concrete rows used by the witnesses below: a row with only the three required
  columns, and a non-billable row whose category is not one of the eight labels.\<close>

definition REQ_HEADERS :: "string list" where
  "REQ_HEADERS = [''Employee ID'', ''Name'', ''Email ID'']"

definition CAT_HEADERS :: "string list" where
  "CAT_HEADERS = [''Employee ID'', ''Name'', ''Email ID'', ''Billability Status'', ''Non-Billable Category'']"

text \<open>C3:the validation outcome of a row carries a resource exactly when its error list
  is empty (the ValidationOutcome invariant of the specification).\<close>

theorem mapRowToResource_outcome:
  "row_resource (mapRowToResource dm fid headers row i) \<noteq> None \<longleftrightarrow>
   errors (mapRowToResource dm fid headers row i) = []"
  by (simp add: mapRowToResource_def Let_def)

text \<open>the only messages a row can carry are the three required-field messages; in
  particular an unrecognised non-billable category never produces an error.\<close>

theorem mapRowToResource_error_messages:
  "set (errors (mapRowToResource dm fid headers row i)) \<subseteq>
   {''Employee ID is required'', ''Name is required'', ''Email ID is required''}"
  by (auto simp: mapRowToResource_errors_eq required_errors_def)

text \<open>C4:an accepted row has a non-empty, trimmed employee ID, name and email, and the
  identifier generated for it.\<close>

theorem mapRowToResource_accepted:
  assumes "row_resource (mapRowToResource dm fid headers row i) = Some r"
  shows "employeeId r \<noteq> [] \<and> name r \<noteq> [] \<and> email r \<noteq> [] \<and>
         js_trim (employeeId r) = employeeId r \<and> js_trim (name r) = name r \<and>
         js_trim (email r) = email r \<and> res_id r = fid"
  using mapRowToResource_SomeD [OF assms] mapRowToResource_errors_eq [of dm fid headers row i]
  by (simp add: required_errors_Nil field_or_trimmed)

theorem mapRowToResource_accepted_witness:
  "\<exists>r. row_resource (mapRowToResource (\<lambda>_. None) ''r1'' REQ_HEADERS [''E1'', '' Ann '', ''a@x''] 2) = Some r \<and>
       employeeId r \<noteq> [] \<and> name r \<noteq> [] \<and> email r \<noteq> [] \<and>
       js_trim (employeeId r) = employeeId r \<and> js_trim (name r) = name r \<and>
       js_trim (email r) = email r \<and> res_id r = ''r1''"
proof -
  have "row_resource (mapRowToResource (\<lambda>_. None) ''r1'' REQ_HEADERS [''E1'', '' Ann '', ''a@x''] 2) \<noteq> None"
    by code_simp
  then obtain r where
    "row_resource (mapRowToResource (\<lambda>_. None) ''r1'' REQ_HEADERS [''E1'', '' Ann '', ''a@x''] 2) = Some r"
    by blast
  with mapRowToResource_accepted [OF this] show ?thesis by blast
qed

text \<open>C5:a row with a non-empty employee ID, name and email, whose billability is
  non-billable and whose category cell is filled but is not one of the recognised
  labels, is accepted without errors and with no category at all (the specification
  says it is rejected with a category error).\<close>

theorem mapRowToResource_unknown_category:
  assumes "field_or (row_data headers row) ''Employee ID'' [] \<noteq> []"
    and "field_or (row_data headers row) ''Name'' [] \<noteq> []"
    and "field_or (row_data headers row) ''Email ID'' [] \<noteq> []"
    and "parseBillabilityStatus (field_or (row_data headers row) ''Billability Status'' ''Billable'') = nonBillable"
    and "field_or (row_data headers row) ''Non-Billable Category'' [] \<noteq> []"
    and "parseNonBillableStatus (field_or (row_data headers row) ''Non-Billable Category'' []) = None"
  shows "errors (mapRowToResource dm fid headers row i) = [] \<and>
         (\<exists>r. row_resource (mapRowToResource dm fid headers row i) = Some r \<and>
              billabilityStatus r = nonBillable \<and> nonBillableStatus r = None)"
  using assms by (simp add: mapRowToResource_def Let_def required_errors_Nil)

theorem mapRowToResource_unknown_category_witness:
  "errors (mapRowToResource (\<lambda>_. None) ''r2'' CAT_HEADERS [''E1'', ''N'', ''e@x'', ''Non-Billable'', ''Bogus Value''] 2) = [] \<and>
   (\<exists>r. row_resource (mapRowToResource (\<lambda>_. None) ''r2'' CAT_HEADERS [''E1'', ''N'', ''e@x'', ''Non-Billable'', ''Bogus Value''] 2) = Some r \<and>
        billabilityStatus r = nonBillable \<and> nonBillableStatus r = None)"
proof -
  let ?d = "row_data CAT_HEADERS [''E1'', ''N'', ''e@x'', ''Non-Billable'', ''Bogus Value'']"
  have e: "field_or ?d ''Employee ID'' [] \<noteq> []" "field_or ?d ''Name'' [] \<noteq> []" "field_or ?d ''Email ID'' [] \<noteq> []"
    by code_simp+
  have b: "parseBillabilityStatus (field_or ?d ''Billability Status'' ''Billable'') = nonBillable"
    by code_simp
  have c: "field_or ?d ''Non-Billable Category'' [] \<noteq> []"
    "parseNonBillableStatus (field_or ?d ''Non-Billable Category'' []) = None"
    by code_simp+
  show ?thesis using mapRowToResource_unknown_category [OF e b c] .
qed

text \<open>when the Billability Status column is missing or its cell is empty, the row is
  billable (the specification says an empty value maps to non-billable).\<close>

theorem mapRowToResource_blank_billability:
  "row_data headers row ''Billability Status'' \<in> {None, Some []} \<Longrightarrow>
   row_resource (mapRowToResource dm fid headers row i) = Some r \<Longrightarrow>
   billabilityStatus r = billable"
  by (auto dest!: mapRowToResource_SomeD(5) simp: field_or_def parseBillabilityStatus_def js_eval)

theorem mapRowToResource_blank_billability_witness:
  "row_data REQ_HEADERS [''E1'', ''Ann'', ''a@x''] ''Billability Status'' \<in> {None, Some []} \<and>
   (\<exists>r. row_resource (mapRowToResource (\<lambda>_. None) ''r3'' REQ_HEADERS [''E1'', ''Ann'', ''a@x''] 2) = Some r \<and>
        billabilityStatus r = billable)"
proof -
  have a: "row_data REQ_HEADERS [''E1'', ''Ann'', ''a@x''] ''Billability Status'' \<in> {None, Some []}"
    by code_simp
  have "row_resource (mapRowToResource (\<lambda>_. None) ''r3'' REQ_HEADERS [''E1'', ''Ann'', ''a@x''] 2) \<noteq> None"
    by code_simp
  then obtain r where r: "row_resource (mapRowToResource (\<lambda>_. None) ''r3'' REQ_HEADERS [''E1'', ''Ann'', ''a@x''] 2) = Some r"
    by blast
  show ?thesis using a r mapRowToResource_blank_billability [OF a r] by blast
qed

text \<open>an accepted billable row never carries a non-billable category, whatever the
  category cell holds.\<close>

theorem mapRowToResource_billable_category:
  "row_resource (mapRowToResource dm fid headers row i) = Some r \<Longrightarrow>
   billabilityStatus r = billable \<Longrightarrow> nonBillableStatus r = None"
  using mapRowToResource_SomeD(6) by simp

theorem mapRowToResource_billable_category_witness:
  "\<exists>r. row_resource (mapRowToResource (\<lambda>_. None) ''r4'' CAT_HEADERS [''E1'', ''N'', ''e@x'', ''billable'', ''Maternity''] 2) = Some r \<and>
       billabilityStatus r = billable \<and> nonBillableStatus r = None"
proof -
  let ?r = "[''E1'', ''N'', ''e@x'', ''billable'', ''Maternity'']"
  have "row_resource (mapRowToResource (\<lambda>_. None) ''r4'' CAT_HEADERS ?r 2) \<noteq> None"
    by code_simp
  then obtain r where r: "row_resource (mapRowToResource (\<lambda>_. None) ''r4'' CAT_HEADERS ?r 2) = Some r"
    by blast
  have "parseBillabilityStatus (field_or (row_data CAT_HEADERS ?r) ''Billability Status'' ''Billable'') = billable"
    by code_simp
  then have "billabilityStatus r = billable"
    using mapRowToResource_SomeD(5) [OF r] by simp
  then show ?thesis using r mapRowToResource_billable_category [OF r] by blast
qed

end
