(* ===== verification/ImportModal.thy ===== *)
theory ImportModal
  imports RowMapping
begin

text \<open>
  The state and handlers of the component \<open>ResourceImportModal\<close>
  (\<open>src/frontend/src/components/ResourceImportModal.tsx\<close>) and the one actor call it
  makes through \<open>useBulkAddResources\<close> (\<open>src/frontend/src/hooks/useQueries.ts\<close>).
  The React state hooks are the fields of \<open>modal_state\<close>; each handler returns the
  state after all its \<open>set\<close> calls. \<open>processFile\<close> awaits only the file's contents
  and no other handler can run meanwhile (the drop zone is hidden once a file is set),
  so it is modelled by its final state. The actor call's outcome is an input
  (\<open>call_env\<close>): the network and the actor are outside the sources.

  The user's interaction is the event type \<open>modal_event\<close>; \<open>modal_step\<close> applies an
  event when the element that raises it is rendered and enabled, and leaves the state
  unchanged otherwise. \<open>modal_reach\<close> is the set of states reachable from the
  initial state by such steps.
\<close>

section \<open>State\<close>

text \<open>What the model needs of a \<open>File\<close>: its name, size, its text (\<open>f.text()\<close>) and
  what SheetJS makes of it: the first sheet's rows as strings, or the message of the
  error it throws.\<close>

record file_info =
  fname :: string
  fsize :: nat
  ftext :: string
  fsheet :: "string + string list list"

record ImportResult =
  total :: nat
  success :: nat
  failed :: nat
  failedRows :: "(nat \<times> string list) list"

record modal_state =
  isDragging :: bool
  modal_file :: "file_info option"
  parsedRows :: "ParsedRow list"
  parseError :: "string option"
  isParsing :: bool
  importResult :: "ImportResult option"

definition init_modal :: modal_state where
  "init_modal = \<lparr>isDragging = False, modal_file = None, parsedRows = [], parseError = None,
                 isParsing = False, importResult = None\<rparr>"

section \<open>The actor call\<close>

text \<open>The environment of one \<open>mutateAsync\<close> call: no actor yet (the hook throws), a
  network or actor failure with its message, or a call that reaches the actor.\<close>

datatype call_env = ActorNotReady | NetFail string | NetOk

text \<open>The Candid encoding of \<open>addBulkResources\<close>' argument accepts only the eight
  variants in the optional category field; a foreign value (see
  \<open>parseNonBillableStatus\<close>) makes the encoder throw before anything is sent.\<close>

definition encodable :: "resource \<Rightarrow> bool" where
  "encodable r \<longleftrightarrow> (case nonBillableStatus r of Some (NB_foreign _) \<Rightarrow> False | _ \<Rightarrow> True)"

definition ENCODE_ERROR :: string where
  "ENCODE_ERROR = ''Invalid variant in nonBillableStatus''"

definition bulkAddResources_call ::
  "call_env \<Rightarrow> resource list \<Rightarrow> actor_store \<Rightarrow> string + actor_store" where
  "bulkAddResources_call env rs st =
     (case env of
        ActorNotReady \<Rightarrow> Inl ''Actor not ready''
      | NetFail msg \<Rightarrow> Inl msg
      | NetOk \<Rightarrow> if list_all encodable rs then Inr (addBulkResources rs st) else Inl ENCODE_ERROR)"

section \<open>Handlers\<close>

definition resetState :: "modal_state \<Rightarrow> modal_state" where
  "resetState st = st\<lparr>modal_file := None, parsedRows := [], parseError := None, importResult := None,
                       isParsing := False\<rparr>"

text \<open>\<open>f.name.split('.').pop()?.toLowerCase()\<close>.\<close>

definition file_ext :: "string \<Rightarrow> string" where
  "file_ext nm = js_lower (last (split_on CHR ''.'' nm))"

text \<open>\<open>parseXLSX\<close> after SheetJS: the first row is the header.\<close>

definition parseXLSX :: "string + string list list \<Rightarrow> string + (string list \<times> string list list)" where
  "parseXLSX sheet =
     (case sheet of
        Inl msg \<Rightarrow> Inl msg
      | Inr tbl \<Rightarrow> Inr (case tbl of [] \<Rightarrow> ([], []) | h # rs \<Rightarrow> (h, rs)))"

definition read_table :: "file_info \<Rightarrow> string + (string list \<times> string list list)" where
  "read_table f =
     (if file_ext (fname f) \<in> {''xlsx'', ''xls''} then parseXLSX (fsheet f)
      else Inr (parseCSV (ftext f)))"

definition REQUIRED_COLUMNS :: "string list" where
  "REQUIRED_COLUMNS = [''Employee ID'', ''Name'', ''Email ID'']"

definition missing_columns :: "string list \<Rightarrow> string list" where
  "missing_columns headers = filter (\<lambda>col. col \<notin> set (map js_trim headers)) REQUIRED_COLUMNS"

text \<open>\<open>row.some((cell) => cell.trim() !== '')\<close>.\<close>

definition nonblank_row :: "string list \<Rightarrow> bool" where
  "nonblank_row row \<longleftrightarrow> (\<exists>c \<in> set row. \<not> is_blank c)"

text \<open>The rows kept are numbered \<open>i + 2\<close> by their position among the kept rows;
  \<open>gen i\<close> is the identifier \<open>generateId\<close> returns for the \<open>i\<close>-th of them.\<close>

definition import_rows ::
  "(string \<Rightarrow> int option) \<Rightarrow> (nat \<Rightarrow> string) \<Rightarrow> string list \<Rightarrow> string list list \<Rightarrow> ParsedRow list" where
  "import_rows date_ms gen headers rows =
     map (\<lambda>(i, row). mapRowToResource date_ms (gen i) headers row (i + 2))
       (enumerate 0 (filter nonblank_row rows))"

definition EMPTY_FILE_ERROR :: string where
  "EMPTY_FILE_ERROR = ''The file appears to be empty or has no headers.''"

definition PARSE_FAILED_ERROR :: string where
  "PARSE_FAILED_ERROR = ''Failed to parse file. Please check the format.''"

definition IMPORT_FAILED_ERROR :: string where
  "IMPORT_FAILED_ERROR = ''Import failed. Please try again.''"

definition processFile ::
  "(string \<Rightarrow> int option) \<Rightarrow> (nat \<Rightarrow> string) \<Rightarrow> file_info \<Rightarrow> modal_state \<Rightarrow> modal_state" where
  "processFile date_ms gen f st =
     (let st1 = st\<lparr>modal_file := Some f, parsedRows := [], parseError := None, importResult := None,
                   isParsing := True\<rparr>
      in case read_table f of
           Inl msg \<Rightarrow> st1\<lparr>parseError := Some (js_or msg PARSE_FAILED_ERROR), isParsing := False\<rparr>
         | Inr (headers, rows) \<Rightarrow>
             if headers = [] then st1\<lparr>parseError := Some EMPTY_FILE_ERROR, isParsing := False\<rparr>
             else if missing_columns headers \<noteq> [] then
               st1\<lparr>parseError := Some (''Missing required columns: '' @ join_with '', '' (missing_columns headers)),
                   isParsing := False\<rparr>
             else st1\<lparr>parsedRows := import_rows date_ms gen headers rows, isParsing := False\<rparr>)"

definition validRows :: "modal_state \<Rightarrow> ParsedRow list" where
  "validRows st = filter (\<lambda>r. errors r = [] \<and> row_resource r \<noteq> None) (parsedRows st)"

definition invalidRows :: "modal_state \<Rightarrow> ParsedRow list" where
  "invalidRows st = filter (\<lambda>r. errors r \<noteq> []) (parsedRows st)"

definition handleImport ::
  "call_env \<Rightarrow> modal_state \<times> actor_store \<Rightarrow> modal_state \<times> actor_store" where
  "handleImport env = (\<lambda>(st, store).
     if validRows st = [] then (st, store)
     else case bulkAddResources_call env (map (the \<circ> row_resource) (validRows st)) store of
            Inr store' \<Rightarrow>
              (st\<lparr>importResult := Some \<lparr>total = length (parsedRows st), success = length (validRows st),
                    failed = length (invalidRows st),
                    failedRows = map (\<lambda>r. (index r, errors r)) (invalidRows st)\<rparr>\<rparr>, store')
          | Inl msg \<Rightarrow> (st\<lparr>parseError := Some (js_or msg IMPORT_FAILED_ERROR)\<rparr>, store))"

section \<open>Events\<close>

datatype modal_event =
    SelectFile file_info
  | DropFile file_info
  | DragOver
  | DragLeave
  | Import call_env
  | Reset
  | Close

text \<open>Which elements are rendered: the drop zone (and its file input) only in the
  import flow before a file is chosen; the Import button in the import flow once rows
  are parsed, enabled when some row is valid.\<close>

definition drop_zone_shown :: "modal_state \<Rightarrow> bool" where
  "drop_zone_shown st \<longleftrightarrow> importResult st = None \<and> modal_file st = None"

definition import_enabled :: "modal_state \<Rightarrow> bool" where
  "import_enabled st \<longleftrightarrow>
     importResult st = None \<and> parsedRows st \<noteq> [] \<and> \<not> isParsing st \<and> validRows st \<noteq> []"

text \<open>A reset control is on screen: "Import More" on the result panel, "Clear" under the
  preview, or the remove button of the chosen file.\<close>

definition reset_shown :: "modal_state \<Rightarrow> bool" where
  "reset_shown st \<longleftrightarrow>
     importResult st \<noteq> None \<or> (parsedRows st \<noteq> [] \<and> \<not> isParsing st) \<or> (modal_file st \<noteq> None \<and> \<not> isParsing st)"

fun modal_step ::
  "(string \<Rightarrow> int option) \<Rightarrow> (nat \<Rightarrow> string) \<Rightarrow> modal_event \<Rightarrow>
   modal_state \<times> actor_store \<Rightarrow> modal_state \<times> actor_store" where
  "modal_step dm gen (SelectFile f) (st, store) =
     (if drop_zone_shown st then (processFile dm gen f st, store) else (st, store))"
| "modal_step dm gen (DropFile f) (st, store) =
     (if drop_zone_shown st then (processFile dm gen f (st\<lparr>isDragging := False\<rparr>), store)
      else (st, store))"
| "modal_step dm gen DragOver (st, store) =
     (if drop_zone_shown st then (st\<lparr>isDragging := True\<rparr>, store) else (st, store))"
| "modal_step dm gen DragLeave (st, store) =
     (if drop_zone_shown st then (st\<lparr>isDragging := False\<rparr>, store) else (st, store))"
| "modal_step dm gen (Import env) (st, store) =
     (if import_enabled st then handleImport env (st, store) else (st, store))"
| "modal_step dm gen Reset (st, store) =
     (if reset_shown st then (resetState st, store) else (st, store))"
| "modal_step dm gen Close (st, store) = (resetState st, store)"

fun modal_run ::
  "(string \<Rightarrow> int option) \<Rightarrow> (nat \<Rightarrow> string) \<Rightarrow> modal_event list \<Rightarrow>
   modal_state \<times> actor_store \<Rightarrow> modal_state \<times> actor_store" where
  "modal_run dm gen [] s = s"
| "modal_run dm gen (e # es) s = modal_run dm gen es (modal_step dm gen e s)"

inductive modal_reach ::
  "(string \<Rightarrow> int option) \<Rightarrow> (nat \<Rightarrow> string) \<Rightarrow> actor_store \<Rightarrow> modal_state \<times> actor_store \<Rightarrow> bool"
  for dm gen store0 where
  start: "modal_reach dm gen store0 (init_modal, store0)"
| step: "modal_reach dm gen store0 s \<Longrightarrow> modal_reach dm gen store0 (modal_step dm gen e s)"

section \<open>Lemmas on the handlers\<close>

text \<open>What every row the mapper produces satisfies.\<close>

definition mapped_row :: "ParsedRow \<Rightarrow> bool" where
  "mapped_row r \<longleftrightarrow>
     (row_resource r \<noteq> None \<longleftrightarrow> errors r = []) \<and>
     (\<forall>x. row_resource r = Some x \<longrightarrow> employeeId x \<noteq> [] \<and> name x \<noteq> [] \<and> email x \<noteq> [])"

lemma mapped_row_mapRowToResource: "mapped_row (mapRowToResource dm fid hs row i)"
proof -
  have "row_resource (mapRowToResource dm fid hs row i) \<noteq> None \<longleftrightarrow>
        errors (mapRowToResource dm fid hs row i) = []"
    by (simp add: mapRowToResource_def Let_def)
  moreover have "employeeId x \<noteq> [] \<and> name x \<noteq> [] \<and> email x \<noteq> []"
    if "row_resource (mapRowToResource dm fid hs row i) = Some x" for x
    using mapRowToResource_SomeD [OF that] mapRowToResource_errors_eq [of dm fid hs row i]
    by (simp add: required_errors_Nil)
  ultimately show ?thesis by (simp add: mapped_row_def)
qed

lemma set_import_rows:
  "r \<in> set (import_rows dm gen hs rows) \<Longrightarrow> \<exists>fid row i. r = mapRowToResource dm fid hs row i"
  by (auto simp: import_rows_def)

lemma processFile_rows_mapped: "\<forall>r \<in> set (parsedRows (processFile dm gen f st)). mapped_row r"
  by (auto simp: processFile_def Let_def mapped_row_mapRowToResource
      dest!: set_import_rows split: sum.splits prod.splits if_splits)

lemma processFile_flags:
  "\<not> isParsing (processFile dm gen f st) \<and> importResult (processFile dm gen f st) = None \<and>
   modal_file (processFile dm gen f st) = Some f"
  by (simp add: processFile_def Let_def split: sum.splits prod.splits)

text \<open>Under the row invariant the valid and the invalid rows partition the parsed rows.\<close>

lemma valid_invalid_length:
  "\<forall>r \<in> set (parsedRows st). mapped_row r \<Longrightarrow>
   length (validRows st) + length (invalidRows st) = length (parsedRows st)"
proof -
  assume ok: "\<forall>r \<in> set (parsedRows st). mapped_row r"
  then have "validRows st = filter (\<lambda>r. errors r = []) (parsedRows st)"
    by (auto simp: validRows_def mapped_row_def intro!: filter_cong)
  then show ?thesis
    using sum_length_filter_compl [of "\<lambda>r. errors r = []" "parsedRows st"]
    by (simp add: invalidRows_def)
qed

lemma handleImport_cases:
  "handleImport env (st, store) = (st, store) \<or>
   (\<exists>msg. handleImport env (st, store) = (st\<lparr>parseError := Some msg\<rparr>, store)) \<or>
   (validRows st \<noteq> [] \<and> env = NetOk \<and> list_all encodable (map (the \<circ> row_resource) (validRows st)) \<and>
    handleImport env (st, store) =
      (st\<lparr>importResult := Some \<lparr>total = length (parsedRows st), success = length (validRows st),
            failed = length (invalidRows st),
            failedRows = map (\<lambda>r. (index r, errors r)) (invalidRows st)\<rparr>\<rparr>,
       addBulkResources (map (the \<circ> row_resource) (validRows st)) store))"
  by (auto simp: handleImport_def bulkAddResources_call_def split: call_env.splits if_splits)

section \<open>The reachable states\<close>

definition modal_inv :: "modal_state \<Rightarrow> bool" where
  "modal_inv st \<longleftrightarrow>
     \<not> isParsing st \<and> (\<forall>r \<in> set (parsedRows st). mapped_row r) \<and>
     (case importResult st of
        None \<Rightarrow> True
      | Some res \<Rightarrow> total res = success res + failed res \<and> 0 < success res)"

text \<open>The store holds what it held at the start followed by resources the import added,
  each with the three required fields filled and encodable.\<close>

definition store_inv :: "actor_store \<Rightarrow> actor_store \<Rightarrow> bool" where
  "store_inv store0 store \<longleftrightarrow>
     (\<exists>added. stored_resources store = stored_resources store0 @ added \<and>
        (\<forall>x \<in> set added. employeeId x \<noteq> [] \<and> name x \<noteq> [] \<and> email x \<noteq> [] \<and> encodable x))"

lemma modal_inv_init: "modal_inv init_modal"
  by (simp add: modal_inv_def init_modal_def)

lemma modal_inv_processFile: "modal_inv (processFile dm gen f st)"
  using processFile_rows_mapped processFile_flags by (simp add: modal_inv_def)

lemma modal_inv_resetState: "modal_inv (resetState st)"
  by (simp add: modal_inv_def resetState_def)

lemma valid_resources_required:
  "\<forall>r \<in> set (parsedRows st). mapped_row r \<Longrightarrow> x \<in> set (map (the \<circ> row_resource) (validRows st)) \<Longrightarrow>
   employeeId x \<noteq> [] \<and> name x \<noteq> [] \<and> email x \<noteq> []"
  by (auto simp: validRows_def mapped_row_def)

lemma handleImport_inv:
  assumes "modal_inv st" and "store_inv store0 store"
  shows "modal_inv (fst (handleImport env (st, store))) \<and> store_inv store0 (snd (handleImport env (st, store)))"
  using handleImport_cases [of env st store]
proof (elim disjE exE conjE)
  assume "handleImport env (st, store) = (st, store)"
  then show ?thesis using assms by simp
next
  fix msg
  assume "handleImport env (st, store) = (st\<lparr>parseError := Some msg\<rparr>, store)"
  then show ?thesis using assms by (simp add: modal_inv_def)
next
  let ?rs = "map (the \<circ> row_resource) (validRows st)"
  assume ne: "validRows st \<noteq> []" and enc: "list_all encodable ?rs"
    and eq: "handleImport env (st, store) = (st\<lparr>importResult := Some \<lparr>total = length (parsedRows st),
            success = length (validRows st), failed = length (invalidRows st),
            failedRows = map (\<lambda>r. (index r, errors r)) (invalidRows st)\<rparr>\<rparr>,
       addBulkResources ?rs store)"
  have rows: "\<forall>r \<in> set (parsedRows st). mapped_row r" and np: "\<not> isParsing st"
    using assms(1) by (simp_all add: modal_inv_def)
  have "modal_inv (fst (handleImport env (st, store)))"
    using eq rows np ne valid_invalid_length [OF rows] by (simp add: modal_inv_def)
  moreover obtain added where
    added: "stored_resources store = stored_resources store0 @ added"
      "\<forall>x \<in> set added. employeeId x \<noteq> [] \<and> name x \<noteq> [] \<and> email x \<noteq> [] \<and> encodable x"
    using assms(2) by (auto simp: store_inv_def)
  have "\<forall>x \<in> set ?rs. employeeId x \<noteq> [] \<and> name x \<noteq> [] \<and> email x \<noteq> [] \<and> encodable x"
    using valid_resources_required [OF rows] enc by (simp add: list_all_iff)
  then have "store_inv store0 (addBulkResources ?rs store)"
    using added unfolding store_inv_def
    by (intro exI [of _ "added @ ?rs"]) auto
  ultimately show ?thesis using eq by simp
qed

lemma modal_step_inv:
  assumes "modal_inv st" and "store_inv store0 store"
  shows "modal_inv (fst (modal_step dm gen e (st, store))) \<and> store_inv store0 (snd (modal_step dm gen e (st, store)))"
  using assms
  by (cases e) (simp_all add: modal_inv_processFile modal_inv_resetState handleImport_inv,
      (auto simp: modal_inv_def)[2])

section \<open>Properties of the import modal\<close>


definition DEMO_CSV :: file_info where
  "DEMO_CSV = \<lparr>fname = ''staff.csv'', fsize = 40,
     ftext = ''Employee ID,Name,Email ID'' @ [nl] @ ''E1,Ann,a@x'' @ [nl] @ '',,'' @ [nl] @ ''E2,,b@x'',
     fsheet = Inr []\<rparr>"

definition demo_gen :: "nat \<Rightarrow> string" where "demo_gen i = ''res_'' @ [char_of (48 + i)]"

text \<open>C6:in every state the modal can reach, nothing is left parsing, every parsed row
  carries a resource exactly when it has no error (and then its required fields are
  filled), every summary adds up (total = imported + skipped, with at least one
  imported), and the actor's collection is its initial contents followed only by
  encodable resources with employee ID, name and email filled.\<close>

theorem modal_reach_inv:
  "modal_reach dm gen store0 s \<Longrightarrow> modal_inv (fst s) \<and> store_inv store0 (snd s)"
proof (induction rule: modal_reach.induct)
  case start
  have "store_inv store0 store0"
    by (auto simp: store_inv_def)
  then show ?case using modal_inv_init by simp
next
  case (step s e)
  then show ?case
    using modal_step_inv [of "fst s" store0 "snd s" dm gen e] by simp
qed

theorem modal_reach_inv_witness:
  "modal_inv (fst (modal_step (\<lambda>_. None) demo_gen (SelectFile DEMO_CSV) (init_modal, \<lparr>stored_resources = []\<rparr>))) \<and>
   store_inv \<lparr>stored_resources = []\<rparr> (snd (modal_step (\<lambda>_. None) demo_gen (SelectFile DEMO_CSV) (init_modal, \<lparr>stored_resources = []\<rparr>)))"
  using modal_reach_inv [OF modal_reach.step [OF modal_reach.start]] by blast

text \<open>C7:when an import completes, the summary counts every parsed row once, the
  imported count is the number of valid rows, the skipped rows are reported by their
  row numbers in order, and the actor received exactly the valid rows' resources, in
  order, after what it held.\<close>

theorem handleImport_summary:
  assumes "modal_inv st" and "importResult st = None"
    and "handleImport env (st, store) = (st', store')" and "importResult st' = Some res"
  shows "total res = success res + failed res \<and> success res = length (validRows st) \<and>
         map fst (failedRows res) = map index (invalidRows st) \<and>
         stored_resources store' = stored_resources store @ map (the \<circ> row_resource) (validRows st)"
  using handleImport_cases [of env st store]
proof (elim disjE exE conjE)
  assume "handleImport env (st, store) = (st, store)"
  then show ?thesis using assms by simp
next
  fix msg
  assume "handleImport env (st, store) = (st\<lparr>parseError := Some msg\<rparr>, store)"
  then show ?thesis using assms by simp
next
  assume "handleImport env (st, store) =
      (st\<lparr>importResult := Some \<lparr>total = length (parsedRows st), success = length (validRows st),
            failed = length (invalidRows st),
            failedRows = map (\<lambda>r. (index r, errors r)) (invalidRows st)\<rparr>\<rparr>,
       addBulkResources (map (the \<circ> row_resource) (validRows st)) store)"
  moreover have "length (validRows st) + length (invalidRows st) = length (parsedRows st)"
    using assms(1) by (intro valid_invalid_length) (simp add: modal_inv_def)
  ultimately show ?thesis using assms(3,4) by (auto simp: comp_def)
qed

definition demo_state :: modal_state where
  "demo_state = processFile (\<lambda>_. None) demo_gen DEMO_CSV init_modal"

lemma demo_state_facts:
  "importResult (fst (handleImport NetOk (demo_state, \<lparr>stored_resources = []\<rparr>))) \<noteq> None"
  "map index (invalidRows demo_state) = [3]"
  "map employeeId (map (the \<circ> row_resource) (validRows demo_state)) = [''E1'']"
  by code_simp+

theorem handleImport_summary_witness:
  "map fst (failedRows (the (importResult (fst (handleImport NetOk (demo_state, \<lparr>stored_resources = []\<rparr>)))))) = [3] \<and>
   map employeeId (stored_resources (snd (handleImport NetOk (demo_state, \<lparr>stored_resources = []\<rparr>)))) = [''E1'']"
proof -
  let ?s = "handleImport NetOk (demo_state, \<lparr>stored_resources = []\<rparr>)"
  have inv: "modal_inv demo_state" by (simp add: demo_state_def modal_inv_processFile)
  have none: "importResult demo_state = None" by (simp add: demo_state_def processFile_flags)
  have eq: "handleImport NetOk (demo_state, \<lparr>stored_resources = []\<rparr>) = (fst ?s, snd ?s)" by simp
  have some: "importResult (fst ?s) = Some (the (importResult (fst ?s)))"
    using demo_state_facts(1) by simp
  show ?thesis
    using handleImport_summary [OF inv none eq some] demo_state_facts(2,3) by simp
qed

lemma import_enabled_parseError [simp]:
  "import_enabled (st\<lparr>parseError := m\<rparr>) = import_enabled st"
  by (simp add: import_enabled_def validRows_def)

lemma validRows_parseError [simp]: "validRows (st\<lparr>parseError := m\<rparr>) = validRows st"
  by (simp add: validRows_def)

text \<open>C8:a failed actor call leaves the collection unchanged, shows an error and no
  summary, and keeps the Import button enabled; repeating the import once the call
  succeeds submits the same valid set (scenario D of the specification).\<close>

theorem modal_step_import_retry:
  assumes "import_enabled st" and "list_all encodable (map (the \<circ> row_resource) (validRows st))"
    and "env \<noteq> NetOk"
  shows "snd (modal_step dm gen (Import env) (st, store)) = store \<and>
         importResult (fst (modal_step dm gen (Import env) (st, store))) = None \<and>
         parseError (fst (modal_step dm gen (Import env) (st, store))) \<noteq> None \<and>
         snd (modal_step dm gen (Import NetOk) (modal_step dm gen (Import env) (st, store))) =
           addBulkResources (map (the \<circ> row_resource) (validRows st)) store"
proof -
  have ne: "validRows st \<noteq> []" and none: "importResult st = None"
    using assms(1) by (simp_all add: import_enabled_def)
  obtain msg where fail: "modal_step dm gen (Import env) (st, store) = (st\<lparr>parseError := Some msg\<rparr>, store)"
    using assms(1,3) ne by (cases env) (auto simp: handleImport_def bulkAddResources_call_def)
  have "snd (modal_step dm gen (Import NetOk) (st\<lparr>parseError := Some msg\<rparr>, store)) =
        addBulkResources (map (the \<circ> row_resource) (validRows st)) store"
    using assms(1,2) ne by (simp add: handleImport_def bulkAddResources_call_def)
  then show ?thesis using fail none by simp
qed

theorem modal_step_import_retry_witness:
  "stored_resources (snd (modal_step (\<lambda>_. None) demo_gen (Import NetOk)
      (modal_step (\<lambda>_. None) demo_gen (Import (NetFail ''timeout'')) (demo_state, \<lparr>stored_resources = []\<rparr>))))
   = map (the \<circ> row_resource) (validRows demo_state)"
proof -
  have a: "import_enabled demo_state" by code_simp
  have b: "list_all encodable (map (the \<circ> row_resource) (validRows demo_state))" by code_simp
  have c: "NetFail ''timeout'' \<noteq> NetOk" by simp
  show ?thesis using modal_step_import_retry [OF a b c, of "\<lambda>_. None" demo_gen "\<lparr>stored_resources = []\<rparr>"]
    by simp
qed

lemma map_index_import_rows:
  "map index (import_rows dm gen hs rows) = [2 ..< length (filter nonblank_row rows) + 2]"
proof -
  have "map index (import_rows dm gen hs rows) =
        map ((\<lambda>i. i + 2) \<circ> fst) (enumerate 0 (filter nonblank_row rows))"
    by (simp add: import_rows_def comp_def split_def)
  also have "\<dots> = map (\<lambda>i. i + 2) (map fst (enumerate 0 (filter nonblank_row rows)))"
    by (simp only: map_map)
  also have "\<dots> = [2 ..< length (filter nonblank_row rows) + 2]"
    by (simp only: map_fst_enumerate add_0 map_add_upt)
  finally show ?thesis .
qed

text \<open>C10:the rows shown and reported are numbered 2, 3, ... by their position among
  the rows that are not blank, not by their line in the file.\<close>

theorem processFile_row_numbers:
  assumes "read_table f = Inr (hs, rows)" and "hs \<noteq> []" and "missing_columns hs = []"
  shows "map index (parsedRows (processFile dm gen f st)) = [2 ..< length (filter nonblank_row rows) + 2]"
  using assms by (simp add: processFile_def Let_def map_index_import_rows)

lemma demo_table:
  "read_table DEMO_CSV = Inr ([''Employee ID'', ''Name'', ''Email ID''],
     [[''E1'', ''Ann'', ''a@x''], [[], [], []], [''E2'', [], ''b@x'']])"
  by code_simp

theorem processFile_row_numbers_witness:
  "map index (parsedRows (processFile (\<lambda>_. None) demo_gen DEMO_CSV init_modal)) = [2, 3]"
proof -
  have b: "[''Employee ID'', ''Name'', ''Email ID''] \<noteq> []" by simp
  have c: "missing_columns [''Employee ID'', ''Name'', ''Email ID''] = []" by code_simp
  have n: "length (filter nonblank_row [[''E1'', ''Ann'', ''a@x''], [[], [], []], [''E2'', [], ''b@x'']]) = 2"
    by code_simp
  have "map index (parsedRows (processFile (\<lambda>_. None) demo_gen DEMO_CSV init_modal)) =
        [2 ..< length (filter nonblank_row [[''E1'', ''Ann'', ''a@x''], [[], [], []], [''E2'', [], ''b@x'']]) + 2]"
    by (rule processFile_row_numbers [OF demo_table b c])
  also have "\<dots> = [2, 3]"
    unfolding n by code_simp
  finally show ?thesis .
qed

text \<open>C11:a header without one of Employee ID, Name and Email ID is rejected before any
  row is mapped, with a message naming exactly the missing columns in template order.\<close>

theorem processFile_missing_columns:
  assumes "read_table f = Inr (hs, rows)" and "hs \<noteq> []" and "missing_columns hs \<noteq> []"
  shows "parsedRows (processFile dm gen f st) = [] \<and>
         parseError (processFile dm gen f st) =
           Some (''Missing required columns: '' @ join_with '', '' (missing_columns hs)) \<and>
         set (missing_columns hs) = set REQUIRED_COLUMNS - js_trim ` set hs"
  using assms by (auto simp: processFile_def Let_def missing_columns_def)

theorem processFile_missing_columns_witness:
  "parseError (processFile (\<lambda>_. None) demo_gen \<lparr>fname = ''x.csv'', fsize = 8, ftext = ''Name,Foo'', fsheet = Inr []\<rparr> init_modal) =
   Some (''Missing required columns: Employee ID, Email ID'')"
proof -
  let ?f = "\<lparr>fname = ''x.csv'', fsize = 8, ftext = ''Name,Foo'', fsheet = Inr []\<rparr>"
  have a: "read_table ?f = Inr ([''Name'', ''Foo''], [])" by code_simp
  have c: "missing_columns [''Name'', ''Foo''] = [''Employee ID'', ''Email ID'']" by code_simp
  show ?thesis using processFile_missing_columns [OF a _ , of "\<lambda>_. None" demo_gen init_modal] c by simp
qed

text \<open>C9:a single valid row whose category is a foreign value (a category cell such as
  \<open>Constructor\<close>) makes every import of the batch fail, whatever the network does:
  nothing is stored and no summary is produced.\<close>

theorem handleImport_foreign_category:
  assumes "x \<in> set (validRows st)" and "row_resource x = Some r" and "\<not> encodable r"
  shows "snd (handleImport env (st, store)) = store \<and>
         importResult (fst (handleImport env (st, store))) = importResult st"
proof -
  have "\<not> list_all encodable (map (the \<circ> row_resource) (validRows st))"
    using assms by (force simp: list_all_iff)
  then show ?thesis
    using assms(1) by (cases env) (auto simp: handleImport_def bulkAddResources_call_def)
qed

definition CONSTRUCTOR_CSV :: file_info where
  "CONSTRUCTOR_CSV = \<lparr>fname = ''staff.csv'', fsize = 80,
     ftext = ''Employee ID,Name,Email ID,Billability Status,Non-Billable Category'' @ [nl] @
             ''E9,Zed,z@x,Non-Billable,Constructor'',
     fsheet = Inr []\<rparr>"

theorem handleImport_foreign_category_witness:
  "stored_resources (snd (handleImport NetOk (processFile (\<lambda>_. None) demo_gen CONSTRUCTOR_CSV init_modal,
      \<lparr>stored_resources = []\<rparr>))) = [] \<and>
   importResult (fst (handleImport NetOk (processFile (\<lambda>_. None) demo_gen CONSTRUCTOR_CSV init_modal,
      \<lparr>stored_resources = []\<rparr>))) = None"
proof -
  let ?st = "processFile (\<lambda>_. None) demo_gen CONSTRUCTOR_CSV init_modal"
  have ne: "validRows ?st \<noteq> []" by code_simp
  have some: "row_resource (hd (validRows ?st)) \<noteq> None" by code_simp
  have enc: "\<not> encodable (the (row_resource (hd (validRows ?st))))" by code_simp
  have "hd (validRows ?st) \<in> set (validRows ?st)" using ne by simp
  moreover have "importResult ?st = None" by (simp add: processFile_flags)
  ultimately show ?thesis
    using handleImport_foreign_category [of "hd (validRows ?st)" ?st "the (row_resource (hd (validRows ?st)))" NetOk
        "\<lparr>stored_resources = []\<rparr>"] some enc
    by simp
qed

text \<open>a CSV file with only blank text is reported as empty and yields no rows.\<close>

theorem processFile_blank_csv:
  assumes "file_ext (fname f) \<notin> {''xlsx'', ''xls''}" and "is_blank (ftext f)"
  shows "parseError (processFile dm gen f st) = Some EMPTY_FILE_ERROR \<and> parsedRows (processFile dm gen f st) = []"
  using assms by (simp add: processFile_def Let_def read_table_def parseCSV_blank)

theorem processFile_blank_csv_witness:
  "parseError (processFile (\<lambda>_. None) demo_gen \<lparr>fname = ''e.csv'', fsize = 2, ftext = [nl, CHR '' ''], fsheet = Inr []\<rparr> init_modal)
   = Some EMPTY_FILE_ERROR"
proof -
  have a: "file_ext (fname \<lparr>fname = ''e.csv'', fsize = 2, ftext = [nl, CHR '' ''], fsheet = Inr []\<rparr>) \<notin> {''xlsx'', ''xls''}"
    by code_simp
  have b: "is_blank (ftext \<lparr>fname = ''e.csv'', fsize = 2, ftext = [nl, CHR '' ''], fsheet = Inr []\<rparr>)"
    by (simp add: is_blank_iff is_ws_def)
  show ?thesis using processFile_blank_csv [OF a b] by simp
qed

end
