(* ===== verification/Queries.thy ===== *)
theory Queries
  imports ImportModal
begin

text \<open>
  The query and mutation hooks of \<open>src/frontend/src/hooks/useQueries.ts\<close>, run
  against a model of the backend actor's collections. The actor is not in the
  sources; its operations are modelled from the generated interface
  (\<open>backend.d.ts\<close>) and the specification: each add appends, each set replaces, and a
  query's \<open>null\<close> argument imposes no condition.

  A query hook returns the query's data, \<open>None\<close> while the query is disabled (no
  actor). A mutation is a value of \<open>mutation\<close>, one constructor per hook with the
  hook's argument, and \<open>run_mutation\<close> is its \<open>mutationFn\<close> in the environment
  \<open>call_env\<close> of the import modal: the error it throws, or the backend after the call.
  \<open>invalidates\<close> is the query key its \<open>onSuccess\<close> invalidates.
\<close>

section \<open>The backend actor\<close>

record backend =
  actor :: actor_store
  stored_projects :: "Project list"
  stored_timesheets :: "TimesheetEntry list"
  caller_profile :: "UserProfile option"
  powerBIEmbedUrl :: "string option"

text \<open>The actor's \<open>addResource\<close> is not in the sources and its contract is not
  specified (an append, or an upsert by identifier); it is modelled as appending the
  record, and no result of the development depends on that choice.\<close>

definition addResource :: "resource \<Rightarrow> actor_store \<Rightarrow> actor_store" where
  "addResource r st = st\<lparr>stored_resources := stored_resources st @ [r]\<rparr>"

definition getProjects :: "ProjectStatus option \<Rightarrow> backend \<Rightarrow> Project list" where
  "getProjects s b = filter (\<lambda>p. case s of None \<Rightarrow> True | Some x \<Rightarrow> project_status p = x) (stored_projects b)"

text \<open>\<open>getTimesheetEntries(resourceId, projectId, startDate, endDate)\<close>, every bound
  inclusive.\<close>

definition getTimesheetEntries ::
  "string option \<Rightarrow> string option \<Rightarrow> time option \<Rightarrow> time option \<Rightarrow> backend \<Rightarrow> TimesheetEntry list" where
  "getTimesheetEntries rid pid sd ed b =
     filter (\<lambda>e. (case rid of None \<Rightarrow> True | Some x \<Rightarrow> resourceId e = x) \<and>
                 (case pid of None \<Rightarrow> True | Some x \<Rightarrow> entry_projectId e = x) \<and>
                 (case sd of None \<Rightarrow> True | Some x \<Rightarrow> x \<le> entry_date e) \<and>
                 (case ed of None \<Rightarrow> True | Some x \<Rightarrow> entry_date e \<le> x))
       (stored_timesheets b)"

section \<open>Query hooks\<close>

definition useResources :: "bool \<Rightarrow> backend \<Rightarrow> resource list option" where
  "useResources ready b = (if ready then Some (stored_resources (actor b)) else None)"

definition useProjects :: "bool \<Rightarrow> ProjectStatus option \<Rightarrow> backend \<Rightarrow> Project list option" where
  "useProjects ready s b = (if ready then Some (getProjects s b) else None)"

text \<open>\<open>useTimesheetEntries(startDate?, endDate?)\<close>, the dates already converted by
  \<open>dateToNs\<close>.\<close>

definition useTimesheetEntries :: "bool \<Rightarrow> time option \<Rightarrow> time option \<Rightarrow> backend \<Rightarrow> TimesheetEntry list option" where
  "useTimesheetEntries ready sd ed b =
     (if ready then Some (getTimesheetEntries None None sd ed b) else None)"

definition useAllTimesheetEntries :: "bool \<Rightarrow> backend \<Rightarrow> TimesheetEntry list option" where
  "useAllTimesheetEntries ready b = useTimesheetEntries ready None None b"

definition useGetCallerUserProfile :: "bool \<Rightarrow> backend \<Rightarrow> UserProfile option option" where
  "useGetCallerUserProfile ready b = (if ready then Some (caller_profile b) else None)"

definition useGetPowerBIEmbedUrl :: "bool \<Rightarrow> backend \<Rightarrow> string option option" where
  "useGetPowerBIEmbedUrl ready b = (if ready then Some (powerBIEmbedUrl b) else None)"

section \<open>Mutation hooks\<close>

datatype mutation =
    AddResource resource
  | BulkAddResources "resource list"
  | UpdateResource string resource
  | DeleteResource string
  | AddProject Project
  | UpdateProject string Project
  | DeleteProject string
  | ToggleMilestone string string
  | AddMilestone string Milestone
  | AddTimesheetEntry TimesheetEntry
  | UpdateTimesheetEntry string TimesheetEntry
  | DeleteTimesheetEntry string
  | SubmitTimesheet string
  | SaveCallerUserProfile UserProfile
  | SetPowerBIEmbedUrl string

text \<open>The hooks whose \<open>mutationFn\<close>, after the actor check, returns
  \<open>Promise.resolve()\<close> without calling the actor.\<close>

definition stub_mutation :: "mutation \<Rightarrow> bool" where
  "stub_mutation m =
     (case m of
        AddResource _ \<Rightarrow> False | BulkAddResources _ \<Rightarrow> False | UpdateResource _ _ \<Rightarrow> False
      | SaveCallerUserProfile _ \<Rightarrow> False | SetPowerBIEmbedUrl _ \<Rightarrow> False | _ \<Rightarrow> True)"

text \<open>One actor call that reaches the network: the network's failure, or the call's
  effect; a resource with a foreign category value cannot be encoded.\<close>

definition actor_call :: "call_env \<Rightarrow> (backend \<Rightarrow> string + backend) \<Rightarrow> backend \<Rightarrow> string + backend" where
  "actor_call env f b = (case env of ActorNotReady \<Rightarrow> Inl ''Actor not ready'' | NetFail msg \<Rightarrow> Inl msg | NetOk \<Rightarrow> f b)"

definition put_resource :: "resource \<Rightarrow> backend \<Rightarrow> string + backend" where
  "put_resource r b = (if encodable r then Inr (b\<lparr>actor := addResource r (actor b)\<rparr>) else Inl ENCODE_ERROR)"

definition run_mutation :: "call_env \<Rightarrow> mutation \<Rightarrow> backend \<Rightarrow> string + backend" where
  "run_mutation env m b =
     (case m of
        AddResource r \<Rightarrow> actor_call env (put_resource r) b
      | BulkAddResources rs \<Rightarrow>
          map_sum id (\<lambda>st. b\<lparr>actor := st\<rparr>) (bulkAddResources_call env rs (actor b))
      | UpdateResource _ r \<Rightarrow> actor_call env (put_resource r) b
      | SaveCallerUserProfile p \<Rightarrow> actor_call env (\<lambda>b. Inr (b\<lparr>caller_profile := Some p\<rparr>)) b
      | SetPowerBIEmbedUrl u \<Rightarrow> actor_call env (\<lambda>b. Inr (b\<lparr>powerBIEmbedUrl := Some u\<rparr>)) b
      | _ \<Rightarrow> if env = ActorNotReady then Inl ''Actor not ready'' else Inr b)"

definition invalidates :: "mutation \<Rightarrow> string" where
  "invalidates m =
     (case m of
        AddResource _ \<Rightarrow> ''resources'' | BulkAddResources _ \<Rightarrow> ''resources''
      | UpdateResource _ _ \<Rightarrow> ''resources'' | DeleteResource _ \<Rightarrow> ''resources''
      | AddProject _ \<Rightarrow> ''projects'' | UpdateProject _ _ \<Rightarrow> ''projects'' | DeleteProject _ \<Rightarrow> ''projects''
      | ToggleMilestone _ _ \<Rightarrow> ''projects'' | AddMilestone _ _ \<Rightarrow> ''projects''
      | AddTimesheetEntry _ \<Rightarrow> ''timesheets'' | UpdateTimesheetEntry _ _ \<Rightarrow> ''timesheets''
      | DeleteTimesheetEntry _ \<Rightarrow> ''timesheets'' | SubmitTimesheet _ \<Rightarrow> ''timesheets''
      | SaveCallerUserProfile _ \<Rightarrow> ''currentUserProfile'' | SetPowerBIEmbedUrl _ \<Rightarrow> ''powerBIEmbedUrl'')"

section \<open>Properties of the hooks\<close>

definition DEMO_RESOURCE :: resource where
  "DEMO_RESOURCE = \<lparr>res_id = ''r1'', doj = 0, status = active, client = [], assignmentStartDate = 0,
     totalExperience = [], name = ''Ann'', role = [], skillTags = [], projectManager = [], deliveryHead = [],
     assignmentEndDate = 0, email = ''a@x'', employeeId = ''E1'', projectId = None, practice = [],
     primarySkills = [], billabilityStatus = billable, contactNumber = [], department = [],
     secondarySkills = [], location = [], nonBillableStatus = None, project = [], reportingManager = []\<rparr>"

definition DEMO_PROJECT :: Project where
  "DEMO_PROJECT = \<lparr>project_id = ''p1'', project_status = ps_active, assignedResourceIds = [], endDate = 0,
     project_name = ''Apollo'', project_description = [], budget = 0, startDate = 0, milestones = [],
     managerName = ''Raj''\<rparr>"

definition EMPTY_BACKEND :: backend where
  "EMPTY_BACKEND = \<lparr>actor = \<lparr>stored_resources = []\<rparr>, stored_projects = [], stored_timesheets = [],
     caller_profile = None, powerBIEmbedUrl = None\<rparr>"

text \<open>C19:the project, milestone and timesheet hooks and the resource delete hook
  never call the actor: once an actor exists they report success whatever the network
  does, and the backend is left exactly as it was (so the query they invalidate is
  refetched unchanged).\<close>

theorem stub_mutation_noop:
  assumes "stub_mutation m"
  shows "run_mutation env m b = (if env = ActorNotReady then Inl ''Actor not ready'' else Inr b)"
  using assms by (cases m) (simp_all add: stub_mutation_def run_mutation_def)

theorem stub_mutation_noop_witness:
  "run_mutation (NetFail ''offline'') (AddProject DEMO_PROJECT) EMPTY_BACKEND =
   (if NetFail ''offline'' = ActorNotReady then Inl ''Actor not ready'' else Inr EMPTY_BACKEND)"
  using stub_mutation_noop [of "AddProject DEMO_PROJECT"] by (simp add: stub_mutation_def)

text \<open>C20:a mutation fails only in three ways: without an actor (every hook throws
  \<open>Actor not ready\<close>), by a network failure of a hook that does call the actor (with
  the network's message), or because a resource sent cannot be encoded.\<close>

theorem run_mutation_error:
  assumes "run_mutation env m b = Inl msg"
  shows "(env = ActorNotReady \<and> msg = ''Actor not ready'') \<or>
         (env = NetFail msg \<and> \<not> stub_mutation m) \<or> (env = NetOk \<and> msg = ENCODE_ERROR)"
  using assms
  by (cases m; cases env)
     (auto simp: run_mutation_def stub_mutation_def actor_call_def put_resource_def
        bulkAddResources_call_def split: if_splits)

theorem run_mutation_error_witness:
  "(NetFail ''timeout'' = ActorNotReady \<and> ''timeout'' = ''Actor not ready'') \<or>
   (NetFail ''timeout'' = NetFail ''timeout'' \<and> \<not> stub_mutation (SetPowerBIEmbedUrl ''u'')) \<or>
   (NetFail ''timeout'' = NetOk \<and> ''timeout'' = ENCODE_ERROR)"
proof -
  have "run_mutation (NetFail ''timeout'') (SetPowerBIEmbedUrl ''u'') EMPTY_BACKEND = Inl ''timeout''"
    by (simp add: run_mutation_def actor_call_def)
  then show ?thesis by (rule run_mutation_error)
qed

end
