(* ===== verification/Calendar.thy ===== *)
theory Calendar
  imports Prelude
begin

text \<open>
  The parts of the ECMAScript \<open>Date\<close> built-in the front end relies on when it prints
  and reads dates, following the definitions of ECMA-262 (section 21.4.1): the day
  number of a time value (\<open>Day\<close>, \<open>msPerDay\<close>), \<open>DaysInYear\<close>, \<open>DayFromYear\<close>,
  \<open>YearFromTime\<close> (here \<open>YearFromDay\<close>, "the largest year whose first day is not
  after the given day", computed by walking down and then up from an estimate),
  \<open>MonthFromTime\<close>, \<open>DateFromTime\<close> and \<open>MakeDay\<close>; \<open>String(n)\<close> for integers
  and \<open>padStart(2, '0')\<close>; and \<open>Date.parse\<close> on the date-only form
  \<open>YYYY-MM-DD\<close> of the date time string format, which denotes UTC midnight.

  The results: \<open>YearFromDay\<close> is the year the standard defines
  (\<open>YearFromDay_bounds\<close>, \<open>YearFromDay_unique\<close>); \<open>MakeDay\<close> inverts the civil
  date of a day (\<open>MakeDay_civil_of_day\<close>); and the date-only parser reads back what
  \<open>iso_string\<close> prints for four-digit years (\<open>iso_date_ms_iso_string\<close>).
\<close>


lemma div_plus1:
  fixes a n :: int
  assumes n: "0 < n"
  shows "(a + 1) div n = a div n + (if (a + 1) mod n = 0 then 1 else 0)"
proof -
  define q r where "q = a div n" and "r = a mod n"
  have a: "a + 1 = (r + 1) + q * n" and r: "0 \<le> r" "r < n"
    using n by (simp_all add: q_def r_def)
  show ?thesis
  proof (cases "r + 1 = n")
    case True
    then show ?thesis using n unfolding a q_def [symmetric] by simp
  next
    case False
    then have "(r + 1) div n = 0" "(r + 1) mod n = r + 1"
      using r by simp_all
    then show ?thesis using n r False unfolding a q_def [symmetric] by simp
  qed
qed

definition msPerDay :: int where "msPerDay = 86400000"

definition DaysInYear :: "int \<Rightarrow> int" where
  "DaysInYear y = (if y mod 4 \<noteq> 0 then 365 else if y mod 100 \<noteq> 0 then 366
                   else if y mod 400 \<noteq> 0 then 365 else 366)"

definition DayFromYear :: "int \<Rightarrow> int" where
  "DayFromYear y = 365 * (y - 1970) + (y - 1969) div 4 - (y - 1901) div 100 + (y - 1601) div 400"

lemma mod_shift: "(y - c) mod (n::int) = y mod n" if "c mod n = 0"
  using that by (simp add: mod_diff_right_eq [symmetric])

lemma DayFromYear_Suc: "DayFromYear (y + 1) = DayFromYear y + DaysInYear y"
proof -
  have a: "(y + 1 - 1969) div 4 = (y - 1969) div 4 + (if y mod 4 = 0 then 1 else 0)"
    using div_plus1 [of 4 "y - 1969"] mod_shift [of 1968 4 y] by (simp add: algebra_simps)
  have b: "(y + 1 - 1901) div 100 = (y - 1901) div 100 + (if y mod 100 = 0 then 1 else 0)"
    using div_plus1 [of 100 "y - 1901"] mod_shift [of 1900 100 y] by (simp add: algebra_simps)
  have c: "(y + 1 - 1601) div 400 = (y - 1601) div 400 + (if y mod 400 = 0 then 1 else 0)"
    using div_plus1 [of 400 "y - 1601"] mod_shift [of 1600 400 y] by (simp add: algebra_simps)
  have "y mod 400 = 0 \<Longrightarrow> y mod 100 = 0" "y mod 100 = 0 \<Longrightarrow> y mod 4 = 0"
    by presburger+
  then show ?thesis
    unfolding DayFromYear_def DaysInYear_def a b c by auto
qed

lemma DaysInYear_bounds: "365 \<le> DaysInYear y \<and> DaysInYear y \<le> 366"
  by (simp add: DaysInYear_def)

function year_down :: "int \<Rightarrow> int \<Rightarrow> int" where
  "year_down z y = (if z < DayFromYear y then year_down z (y - 1) else y)"
  by auto
termination
proof (relation "measure (\<lambda>(z, y). nat (DayFromYear y - z))")
  fix z y :: int
  assume "z < DayFromYear y"
  moreover have "DayFromYear y = DayFromYear (y - 1) + DaysInYear (y - 1)"
    using DayFromYear_Suc [of "y - 1"] by simp
  ultimately show "((z, y - 1), z, y) \<in> measure (\<lambda>(z, y). nat (DayFromYear y - z))"
    using DaysInYear_bounds [of "y - 1"] by simp
qed simp

function year_up :: "int \<Rightarrow> int \<Rightarrow> int" where
  "year_up z y = (if DayFromYear (y + 1) \<le> z then year_up z (y + 1) else y)"
  by auto
termination
proof (relation "measure (\<lambda>(z, y). nat (z - DayFromYear y))")
  fix z y :: int
  assume "DayFromYear (y + 1) \<le> z"
  then show "((z, y + 1), z, y) \<in> measure (\<lambda>(z, y). nat (z - DayFromYear y))"
    using DayFromYear_Suc [of y] DaysInYear_bounds [of y] by simp
qed simp

declare year_down.simps [simp del] year_up.simps [simp del]

definition YearFromDay :: "int \<Rightarrow> int" where
  "YearFromDay z = year_up z (year_down z (1970 + z div 365))"

lemma year_down_le: "DayFromYear (year_down z y) \<le> z"
  by (induction z y rule: year_down.induct) (simp add: year_down.simps)

lemma year_up_bounds:
  "DayFromYear y \<le> z \<Longrightarrow> DayFromYear (year_up z y) \<le> z \<and> z < DayFromYear (year_up z y + 1)"
  by (induction z y rule: year_up.induct) (simp add: year_up.simps)

lemma YearFromDay_bounds:
  "DayFromYear (YearFromDay z) \<le> z \<and> z < DayFromYear (YearFromDay z + 1)"
  unfolding YearFromDay_def by (intro year_up_bounds year_down_le)

lemma DayFromYear_mono: "y < y' \<Longrightarrow> DayFromYear y < DayFromYear y'"
proof (induction "nat (y' - y - 1)" arbitrary: y')
  case 0
  then have "y' = y + 1" by simp
  then show ?case using DayFromYear_Suc [of y] DaysInYear_bounds [of y] by simp
next
  case (Suc k)
  then have "DayFromYear y < DayFromYear (y' - 1)" by (intro Suc.hyps) simp_all
  moreover have "DayFromYear y' = DayFromYear (y' - 1) + DaysInYear (y' - 1)"
    using DayFromYear_Suc [of "y' - 1"] by simp
  ultimately show ?case using DaysInYear_bounds [of "y' - 1"] by simp
qed

lemma YearFromDay_unique:
  assumes "DayFromYear y \<le> z" and "z < DayFromYear (y + 1)"
  shows "YearFromDay z = y"
proof -
  have "\<not> YearFromDay z < y" and "\<not> y < YearFromDay z"
    using YearFromDay_bounds [of z] assms DayFromYear_mono [of "YearFromDay z + 1" y]
      DayFromYear_mono [of "y + 1" "YearFromDay z"]
    by (fastforce simp: less_le)+
  then show ?thesis by simp
qed

lemma YearFromDay_mono: "z \<le> z' \<Longrightarrow> YearFromDay z \<le> YearFromDay z'"
proof (rule ccontr)
  assume "z \<le> z'" and "\<not> YearFromDay z \<le> YearFromDay z'"
  then have "YearFromDay z' + 1 \<le> YearFromDay z" by simp
  then have "DayFromYear (YearFromDay z' + 1) \<le> DayFromYear (YearFromDay z)"
    using DayFromYear_mono [of "YearFromDay z' + 1" "YearFromDay z"] by (cases "YearFromDay z' + 1 = YearFromDay z") auto
  then show False
    using YearFromDay_bounds [of z] YearFromDay_bounds [of z'] \<open>z \<le> z'\<close> by simp
qed

definition InLeapYear :: "int \<Rightarrow> int" where
  "InLeapYear y = (if DaysInYear y = 366 then 1 else 0)"

definition MonthFromDay :: "int \<Rightarrow> int \<Rightarrow> nat" where
  "MonthFromDay l d =
     (if d < 31 then 0 else if d < 59 + l then 1 else if d < 90 + l then 2
      else if d < 120 + l then 3 else if d < 151 + l then 4 else if d < 181 + l then 5
      else if d < 212 + l then 6 else if d < 243 + l then 7 else if d < 273 + l then 8
      else if d < 304 + l then 9 else if d < 334 + l then 10 else 11)"

definition month_start :: "int \<Rightarrow> nat \<Rightarrow> int" where
  "month_start l m = [0, 31, 59 + l, 90 + l, 120 + l, 151 + l, 181 + l, 212 + l, 243 + l, 273 + l,
                      304 + l, 334 + l] ! m"

definition DateFromDay :: "int \<Rightarrow> int \<Rightarrow> int" where
  "DateFromDay l d = d - month_start l (MonthFromDay l d) + 1"

definition MakeDay :: "int \<Rightarrow> int \<Rightarrow> int \<Rightarrow> int" where
  "MakeDay year month date =
     (let ym = year + month div 12; mn = nat (month mod 12)
      in DayFromYear ym + month_start (InLeapYear ym) mn + date - 1)"

definition civil_of_day :: "int \<Rightarrow> int \<times> int \<times> int" where
  "civil_of_day z =
     (let y = YearFromDay z; l = InLeapYear y; d = z - DayFromYear y
      in (y, int (MonthFromDay l d) + 1, DateFromDay l d))"

text \<open>The local calendar day of a time value \<open>ms\<close> (milliseconds since the epoch) in a
  browser whose offset from UTC at that instant is \<open>tz ms\<close>:
  \<open>Day(LocalTime(t))\<close>, what \<open>getFullYear\<close>, \<open>getMonth\<close>, \<open>getDate\<close> and
  \<open>getDay\<close> read.\<close>

definition local_day :: "(int \<Rightarrow> int) \<Rightarrow> int \<Rightarrow> int" where
  "local_day tz ms = (ms + tz ms) div msPerDay"

lemma InLeapYear_cases: "InLeapYear y = 0 \<or> InLeapYear y = 1"
  by (simp add: InLeapYear_def)

lemma DaysInYear_leap: "DaysInYear y = 365 + InLeapYear y"
  by (simp add: InLeapYear_def DaysInYear_def)

lemma month_date_bounds:
  assumes "l = 0 \<or> l = 1" and "0 \<le> d" and "d < 365 + l"
  shows "MonthFromDay l d \<le> 11 \<and> 1 \<le> DateFromDay l d \<and> DateFromDay l d \<le> 31"
  using assms by (auto simp: MonthFromDay_def DateFromDay_def month_start_def)

lemma civil_of_day_bounds:
  assumes "civil_of_day z = (y, m, dt)"
  shows "1 \<le> m \<and> m \<le> 12 \<and> 1 \<le> dt \<and> dt \<le> 31"
proof -
  let ?y = "YearFromDay z"
  have "0 \<le> z - DayFromYear ?y" "z - DayFromYear ?y < 365 + InLeapYear ?y"
    using YearFromDay_bounds [of z] DayFromYear_Suc [of ?y] DaysInYear_leap [of ?y] by simp_all
  then show ?thesis
    using assms month_date_bounds [OF InLeapYear_cases] by (auto simp: civil_of_day_def Let_def)
qed

lemma MakeDay_civil_of_day:
  assumes "civil_of_day z = (y, m, dt)"
  shows "MakeDay y (m - 1) dt = z"
proof -
  let ?l = "InLeapYear y" and ?d = "z - DayFromYear y"
  have y: "y = YearFromDay z" and m: "m = int (MonthFromDay ?l ?d) + 1" and dt: "dt = DateFromDay ?l ?d"
    using assms by (auto simp: civil_of_day_def Let_def)
  have "1 \<le> m \<and> m \<le> 12" using civil_of_day_bounds [OF assms] by simp
  then have "(m - 1) div 12 = 0" "nat ((m - 1) mod 12) = MonthFromDay ?l ?d"
    using m by simp_all
  then show ?thesis
    by (simp add: MakeDay_def dt DateFromDay_def)
qed

fun nat_str :: "nat \<Rightarrow> string" where
  "nat_str n = (if n < 10 then [char_of (48 + n)] else nat_str (n div 10) @ [char_of (48 + n mod 10)])"

declare nat_str.simps [simp del]

definition int_str :: "int \<Rightarrow> string" where
  "int_str i = (if i < 0 then CHR ''-'' # nat_str (nat (- i)) else nat_str (nat i))"

definition pad2 :: "string \<Rightarrow> string" where
  "pad2 s = replicate (2 - length s) (CHR ''0'') @ s"

definition is_digit :: "char \<Rightarrow> bool" where
  "is_digit c \<longleftrightarrow> 48 \<le> (of_char c :: nat) \<and> (of_char c :: nat) \<le> 57"

definition digits_val :: "string \<Rightarrow> nat" where
  "digits_val cs = foldl (\<lambda>n c. 10 * n + (of_char c - 48)) 0 cs"

definition iso_date_ms :: "string \<Rightarrow> int option" where
  "iso_date_ms s =
     (if length s = 10 \<and> s ! 4 = CHR ''-'' \<and> s ! 7 = CHR ''-'' \<and>
         list_all is_digit (take 4 s @ take 2 (drop 5 s) @ drop 8 s)
      then let yy = int (digits_val (take 4 s)); mm = int (digits_val (take 2 (drop 5 s)));
               dd = int (digits_val (drop 8 s))
           in if 1 \<le> mm \<and> mm \<le> 12 \<and> 1 \<le> dd \<and> dd \<le> 31
              then Some (MakeDay yy (mm - 1) dd * msPerDay) else None
      else None)"

definition iso_string :: "int \<Rightarrow> int \<Rightarrow> int \<Rightarrow> string" where
  "iso_string y m d = int_str y @ CHR ''-'' # pad2 (int_str m) @ CHR ''-'' # pad2 (int_str d)"

lemma of_char_digit: "k < 10 \<Longrightarrow> (of_char (char_of (48 + k)) :: nat) = 48 + k"
  by (simp add: of_char_of)

lemma nat_str_less10: "n < 10 \<Longrightarrow> nat_str n = [char_of (48 + n)]"
  by (simp add: nat_str.simps)

lemma nat_str_ge10: "\<not> n < 10 \<Longrightarrow> nat_str n = nat_str (n div 10) @ [char_of (48 + n mod 10)]"
  by (simp add: nat_str.simps [of n])

lemma digit_char: "k < 10 \<Longrightarrow> is_digit (char_of (48 + k)) \<and> (of_char (char_of (48 + k)) :: nat) - 48 = k"
  by (simp add: of_char_of is_digit_def)

lemma nat_str_digits: "list_all is_digit (nat_str n) \<and> digits_val (nat_str n) = n"
proof (induction n rule: nat_str.induct)
  case (1 n)
  show ?case
  proof (cases "n < 10")
    case True
    then show ?thesis using digit_char [of n] by (simp add: nat_str_less10 digits_val_def)
  next
    case False
    then have "list_all is_digit (nat_str (n div 10)) \<and> digits_val (nat_str (n div 10)) = n div 10"
      using 1 by simp
    then show ?thesis using False digit_char [of "n mod 10"]
      by (simp add: nat_str_ge10 digits_val_def)
  qed
qed

lemma length_nat_str_4: "1000 \<le> n \<Longrightarrow> n < 10000 \<Longrightarrow> length (nat_str n) = 4"
proof -
  assume n: "1000 \<le> n" "n < 10000"
  then have "\<not> n < 10" "\<not> n div 10 < 10" "\<not> n div 10 div 10 < 10" "n div 10 div 10 div 10 < 10"
    by simp_all
  then show ?thesis by (simp add: nat_str_ge10 nat_str_less10)
qed

lemma length_pad2: "0 < n \<Longrightarrow> n < 100 \<Longrightarrow> length (pad2 (nat_str n)) = 2 \<and>
    list_all is_digit (pad2 (nat_str n)) \<and> digits_val (pad2 (nat_str n)) = n"
proof -
  assume n: "0 < n" "n < 100"
  have len: "length (nat_str n) = (if n < 10 then 1 else 2)"
    using n by (simp add: nat_str_ge10 nat_str_less10)
  have "is_digit (CHR ''0'')" "digits_val (CHR ''0'' # cs) = digits_val cs" for cs
    by (simp_all add: is_digit_def digits_val_def)
  then show ?thesis using nat_str_digits [of n] len by (auto simp: pad2_def)
qed

lemma iso_date_ms_iso_string:
  assumes "1000 \<le> y" "y \<le> 9999" "1 \<le> m" "m \<le> 12" "1 \<le> d" "d \<le> 31"
  shows "iso_date_ms (iso_string y m d) = Some (MakeDay y (m - 1) d * msPerDay)"
proof -
  let ?Y = "nat_str (nat y)" and ?M = "pad2 (nat_str (nat m))" and ?D = "pad2 (nat_str (nat d))"
  have Y: "length ?Y = 4" "list_all is_digit ?Y" "digits_val ?Y = nat y"
    using assms length_nat_str_4 [of "nat y"] nat_str_digits [of "nat y"] by simp_all
  have M: "length ?M = 2" "list_all is_digit ?M" "digits_val ?M = nat m"
    using assms length_pad2 [of "nat m"] by simp_all
  have D: "length ?D = 2" "list_all is_digit ?D" "digits_val ?D = nat d"
    using assms length_pad2 [of "nat d"] by simp_all
  have s: "iso_string y m d = ?Y @ CHR ''-'' # ?M @ CHR ''-'' # ?D"
    using assms by (simp add: iso_string_def int_str_def)
  show ?thesis
    unfolding iso_date_ms_def s using Y M D assms
    by (simp add: nth_append)
qed

lemma iso_date_ms_civil:
  assumes "civil_of_day z = (y, m, d)" and "1000 \<le> y" and "y \<le> 9999"
  shows "iso_date_ms (iso_string y m d) = Some (z * msPerDay)"
  using iso_date_ms_iso_string [of y m d] civil_of_day_bounds [OF assms(1)] MakeDay_civil_of_day [OF assms(1)]
    assms(2,3) by simp

lemma is_digit_not_ws: "is_digit c \<Longrightarrow> \<not> is_ws c"
  by (auto simp: is_digit_def is_ws_def Let_def)

lemma iso_string_no_ws:
  assumes "0 \<le> y" and "0 < m" and "m < 100" and "0 < d" and "d < 100"
  shows "\<forall>c \<in> set (iso_string y m d). \<not> is_ws c"
proof -
  have "list_all is_digit (nat_str (nat y))" "list_all is_digit (pad2 (nat_str (nat m)))"
    "list_all is_digit (pad2 (nat_str (nat d)))"
    using nat_str_digits [of "nat y"] length_pad2 [of "nat m"] length_pad2 [of "nat d"] assms
    by simp_all
  moreover have "\<not> is_ws (CHR ''-'')" by (simp add: is_ws_def)
  ultimately show ?thesis
    using assms by (auto simp: iso_string_def int_str_def list_all_iff dest: is_digit_not_ws)
qed

end
