(* ===== verification/Timesheets.thy ===== *)
theory Timesheets
  imports Queries Calendar
begin

text \<open>
  The time-entry screen: the date helpers of \<open>src/frontend/src/lib/utils.ts\<close> that
  it uses, \<open>components/WeeklyTimesheetView.tsx\<close> as a function from its props to the
  week it shows, and \<open>pages/TimesheetsPage.tsx\<close>, which feeds it from the query hooks.

  A \<open>Date\<close> is its time value in milliseconds; its local getters read the local
  day \<open>(ms + tz ms) div msPerDay\<close>, where the parameter \<open>tz\<close> is the browser's offset
  from UTC at that instant. \<open>toDateString()\<close> names a local day, so the view's day
  keys are local day numbers.
\<close>

section \<open>Date helpers\<close>

text \<open>\<open>nsToDate\<close>: \<open>ns / BigInt(1_000_000)\<close> truncates towards zero.\<close>

definition nsToDate :: "time \<Rightarrow> int" where
  "nsToDate ns = (if ns < 0 then - ((- ns) div 1000000) else ns div 1000000)"

definition dateToNs :: "int \<Rightarrow> time" where
  "dateToNs ms = ms * 1000000"

text \<open>\<open>getDay()\<close>: \<open>WeekDay(t) = (Day(t) + 4) mod 7\<close>, 0 for Sunday.\<close>

definition WeekDay :: "int \<Rightarrow> int" where
  "WeekDay d = (d + 4) mod 7"

text \<open>\<open>getWeekStart\<close> as the local day it returns (at local midnight):
  \<open>getDate() - getDay() + (day === 0 ? -6 : 1)\<close> days into the month, which
  \<open>setDate\<close> carries into the neighbouring months.\<close>

definition getWeekStart :: "(int \<Rightarrow> int) \<Rightarrow> int \<Rightarrow> int" where
  "getWeekStart tz now =
     (let d = local_day tz now; day = WeekDay d in d - day + (if day = 0 then -6 else 1))"

definition getWeekEnd :: "(int \<Rightarrow> int) \<Rightarrow> int \<Rightarrow> int" where
  "getWeekEnd tz now = getWeekStart tz now + 6"

section \<open>The weekly view\<close>

definition DAY_LABELS :: "string list" where
  "DAY_LABELS = [''Mon'', ''Tue'', ''Wed'', ''Thu'', ''Fri'', ''Sat'', ''Sun'']"

definition status_label :: "TimesheetStatus \<Rightarrow> string" where
  "status_label s = (case s of draft \<Rightarrow> ''Draft'' | submitted \<Rightarrow> ''Submitted'' | approved \<Rightarrow> ''Approved'')"

text \<open>The controls of an entry's row, and the handler each one calls: the approve
  button of a submitted entry calls \<open>onSubmit\<close>.\<close>

datatype row_control = EditButton | SubmitButton | DeleteButton | SubmittedMark | ApproveButton | ApprovedMark

datatype row_handler = OnEdit | OnSubmit | OnDelete | NoHandler

definition control_handler :: "row_control \<Rightarrow> row_handler" where
  "control_handler c =
     (case c of EditButton \<Rightarrow> OnEdit | SubmitButton \<Rightarrow> OnSubmit | DeleteButton \<Rightarrow> OnDelete
      | ApproveButton \<Rightarrow> OnSubmit | _ \<Rightarrow> NoHandler)"

definition row_controls :: "bool \<Rightarrow> TimesheetStatus \<Rightarrow> row_control list" where
  "row_controls showApprovalActions s =
     (case s of
        draft \<Rightarrow> [EditButton, SubmitButton, DeleteButton]
      | submitted \<Rightarrow> SubmittedMark # (if showApprovalActions then [ApproveButton] else [])
      | approved \<Rightarrow> [ApprovedMark])"

record entry_row =
  row_day :: string
  row_date :: int
  row_title :: string
  row_subtitle :: string
  row_hours :: int
  row_status :: string
  row_controls_shown :: "row_control list"

record weekly_view =
  week_days :: "int list"
  day_hours :: "int list"
  entry_count :: nat
  total_hours :: int
  entry_rows :: "entry_row list"

definition weekDays :: "(int \<Rightarrow> int) \<Rightarrow> int \<Rightarrow> int list" where
  "weekDays tz now = map (\<lambda>i. getWeekStart tz now + int i) [0 ..< 7]"

definition entry_day :: "(int \<Rightarrow> int) \<Rightarrow> TimesheetEntry \<Rightarrow> int" where
  "entry_day tz e = local_day tz (nsToDate (entry_date e))"

text \<open>\<open>entriesByDay\<close>: an entry goes to the list of its day when that day is one of
  the week's; \<open>hoursPerDay\<close> sums each list.\<close>

definition entriesByDay :: "(int \<Rightarrow> int) \<Rightarrow> int \<Rightarrow> TimesheetEntry list \<Rightarrow> int \<Rightarrow> TimesheetEntry list" where
  "entriesByDay tz now entries d =
     (if d \<in> set (weekDays tz now) then filter (\<lambda>e. entry_day tz e = d) entries else [])"

definition hours_sum :: "TimesheetEntry list \<Rightarrow> int" where
  "hours_sum es = sum_list (map hoursLogged es)"

definition hoursPerDay :: "(int \<Rightarrow> int) \<Rightarrow> int \<Rightarrow> TimesheetEntry list \<Rightarrow> int list" where
  "hoursPerDay tz now entries = map (\<lambda>d. hours_sum (entriesByDay tz now entries d)) (weekDays tz now)"

definition entryRow ::
  "(int \<Rightarrow> int) \<Rightarrow> bool \<Rightarrow> Project list \<Rightarrow> resource list \<Rightarrow> TimesheetEntry \<Rightarrow> entry_row" where
  "entryRow tz showApprovalActions projects resources e =
     (let d = entry_day tz e
      in \<lparr>row_day = DAY_LABELS ! nat ((WeekDay d + 6) mod 7),
          row_date = snd (snd (civil_of_day d)),
          row_title = (case find (\<lambda>p. project_id p = entry_projectId e) projects of
                         Some p \<Rightarrow> project_name p | None \<Rightarrow> entry_projectId e),
          row_subtitle = (case find (\<lambda>r. res_id r = resourceId e) resources of
                            Some r \<Rightarrow> name r | None \<Rightarrow> resourceId e) @
                         (if entry_description e = [] then [] else [CHR 0x20, CHR 0xB7, CHR 0x20] @ entry_description e),
          row_hours = hoursLogged e,
          row_status = status_label (entry_status e),
          row_controls_shown = row_controls showApprovalActions (entry_status e)\<rparr>)"

definition WeeklyTimesheetView ::
  "(int \<Rightarrow> int) \<Rightarrow> int \<Rightarrow> TimesheetEntry list \<Rightarrow> Project list \<Rightarrow> resource list \<Rightarrow> bool \<Rightarrow> weekly_view" where
  "WeeklyTimesheetView tz now entries projects resources showApprovalActions =
     \<lparr>week_days = weekDays tz now,
      day_hours = hoursPerDay tz now entries,
      entry_count = length entries,
      total_hours = hours_sum entries,
      entry_rows = map (entryRow tz showApprovalActions projects resources) entries\<rparr>"

section \<open>The timesheets page\<close>

datatype timesheets_page = TimesheetsSkeleton | TimesheetsWeek weekly_view

text \<open>\<open>TimesheetsPage\<close> as routed (no props: \<open>canLogTime\<close> true, no approval
  actions), reading the three queries; \<open>useTimesheetEntries()\<close> is called without
  dates. Its Log Time button only sets a state that nothing renders, and its delete
  and submit handlers are empty.\<close>

definition TimesheetsPage :: "(int \<Rightarrow> int) \<Rightarrow> int \<Rightarrow> bool \<Rightarrow> backend \<Rightarrow> timesheets_page" where
  "TimesheetsPage tz now ready b =
     (case (useTimesheetEntries ready None None b, useResources ready b, useProjects ready None b) of
        (Some es, Some rs, Some ps) \<Rightarrow> TimesheetsWeek (WeeklyTimesheetView tz now es ps rs False)
      | _ \<Rightarrow> TimesheetsSkeleton)"

definition DEMO_ENTRY :: "time \<Rightarrow> int \<Rightarrow> TimesheetEntry" where
  "DEMO_ENTRY t h = \<lparr>entry_id = ''t'', entry_status = draft, resourceId = ''r1'', entry_date = t,
     entry_description = [], entry_projectId = ''p1'', hoursLogged = h\<rparr>"

section \<open>Lemmas\<close>

lemma hours_sum_append [simp]: "hours_sum (xs @ ys) = hours_sum xs + hours_sum ys"
  by (simp add: hours_sum_def)

lemma hours_sum_filter_split:
  "hours_sum es = hours_sum (filter P es) + hours_sum (filter (\<lambda>e. \<not> P e) es)"
  by (induction es) (simp_all add: hours_sum_def)

lemma hours_sum_filter_disj:
  "(\<And>e. \<not> (P e \<and> Q e)) \<Longrightarrow>
   hours_sum (filter (\<lambda>e. P e \<or> Q e) es) = hours_sum (filter P es) + hours_sum (filter Q es)"
  by (induction es) (auto simp: hours_sum_def)

lemma sum_days:
  "distinct ds \<Longrightarrow>
   sum_list (map (\<lambda>d. hours_sum (filter (\<lambda>e. f e = d) es)) ds) = hours_sum (filter (\<lambda>e. f e \<in> set ds) es)"
proof (induction ds)
  case Nil
  then show ?case by (simp add: hours_sum_def)
next
  case (Cons d ds)
  then have "hours_sum (filter (\<lambda>e. f e = d \<or> f e \<in> set ds) es) =
             hours_sum (filter (\<lambda>e. f e = d) es) + hours_sum (filter (\<lambda>e. f e \<in> set ds) es)"
    by (intro hours_sum_filter_disj) auto
  with Cons show ?case by simp
qed

lemma distinct_weekDays: "distinct (weekDays tz now)"
  by (simp add: weekDays_def distinct_map inj_on_def)

section \<open>Properties of the weekly view\<close>

text \<open>C21:the week the view shows starts on a Monday and contains today.\<close>

theorem getWeekStart_monday:
  "WeekDay (getWeekStart tz now) = 1 \<and> getWeekStart tz now \<le> local_day tz now \<and>
   local_day tz now < getWeekStart tz now + 7"
proof -
  define d where "d = local_day tz now"
  have w: "0 \<le> (d + 4) mod 7" "(d + 4) mod 7 < 7" by simp_all
  show ?thesis
    unfolding getWeekStart_def WeekDay_def d_def [symmetric] Let_def
    using w by (auto; presburger)
qed

text \<open>C22:the total the weekly view shows is the sum of its seven day columns plus the
  hours of every entry it was given whose local day is not in the week.\<close>

theorem weekly_total_split:
  "total_hours (WeeklyTimesheetView tz now es ps rs sa) =
   sum_list (day_hours (WeeklyTimesheetView tz now es ps rs sa)) +
   hours_sum (filter (\<lambda>e. entry_day tz e \<notin> set (weekDays tz now)) es)"
proof -
  have "day_hours (WeeklyTimesheetView tz now es ps rs sa) =
        map (\<lambda>d. hours_sum (filter (\<lambda>e. entry_day tz e = d) es)) (weekDays tz now)"
    by (simp add: WeeklyTimesheetView_def hoursPerDay_def entriesByDay_def)
  then have "sum_list (day_hours (WeeklyTimesheetView tz now es ps rs sa)) =
             hours_sum (filter (\<lambda>e. entry_day tz e \<in> set (weekDays tz now)) es)"
    using sum_days [OF distinct_weekDays] by simp
  then show ?thesis
    using hours_sum_filter_split [of es "\<lambda>e. entry_day tz e \<in> set (weekDays tz now)"]
    by (simp add: WeeklyTimesheetView_def)
qed

end
