(* ===== verification/Dashboard.thy ===== *)
theory Dashboard
  imports Timesheets "HOL-Library.Multiset"
begin

text \<open>
  The dashboard, \<open>src/frontend/src/pages/DashboardPage.tsx\<close>, with the period helpers
  \<open>isDateInPeriod\<close> and \<open>formatPeriodLabel\<close> of \<open>lib/utils.ts\<close> and the filter state of
  \<open>components/DashboardDateFilter.tsx\<close>. Each \<open>useMemo\<close> is a definition over the
  query data and the filter; \<open>DashboardPage\<close> collects them into the view record.

  The hours-per-project map is a plain object: \<open>hours_acc\<close> is its accumulation,
  and \<open>object_entries\<close> is \<open>Object.entries\<close>, which lists keys that are array
  indices first in ascending order and the other keys in insertion order. An activity
  event's description is kept as its parts (the template joins them with an em dash,
  outside the Latin-1 strings of the model).
\<close>

section \<open>Periods\<close>

record FilterState =
  selectedMonth :: int
  selectedYear :: int
  selectedDate :: "int option"

definition civil_local :: "(int \<Rightarrow> int) \<Rightarrow> int \<Rightarrow> int \<times> int \<times> int" where
  "civil_local tz ms = civil_of_day (local_day tz ms)"

text \<open>\<open>isDateInPeriod(date, month, year, specificDate)\<close>: the same local calendar day
  as \<open>specificDate\<close> when one is given, else the same local month and year.\<close>

definition isDateInPeriod :: "(int \<Rightarrow> int) \<Rightarrow> int \<Rightarrow> int \<Rightarrow> int \<Rightarrow> int option \<Rightarrow> bool" where
  "isDateInPeriod tz ms month year specificDate =
     (case specificDate of
        Some sd \<Rightarrow> civil_local tz ms = civil_local tz sd
      | None \<Rightarrow> (case civil_local tz ms of (y, m, _) \<Rightarrow> y = year \<and> m = month))"

definition MONTH_SHORT :: "string list" where
  "MONTH_SHORT = [''Jan'', ''Feb'', ''Mar'', ''Apr'', ''May'', ''Jun'', ''Jul'', ''Aug'', ''Sep'', ''Oct'',
                  ''Nov'', ''Dec'']"

text \<open>\<open>formatPeriodLabel\<close>: \<open>toLocaleDateString('en-US', ...)\<close> prints \<open>Jul 15, 2025\<close>
  for a day and \<open>Jul 2025\<close> for \<open>new Date(year, month - 1, 1)\<close>, a month given as
  1 to 12.\<close>

definition formatPeriodLabel :: "(int \<Rightarrow> int) \<Rightarrow> int \<Rightarrow> int \<Rightarrow> int option \<Rightarrow> string" where
  "formatPeriodLabel tz month year specificDate =
     (case specificDate of
        Some sd \<Rightarrow> (case civil_local tz sd of (y, m, d) \<Rightarrow>
                      MONTH_SHORT ! nat (m - 1) @ CHR '' '' # int_str d @ '', '' @ int_str y)
      | None \<Rightarrow> MONTH_SHORT ! nat (month - 1) @ CHR '' '' # int_str year)"

definition initial_filter :: "(int \<Rightarrow> int) \<Rightarrow> int \<Rightarrow> FilterState" where
  "initial_filter tz now =
     (case civil_local tz now of (y, m, _) \<Rightarrow> \<lparr>selectedMonth = m, selectedYear = y, selectedDate = None\<rparr>)"

section \<open>Aggregates\<close>

definition in_period :: "(int \<Rightarrow> int) \<Rightarrow> FilterState \<Rightarrow> time \<Rightarrow> bool" where
  "in_period tz f t = isDateInPeriod tz (nsToDate t) (selectedMonth f) (selectedYear f) (selectedDate f)"

definition filteredResources :: "(int \<Rightarrow> int) \<Rightarrow> FilterState \<Rightarrow> resource list \<Rightarrow> resource list" where
  "filteredResources tz f rs = filter (\<lambda>r. in_period tz f (assignmentStartDate r)) rs"

definition filteredProjects :: "(int \<Rightarrow> int) \<Rightarrow> FilterState \<Rightarrow> Project list \<Rightarrow> Project list" where
  "filteredProjects tz f ps = filter (\<lambda>p. in_period tz f (startDate p)) ps"

definition filteredTimesheets :: "(int \<Rightarrow> int) \<Rightarrow> FilterState \<Rightarrow> TimesheetEntry list \<Rightarrow> TimesheetEntry list" where
  "filteredTimesheets tz f ts = filter (\<lambda>t. in_period tz f (entry_date t)) ts"

definition activeResources :: "resource list \<Rightarrow> nat" where
  "activeResources rs = length (filter (\<lambda>r. status r = active) rs)"

definition activeProjects :: "Project list \<Rightarrow> nat" where
  "activeProjects ps = length (filter (\<lambda>p. project_status p = ps_active) ps)"

definition pendingApprovals :: "TimesheetEntry list \<Rightarrow> nat" where
  "pendingApprovals ts = length (filter (\<lambda>t. entry_status t = submitted) ts)"

text \<open>The members of \<open>Object.prototype\<close>, which a plain object \<open>{}\<close> inherits.\<close>

definition OBJECT_PROTO_MEMBERS :: "string list" where
  "OBJECT_PROTO_MEMBERS =
     [''constructor'', ''__defineGetter__'', ''__defineSetter__'', ''hasOwnProperty'', ''__lookupGetter__'',
      ''__lookupSetter__'', ''isPrototypeOf'', ''propertyIsEnumerable'', ''toString'', ''valueOf'',
      ''__proto__'', ''toLocaleString'']"

text \<open>A value of the hours map: a number, or the text that \<open>+\<close> makes when the value
  read is not a number. \<open>HText k ns\<close> is \<open>String(Object.prototype[k])\<close> followed by
  the decimal text of each of the hours \<open>ns\<close>.\<close>

datatype hval = HNum int | HText string "int list"

definition hval_add :: "hval \<Rightarrow> int \<Rightarrow> hval" where
  "hval_add v h = (case v of HNum n \<Rightarrow> HNum (n + h) | HText k ns \<Rightarrow> HText k (ns @ [h]))"

text \<open>\<open>map[name] = (map[name] ?? 0) + hours\<close> on the object \<open>{}\<close>: an own key keeps
  the position of its first write and adds. A new key that names an inherited member
  reads that member, a function or, for \<open>__proto__\<close>, \<open>Object.prototype\<close>, which
  \<open>?? 0\<close> keeps and \<open>+\<close> turns into text; the text becomes an own property, except
  under \<open>__proto__\<close>, whose setter ignores a value that is not an object.\<close>

fun hours_acc :: "(string \<times> hval) list \<Rightarrow> string \<Rightarrow> int \<Rightarrow> (string \<times> hval) list" where
  "hours_acc [] k h =
     (if k = ''__proto__'' then []
      else if k \<in> set OBJECT_PROTO_MEMBERS then [(k, HText k [h])]
      else [(k, HNum h)])"
| "hours_acc ((k', v) # m) k h = (if k' = k then (k', hval_add v h) # m else (k', v) # hours_acc m k h)"

text \<open>A property key that is an array index: the canonical decimal form of a number
  below \<open>2^32 - 1\<close>.\<close>

definition is_array_index :: "string \<Rightarrow> bool" where
  "is_array_index k \<longleftrightarrow>
     k \<noteq> [] \<and> list_all is_digit k \<and> (k = ''0'' \<or> hd k \<noteq> CHR ''0'') \<and> digits_val k < 4294967295"

definition object_entries :: "(string \<times> 'v) list \<Rightarrow> (string \<times> 'v) list" where
  "object_entries m =
     sort_key (\<lambda>(k, _). digits_val k) (filter (\<lambda>(k, _). is_array_index k) m) @
     filter (\<lambda>(k, _). \<not> is_array_index k) m"

definition project_label :: "Project list \<Rightarrow> string \<Rightarrow> string" where
  "project_label ps pid = (case find (\<lambda>p. project_id p = pid) ps of Some p \<Rightarrow> project_name p | None \<Rightarrow> pid)"

definition hoursPerProject :: "TimesheetEntry list \<Rightarrow> Project list \<Rightarrow> (string \<times> hval) list" where
  "hoursPerProject ts ps =
     object_entries (foldl (\<lambda>m t. hours_acc m (project_label ps (entry_projectId t)) (hoursLogged t)) [] ts)"

section \<open>The activity feed\<close>

datatype activity_type = timesheet_submitted | timesheet_approved | project_updated

datatype activity_description =
    TimesheetActivity string string int
  | ProjectActivity ProjectStatus string

record ActivityEvent =
  ev_id :: string
  ev_type :: activity_type
  ev_title :: string
  ev_description :: activity_description
  ev_timestamp :: int

definition timesheet_event :: "resource list \<Rightarrow> Project list \<Rightarrow> TimesheetEntry \<Rightarrow> ActivityEvent" where
  "timesheet_event rs ps t =
     \<lparr>ev_id = entry_id t,
      ev_type = (if entry_status t = approved then timesheet_approved else timesheet_submitted),
      ev_title = (if entry_status t = approved then ''Timesheet Approved'' else ''Timesheet Submitted''),
      ev_description = TimesheetActivity
        (case find (\<lambda>r. res_id r = resourceId t) rs of Some r \<Rightarrow> name r | None \<Rightarrow> ''Unknown'')
        (project_label ps (entry_projectId t)) (hoursLogged t),
      ev_timestamp = nsToDate (entry_date t)\<rparr>"

definition project_event :: "Project \<Rightarrow> ActivityEvent" where
  "project_event p =
     \<lparr>ev_id = ''proj-'' @ project_id p, ev_type = project_updated, ev_title = ''Project: '' @ project_name p,
      ev_description = ProjectActivity (project_status p) (managerName p),
      ev_timestamp = nsToDate (startDate p)\<rparr>"

text \<open>\<open>xs.slice(-n)\<close>: the last \<open>n\<close> elements.\<close>

definition slice_last :: "nat \<Rightarrow> 'a list \<Rightarrow> 'a list" where
  "slice_last n xs = drop (length xs - n) xs"

text \<open>The events, newest first (\<open>Array.prototype.sort\<close> is stable), at most eight.\<close>

definition activityEvents :: "TimesheetEntry list \<Rightarrow> resource list \<Rightarrow> Project list \<Rightarrow> ActivityEvent list" where
  "activityEvents ts rs ps =
     take 8 (sort_key (\<lambda>e. - ev_timestamp e)
       (map (timesheet_event rs ps)
          (slice_last 5 (filter (\<lambda>t. entry_status t = submitted \<or> entry_status t = approved) ts)) @
        map project_event (slice_last 3 ps)))"

section \<open>The page\<close>

record dashboard_view =
  dv_period :: string
  dv_activeResources :: nat
  dv_activeProjects :: nat
  dv_hours :: int
  dv_pending :: nat
  dv_chart :: "(string \<times> hval) list"
  dv_events :: "ActivityEvent list"

datatype dashboard_page = DashboardLoading string | DashboardShown dashboard_view

definition DashboardPage :: "(int \<Rightarrow> int) \<Rightarrow> FilterState \<Rightarrow> bool \<Rightarrow> backend \<Rightarrow> dashboard_page" where
  "DashboardPage tz f ready b =
     (let label = formatPeriodLabel tz (selectedMonth f) (selectedYear f) (selectedDate f)
      in case (useResources ready b, useProjects ready None b, useTimesheetEntries ready None None b) of
           (Some rs, Some ps, Some ts) \<Rightarrow>
             let frs = filteredResources tz f rs; fps = filteredProjects tz f ps; fts = filteredTimesheets tz f ts
             in DashboardShown
                  \<lparr>dv_period = label, dv_activeResources = activeResources frs,
                   dv_activeProjects = activeProjects fps, dv_hours = hours_sum fts,
                   dv_pending = pendingApprovals fts, dv_chart = hoursPerProject fts fps,
                   dv_events = activityEvents fts frs fps\<rparr>
         | _ \<Rightarrow> DashboardLoading label)"

section \<open>Lemmas\<close>

text \<open>The number a value holds, and whether every value of a map is a number.\<close>

fun hnum :: "hval \<Rightarrow> int" where
  "hnum (HNum n) = n"
| "hnum (HText _ _) = 0"

definition numeric :: "(string \<times> hval) list \<Rightarrow> bool" where
  "numeric m \<longleftrightarrow> (\<forall>(_, v) \<in> set m. \<exists>n. v = HNum n)"

lemma numeric_simps [simp]:
  "numeric []" "numeric ((k, v) # m) \<longleftrightarrow> (\<exists>n. v = HNum n) \<and> numeric m"
  by (auto simp: numeric_def)

lemma hours_acc_numeric:
  "numeric m \<Longrightarrow> k \<notin> set OBJECT_PROTO_MEMBERS \<Longrightarrow>
   numeric (hours_acc m k h) \<and> sum_list (map (hnum \<circ> snd) (hours_acc m k h)) = sum_list (map (hnum \<circ> snd) m) + h"
  by (induction m k h rule: hours_acc.induct) (auto simp: hval_add_def OBJECT_PROTO_MEMBERS_def)

lemma hours_acc_keys: "fst ` set (hours_acc m k h) \<subseteq> insert k (fst ` set m)"
  by (induction m k h rule: hours_acc.induct) auto

lemma hours_acc_distinct: "distinct (map fst m) \<Longrightarrow> distinct (map fst (hours_acc m k h))"
proof (induction m k h rule: hours_acc.induct)
  case (2 k' v m k h)
  have "k' \<notin> fst ` set (hours_acc m k h)" if "k' \<noteq> k"
    using 2(2) that hours_acc_keys [of m k h] by auto
  then show ?case using 2 by auto
qed simp

lemma foldl_hours_acc:
  "distinct (map fst m) \<Longrightarrow> numeric m \<Longrightarrow> \<forall>t \<in> set ts. g t \<notin> set OBJECT_PROTO_MEMBERS \<Longrightarrow>
   distinct (map fst (foldl (\<lambda>m t. hours_acc m (g t) (hoursLogged t)) m ts)) \<and>
   numeric (foldl (\<lambda>m t. hours_acc m (g t) (hoursLogged t)) m ts) \<and>
   sum_list (map (hnum \<circ> snd) (foldl (\<lambda>m t. hours_acc m (g t) (hoursLogged t)) m ts)) =
     sum_list (map (hnum \<circ> snd) m) + hours_sum ts"
  by (induction ts arbitrary: m) (simp_all add: hours_sum_def hours_acc_distinct hours_acc_numeric)

lemma mset_object_entries: "mset (object_entries m) = mset m"
  by (simp add: object_entries_def)

lemma sum_list_map_mset: "sum_list (map f zs) = sum_mset (image_mset f (mset zs))"
  by (induction zs) auto

lemma perm_sum_distinct:
  assumes "mset xs = mset ys"
  shows "sum_list (map (f :: 'a \<times> 'b \<Rightarrow> int) xs) = sum_list (map f ys) \<and> set xs = set ys \<and>
         distinct (map fst xs) = distinct (map fst ys)"
proof (intro conjI)
  show "sum_list (map f xs) = sum_list (map f ys)"
    by (simp only: sum_list_map_mset assms)
  show "set xs = set ys" using assms by (metis set_mset_mset)
  have "mset (map fst xs) = mset (map fst ys)" using assms by simp
  then show "distinct (map fst xs) = distinct (map fst ys)"
    by (rule mset_eq_imp_distinct_iff)
qed

lemma sorted_take_desc: "sorted_wrt (\<ge>) xs \<Longrightarrow> sorted_wrt (\<ge>) (take n xs)"
  by (rule sorted_wrt_take)

lemma sort_key_desc: "sorted_wrt (\<ge>) (map (f :: 'a \<Rightarrow> int) (sort_key (\<lambda>e. - f e) xs))"
proof -
  have "sorted (map (\<lambda>e. - f e) (sort_key (\<lambda>e. - f e) xs))" by (rule sorted_sort_key)
  then have "sorted_wrt (\<lambda>x y. - f x \<le> - f y) (sort_key (\<lambda>e. - f e) xs)"
    by (simp add: sorted_map)
  then show ?thesis by (simp add: sorted_wrt_map)
qed

lemma count_take_le: "length (filter P (take n xs)) \<le> length (filter P xs)"
  by (induction xs arbitrary: n) (auto simp: take_Cons split: nat.splits)

section \<open>Properties of the dashboard\<close>

text \<open>C23:when no project label names a member of \<open>Object.prototype\<close>, every bar of
  the hours-per-project chart is a number, the chart has one bar per label and its
  bars add up to the hours logged in the period, whatever order \<open>Object.entries\<close>
  gives.\<close>

theorem hoursPerProject_total:
  assumes "\<forall>t \<in> set ts. project_label ps (entry_projectId t) \<notin> set OBJECT_PROTO_MEMBERS"
  shows "numeric (hoursPerProject ts ps) \<and> sum_list (map (hnum \<circ> snd) (hoursPerProject ts ps)) = hours_sum ts \<and>
         distinct (map fst (hoursPerProject ts ps))"
proof -
  let ?m = "foldl (\<lambda>m t. hours_acc m (project_label ps (entry_projectId t)) (hoursLogged t)) [] ts"
  have m: "distinct (map fst ?m) \<and> numeric ?m \<and> sum_list (map (hnum \<circ> snd) ?m) = hours_sum ts"
    using foldl_hours_acc [where m = "[]" and g = "\<lambda>t. project_label ps (entry_projectId t)" and ts = ts] assms
    by simp
  have p: "sum_list (map (hnum \<circ> snd) (object_entries ?m)) = sum_list (map (hnum \<circ> snd) ?m) \<and>
           set (object_entries ?m) = set ?m \<and> distinct (map fst (object_entries ?m)) = distinct (map fst ?m)"
    by (rule perm_sum_distinct [OF mset_object_entries])
  then have "numeric (object_entries ?m) = numeric ?m" by (simp add: numeric_def)
  then show ?thesis using m p by (simp add: hoursPerProject_def)
qed

lemma hoursPerProject_total_witness:
  "project_label [] (entry_projectId (DEMO_ENTRY 0 8)) \<notin> set OBJECT_PROTO_MEMBERS \<and>
   numeric (hoursPerProject [DEMO_ENTRY 0 8] []) \<and>
   sum_list (map (hnum \<circ> snd) (hoursPerProject [DEMO_ENTRY 0 8] [])) = 8"
proof -
  have l: "project_label [] (entry_projectId (DEMO_ENTRY 0 8)) \<notin> set OBJECT_PROTO_MEMBERS"
    by (simp add: project_label_def DEMO_ENTRY_def OBJECT_PROTO_MEMBERS_def)
  then have "\<forall>t \<in> set [DEMO_ENTRY 0 8]. project_label [] (entry_projectId t) \<notin> set OBJECT_PROTO_MEMBERS"
    by simp
  from hoursPerProject_total [OF this] l show ?thesis by (simp add: DEMO_ENTRY_def hours_sum_def)
qed

text \<open>A project named \<open>__proto__\<close> gets no bar: its hours are dropped from the chart,
  and a project named \<open>toString\<close> gets a bar whose value is text, not a number.\<close>

lemma hoursPerProject_proto_names:
  "hoursPerProject [t] [p\<lparr>project_id := entry_projectId t, project_name := ''__proto__''\<rparr>] = [] \<and>
   hoursPerProject [t] [p\<lparr>project_id := entry_projectId t, project_name := ''toString''\<rparr>] =
     [(''toString'', HText ''toString'' [hoursLogged t])]"
  by (simp add: hoursPerProject_def project_label_def object_entries_def OBJECT_PROTO_MEMBERS_def is_array_index_def)

text \<open>C24:the activity feed shows at most eight events, newest first, of which at most
  five are timesheet events and at most three are project events.\<close>

theorem activityEvents_bounds:
  "length (activityEvents ts rs ps) \<le> 8 \<and>
   sorted_wrt (\<ge>) (map ev_timestamp (activityEvents ts rs ps)) \<and>
   length (filter (\<lambda>e. ev_type e = project_updated) (activityEvents ts rs ps)) \<le> 3 \<and>
   length (filter (\<lambda>e. ev_type e \<noteq> project_updated) (activityEvents ts rs ps)) \<le> 5"
proof -
  let ?tev = "map (timesheet_event rs ps)
                (slice_last 5 (filter (\<lambda>t. entry_status t = submitted \<or> entry_status t = approved) ts))"
  let ?pev = "map project_event (slice_last 3 ps)"
  let ?all = "sort_key (\<lambda>e. - ev_timestamp e) (?tev @ ?pev)"
  have ty: "ev_type (timesheet_event rs ps t) \<noteq> project_updated" "ev_type (project_event p) = project_updated" for t p
    by (simp_all add: timesheet_event_def project_event_def)
  have cnt: "length (filter P ?all) = length (filter P (?tev @ ?pev))" for P
  proof -
    have m: "mset (filter P ?all) = mset (filter P (?tev @ ?pev))"
      by (simp only: mset_filter mset_sort)
    have "size (mset (filter P ?all)) = size (mset (filter P (?tev @ ?pev)))"
      by (simp only: m)
    then show ?thesis by (simp only: size_mset)
  qed
  have p: "length (filter (\<lambda>e. ev_type e = project_updated) (?tev @ ?pev)) = length ?pev"
    using ty by (simp add: filter_empty_conv)
  have t: "length (filter (\<lambda>e. ev_type e \<noteq> project_updated) (?tev @ ?pev)) = length ?tev"
    using ty by (simp add: filter_empty_conv)
  have b: "length ?pev \<le> 3" "length ?tev \<le> 5" by (simp_all add: slice_last_def)
  have e: "activityEvents ts rs ps = take 8 ?all" by (simp add: activityEvents_def)
  have "sorted_wrt (\<ge>) (map ev_timestamp (take 8 ?all))"
    using sorted_take_desc [OF sort_key_desc [of ev_timestamp "?tev @ ?pev"], of 8] by (simp add: take_map)
  moreover have "length (filter (\<lambda>e. ev_type e = project_updated) (take 8 ?all)) \<le> 3"
    using count_take_le [of "\<lambda>e. ev_type e = project_updated" 8 ?all]
      cnt [of "\<lambda>e. ev_type e = project_updated"] p b(1) by linarith
  moreover have "length (filter (\<lambda>e. ev_type e \<noteq> project_updated) (take 8 ?all)) \<le> 5"
    using count_take_le [of "\<lambda>e. ev_type e \<noteq> project_updated" 8 ?all]
      cnt [of "\<lambda>e. ev_type e \<noteq> project_updated"] t b(2) by linarith
  ultimately show ?thesis unfolding e by simp
qed

definition FEB_RESOURCE :: resource where
  "FEB_RESOURCE = DEMO_RESOURCE\<lparr>assignmentStartDate := 1707004800000000000\<rparr>"

text \<open>a resource is named in the activity feed only if its assignment started in
  the selected period: in March 2024, a submitted March timesheet of a resource whose
  assignment began in February is shown as logged by "Unknown".\<close>

theorem activity_unknown_resource:
  "(case DashboardPage (\<lambda>_. 0) \<lparr>selectedMonth = 3, selectedYear = 2024, selectedDate = None\<rparr> True
       (EMPTY_BACKEND\<lparr>actor := \<lparr>stored_resources = [FEB_RESOURCE]\<rparr>,
                      stored_timesheets := [(DEMO_ENTRY 1709726400000000000 8)\<lparr>entry_status := submitted\<rparr>]\<rparr>) of
      DashboardShown v \<Rightarrow> map ev_description (dv_events v) = [TimesheetActivity ''Unknown'' ''p1'' 8]
    | DashboardLoading _ \<Rightarrow> False)"
  by code_simp

end
