(* ===== verification/Export.thy ===== *)
theory Export
  imports ImportModal Calendar
begin

text \<open>
  The CSV export of \<open>src/frontend/src/utils/exportUtils.ts\<close>: the header row, the
  formatters that turn enum values and time stamps back into text, \<open>resourceToRow\<close>,
  and the download that \<open>exportResourcesAsCSV\<close> and \<open>exportResourcesAsXLSX\<close>
  produce (its file name and its text). The time zone of the browser is a parameter
  \<open>tz\<close>: the offset in milliseconds that \<open>LocalTime\<close> adds to a UTC time value.

  The results relate the export to the import of \<open>ImportModal\<close>: what a date becomes
  when it is exported and read back, and which resources survive the round trip
  through a file.
\<close>

section \<open>Formatters\<close>

definition EXPORT_HEADERS :: "string list" where
  "EXPORT_HEADERS =
     [''Employee ID'', ''Name'', ''Email ID'', ''Contact Number'', ''Location'', ''Client'',
      ''Project'', ''Project ID'', ''Project Manager'', ''Reporting Manager'', ''Delivery Head'',
      ''Billability Status'', ''Non-Billable Category'', ''Total Experience'', ''DOJ'',
      ''Assignment Start Date'', ''Assignment End Date'', ''Practice'', ''Primary Skills'',
      ''Secondary Skills'', ''Status'']"

definition formatBillabilityStatus :: "BillabilityStatus \<Rightarrow> string" where
  "formatBillabilityStatus s = (if s = billable then ''Billable'' else ''Non-Billable'')"

text \<open>\<open>map[status] ?? ''\<close>: a foreign value (an \<open>Object.prototype\<close> member) is not a
  key of the label table, so it prints as the empty string.\<close>

definition formatNonBillableStatus :: "nb_value option \<Rightarrow> string" where
  "formatNonBillableStatus s =
     (case s of
        None \<Rightarrow> []
      | Some (NB_foreign _) \<Rightarrow> []
      | Some (NB v) \<Rightarrow>
          (case v of
             availableForDeployment \<Rightarrow> ''Available for Deployment''
           | biBench \<Rightarrow> ''BI Bench''
           | partialBench \<Rightarrow> ''Partial Bench''
           | benchBlocked \<Rightarrow> ''Bench Blocked''
           | maternity \<Rightarrow> ''Maternity''
           | solutionInvestment \<Rightarrow> ''Solution Investment''
           | deliverySupport \<Rightarrow> ''Delivery Support''
           | projectBuffer \<Rightarrow> ''Project Buffer''))"

definition formatResourceStatus :: "ResourceStatus \<Rightarrow> string" where
  "formatResourceStatus s = (if s = active then ''Active'' else ''Inactive'')"

text \<open>\<open>new Date(Number(time) / 1_000_000)\<close>: the time value is the quotient truncated
  towards zero (the constructor's \<open>TimeClip\<close>), computed exactly here; the rounding
  of \<open>Number(time)\<close> does not move a whole number of milliseconds.\<close>

definition time_ms :: "time \<Rightarrow> int" where
  "time_ms t = (if t < 0 then - ((- t) div 1000000) else t div 1000000)"

text \<open>\<open>formatDate\<close>: zero prints as the empty string, so does a time value outside the
  range of \<open>Date\<close>; otherwise the local calendar date as \<open>yyyy-mm-dd\<close>.\<close>

definition formatDate :: "(int \<Rightarrow> int) \<Rightarrow> time \<Rightarrow> string" where
  "formatDate tz t =
     (if t = 0 then []
      else let ms = time_ms t
           in if 8640000000000000 < \<bar>ms\<bar> then []
              else case civil_of_day ((ms + tz ms) div msPerDay) of
                     (y, m, d) \<Rightarrow> iso_string y m d)"

definition resourceToRow :: "(int \<Rightarrow> int) \<Rightarrow> resource \<Rightarrow> string list" where
  "resourceToRow tz r =
     [employeeId r, name r, email r, contactNumber r, location r, client r, project r,
      (case projectId r of None \<Rightarrow> [] | Some p \<Rightarrow> p),
      projectManager r, reportingManager r, resource.deliveryHead r,
      formatBillabilityStatus (billabilityStatus r),
      formatNonBillableStatus (nonBillableStatus r),
      totalExperience r,
      formatDate tz (doj r), formatDate tz (assignmentStartDate r), formatDate tz (assignmentEndDate r),
      practice r,
      join_with '';'' (primarySkills r), join_with '';'' (secondarySkills r),
      formatResourceStatus (status r)]"

section \<open>The download\<close>

text \<open>The text of the file: the escaped header line and one escaped line per resource,
  joined by line feeds.\<close>

definition export_text :: "(int \<Rightarrow> int) \<Rightarrow> resource list \<Rightarrow> string" where
  "export_text tz rs = csv_doc (EXPORT_HEADERS # map (resourceToRow tz) rs)"

record download =
  dl_name :: string
  dl_text :: string

text \<open>\<open>new Date().toISOString().slice(0, 10)\<close>, the UTC date of the clock
  \<open>now\<close>, for the years 0 to 9999 \<open>toISOString\<close> prints with four digits.\<close>

definition iso_today :: "int \<Rightarrow> string" where
  "iso_today now =
     (case civil_of_day (now div msPerDay) of
        (y, m, d) \<Rightarrow> replicate (4 - length (int_str y)) (CHR ''0'') @ int_str y @
                     CHR ''-'' # pad2 (int_str m) @ CHR ''-'' # pad2 (int_str d))"

definition exportResourcesAsCSV ::
  "(int \<Rightarrow> int) \<Rightarrow> int \<Rightarrow> resource list \<Rightarrow> string option \<Rightarrow> download" where
  "exportResourcesAsCSV tz now rs filename =
     \<lparr>dl_name = (case filename of None \<Rightarrow> ''resources_export_'' @ iso_today now @ ''.csv''
                                | Some f \<Rightarrow> f),
      dl_text = export_text tz rs\<rparr>"

text \<open>\<open>s.replace('.xlsx', '.csv')\<close> with a string pattern: the first occurrence only.\<close>

fun replace_first :: "string \<Rightarrow> string \<Rightarrow> string \<Rightarrow> string" where
  "replace_first pat rep [] = (if pat = [] then rep else [])"
| "replace_first pat rep (c # cs) =
     (if pat \<noteq> [] \<and> take (length pat) (c # cs) = pat then rep @ drop (length pat) (c # cs)
      else if pat = [] then rep @ c # cs else c # replace_first pat rep cs)"

definition exportResourcesAsXLSX ::
  "(int \<Rightarrow> int) \<Rightarrow> int \<Rightarrow> resource list \<Rightarrow> string option \<Rightarrow> download" where
  "exportResourcesAsXLSX tz now rs filename =
     exportResourcesAsCSV tz now rs (map_option (replace_first ''.xlsx'' ''.csv'') filename)"

section \<open>Dates through export and import\<close>

text \<open>The import's date parser agrees with \<open>Date.parse\<close> on the date-only format.\<close>

definition reads_iso_dates :: "(string \<Rightarrow> int option) \<Rightarrow> bool" where
  "reads_iso_dates dm \<longleftrightarrow> (\<forall>s v. iso_date_ms s = Some v \<longrightarrow> dm s = Some v)"

lemma fst_civil_of_day: "fst (civil_of_day z) = YearFromDay z"
  by (simp add: civil_of_day_def Let_def)

lemma formatDate_iso:
  assumes "t \<noteq> 0" and "\<bar>time_ms t\<bar> \<le> 8640000000000000" and "civil_of_day (local_day tz (time_ms t)) = (y, m, d)"
  shows "formatDate tz t = iso_string y m d"
  using assms by (simp add: formatDate_def local_day_def Let_def)

lemma parseDateToTime_iso:
  assumes "reads_iso_dates dm" and "civil_of_day z = (y, m, d)" and "1000 \<le> y" and "y \<le> 9999"
  shows "parseDateToTime dm (iso_string y m d) = z * msPerDay * 1000000"
proof -
  have b: "1 \<le> m \<and> m \<le> 12 \<and> 1 \<le> d \<and> d \<le> 31"
    using civil_of_day_bounds [OF assms(2)] .
  have iso: "iso_date_ms (iso_string y m d) = Some (z * msPerDay)"
    using iso_date_ms_civil [OF assms(2-4)] .
  have ws: "\<forall>c \<in> set (iso_string y m d). \<not> is_ws c"
    using b assms(3) by (intro iso_string_no_ws) simp_all
  then have trim: "js_trim (iso_string y m d) = iso_string y m d"
    by (rule js_trim_no_ws)
  have "iso_string y m d \<noteq> []" by (simp add: iso_string_def)
  then have "\<not> is_blank (iso_string y m d)"
    using ws by (auto simp: is_blank_iff neq_Nil_conv)
  then show ?thesis
    using assms(1) iso trim \<open>iso_string y m d \<noteq> []\<close>
    by (simp add: parseDateToTime_def reads_iso_dates_def)
qed

lemma parse_formatDate:
  assumes "reads_iso_dates dm" and "t \<noteq> 0" and "\<bar>time_ms t\<bar> \<le> 8640000000000000"
    and "1000 \<le> YearFromDay (local_day tz (time_ms t))" and "YearFromDay (local_day tz (time_ms t)) \<le> 9999"
  shows "parseDateToTime dm (formatDate tz t) = local_day tz (time_ms t) * msPerDay * 1000000"
proof -
  obtain y m d where c: "civil_of_day (local_day tz (time_ms t)) = (y, m, d)"
    by (cases "civil_of_day (local_day tz (time_ms t))") auto
  then have "y = YearFromDay (local_day tz (time_ms t))"
    using fst_civil_of_day [of "local_day tz (time_ms t)"] by simp
  then show ?thesis
    using formatDate_iso [OF assms(2,3) c] parseDateToTime_iso [OF assms(1) c] assms(4,5) by simp
qed

section \<open>The formatters against the import's parsers\<close>

lemma parse_formatBillabilityStatus:
  "parseBillabilityStatus (formatBillabilityStatus s) = s"
  by (cases s) (simp_all add: parseBillabilityStatus_def formatBillabilityStatus_def js_eval)

lemma parse_formatResourceStatus: "parseResourceStatus (formatResourceStatus s) = s"
  by (cases s) (simp_all add: parseResourceStatus_def formatResourceStatus_def js_eval)

lemma parse_formatNonBillableStatus:
  "parseNonBillableStatus (formatNonBillableStatus (Some (NB v))) = Some (NB v)"
  by (cases v) (simp_all add: parseNonBillableStatus_def formatNonBillableStatus_def
      NON_BILLABLE_KEYS_def js_eval)

lemma parseNonBillableStatus_Nil: "parseNonBillableStatus [] = None"
  by (simp add: parseNonBillableStatus_def NON_BILLABLE_KEYS_def OBJECT_PROTO_KEYS_def js_eval)

text \<open>A text cell that survives the file unchanged: already trimmed and without line
  breaks.\<close>

definition text_ok :: "string \<Rightarrow> bool" where
  "text_ok s \<longleftrightarrow> js_trim s = s \<and> nl \<notin> set s \<and> cr \<notin> set s"

lemma text_ok_formatNonBillableStatus: "text_ok (formatNonBillableStatus s)"
proof (cases s)
  case (Some x)
  then show ?thesis
  proof (cases x)
    case (NB v)
    with Some show ?thesis
      by (cases v) (simp_all add: text_ok_def formatNonBillableStatus_def js_eval)
  qed (simp add: text_ok_def formatNonBillableStatus_def)
qed (simp add: text_ok_def formatNonBillableStatus_def)

lemma text_ok_formatBillabilityStatus: "text_ok (formatBillabilityStatus s)"
  by (simp add: text_ok_def formatBillabilityStatus_def js_eval)

lemma text_ok_formatResourceStatus: "text_ok (formatResourceStatus s)"
  by (simp add: text_ok_def formatResourceStatus_def js_eval)

definition skills_ok :: "string list \<Rightarrow> bool" where
  "skills_ok xs \<longleftrightarrow> list_all (\<lambda>x. x \<noteq> [] \<and> text_ok x \<and> CHR '';'' \<notin> set x) xs"

lemma set_join_with_member: "x \<in> set xs \<Longrightarrow> set x \<subseteq> set (join_with sep xs)"
  by (induction sep xs rule: join_with.induct) auto

lemma text_ok_not_blank: "text_ok x \<Longrightarrow> x \<noteq> [] \<Longrightarrow> \<not> is_blank x"
  by (simp add: text_ok_def is_blank_def)

lemma parseSkills_join:
  assumes "skills_ok xs"
  shows "parseSkills (join_with '';'' xs) = xs"
proof (cases xs)
  case Nil
  then show ?thesis by (simp add: parseSkills_def)
next
  case (Cons x ys)
  have ok: "\<forall>y \<in> set xs. y \<noteq> [] \<and> js_trim y = y \<and> CHR '';'' \<notin> set y"
    using assms by (simp add: skills_ok_def text_ok_def list_all_iff)
  have "\<not> is_blank x" using ok Cons by (simp add: is_blank_def)
  then obtain c where "c \<in> set x" "\<not> is_ws c" by (auto simp: is_blank_iff)
  moreover have "set x \<subseteq> set (join_with '';'' xs)" using Cons by (intro set_join_with_member) simp
  ultimately have nb: "\<not> is_blank (join_with '';'' xs)" by (auto simp: is_blank_iff)
  have "split_on CHR '';'' (join_with [CHR '';''] xs) = xs"
    using ok Cons by (intro split_join_on) auto
  moreover have "map js_trim xs = xs" and "filter (\<lambda>s. s \<noteq> []) xs = xs"
    using ok by (simp_all add: map_idI)
  ultimately show ?thesis
    using nb by (auto simp: parseSkills_def)
qed

lemma map_of_rev_distinct_eq: "distinct (map fst xs) \<Longrightarrow> map_of (rev xs) = map_of xs"
proof (rule ext)
  fix k
  assume d: "distinct (map fst xs)"
  show "map_of (rev xs) k = map_of xs k"
  proof (cases "map_of xs k")
    case None
    moreover have "map_of (rev xs) k = None"
      using None by (simp add: map_of_eq_None_iff)
    ultimately show ?thesis by simp
  next
    case (Some v)
    then show ?thesis using d map_of_SomeD map_of_rev_distinct by fastforce
  qed
qed

lemma row_data_export:
  assumes "length row = length EXPORT_HEADERS"
  shows "row_data EXPORT_HEADERS row = map_of (zip EXPORT_HEADERS (map js_trim row))"
proof -
  have h: "map js_trim EXPORT_HEADERS = EXPORT_HEADERS"
    by (simp add: EXPORT_HEADERS_def js_eval)
  have "row_pairs EXPORT_HEADERS row = zip (map js_trim EXPORT_HEADERS) (map js_trim row)"
    using assms by (intro nth_equalityI) (simp_all add: row_pairs_def nth_enumerate_eq cell_at_def)
  moreover have "distinct EXPORT_HEADERS" by (simp add: EXPORT_HEADERS_def)
  ultimately show ?thesis
    using assms by (simp add: row_data_map_of h map_of_rev_distinct_eq)
qed

section \<open>One resource through a file\<close>

text \<open>A time stamp the round trip keeps: zero, or the UTC midnight that starts its own
  local day, in a year of four digits.\<close>

definition date_ok :: "(int \<Rightarrow> int) \<Rightarrow> time \<Rightarrow> bool" where
  "date_ok tz t \<longleftrightarrow>
     t = 0 \<or> (\<bar>time_ms t\<bar> \<le> 8640000000000000 \<and> 1000 \<le> YearFromDay (local_day tz (time_ms t)) \<and>
              YearFromDay (local_day tz (time_ms t)) \<le> 9999 \<and> local_day tz (time_ms t) * msPerDay * 1000000 = t)"

lemma date_ok_roundtrip:
  assumes "reads_iso_dates dm" and "date_ok tz t"
  shows "parseDateToTime dm (formatDate tz t) = t"
proof (cases "t = 0")
  case True
  then show ?thesis by (simp add: formatDate_def parseDateToTime_def)
next
  case False
  then show ?thesis using assms parse_formatDate [OF assms(1) False] by (simp add: date_ok_def)
qed

lemma date_ok_text_ok: "date_ok tz t \<Longrightarrow> text_ok (formatDate tz t)"
proof (cases "t = 0")
  case False
  assume ok: "date_ok tz t"
  obtain y m d where c: "civil_of_day (local_day tz (time_ms t)) = (y, m, d)"
    by (cases "civil_of_day (local_day tz (time_ms t))") auto
  then have "y = YearFromDay (local_day tz (time_ms t))"
    using fst_civil_of_day [of "local_day tz (time_ms t)"] by simp
  then have "\<forall>c \<in> set (iso_string y m d). \<not> is_ws c"
    using ok False civil_of_day_bounds [OF c] by (intro iso_string_no_ws) (auto simp: date_ok_def)
  moreover have "formatDate tz t = iso_string y m d"
    using ok False by (intro formatDate_iso [OF False _ c]) (simp add: date_ok_def)
  ultimately show ?thesis
    by (auto simp: text_ok_def js_trim_no_ws is_ws_def)
qed (simp add: text_ok_def formatDate_def)

text \<open>The resources the export and the import carry over: text fields trimmed and on
  one line, the three required fields filled, a project ID that is absent or a
  non-empty text, skills that are non-empty texts without semicolons, a category only
  on a non-billable resource and never a foreign value, dates as in \<open>date_ok\<close>.\<close>

definition exportable :: "(int \<Rightarrow> int) \<Rightarrow> resource \<Rightarrow> bool" where
  "exportable tz r \<longleftrightarrow>
     list_all text_ok [employeeId r, name r, email r, contactNumber r, location r, client r,
                       project r, projectManager r, reportingManager r, resource.deliveryHead r,
                       totalExperience r, practice r] \<and>
     employeeId r \<noteq> [] \<and> name r \<noteq> [] \<and> email r \<noteq> [] \<and>
     (case projectId r of None \<Rightarrow> True | Some p \<Rightarrow> p \<noteq> [] \<and> text_ok p) \<and>
     skills_ok (primarySkills r) \<and> skills_ok (secondarySkills r) \<and>
     (case nonBillableStatus r of
        None \<Rightarrow> True
      | Some (NB _) \<Rightarrow> billabilityStatus r = nonBillable
      | Some (NB_foreign _) \<Rightarrow> False) \<and>
     date_ok tz (doj r) \<and> date_ok tz (assignmentStartDate r) \<and> date_ok tz (assignmentEndDate r)"

lemma skills_ok_text_ok: "skills_ok xs \<Longrightarrow> text_ok (join_with '';'' xs)"
proof -
  assume "skills_ok xs"
  then have "\<forall>x \<in> set xs. text_ok x \<and> x \<noteq> []" by (auto simp: skills_ok_def list_all_iff)
  then show ?thesis
  proof (induction "'';''" xs rule: join_with.induct)
    case (3 x y zs)
    then have x: "text_ok x" "x \<noteq> []" and j: "text_ok (join_with '';'' (y # zs))" by simp_all
    have "join_with '';'' (y # zs) \<noteq> []"
      using 3 set_join_with_member [of y "y # zs" "'';''"] by auto
    then show ?case
      using x j by (auto simp: text_ok_def js_trim_id_iff)
  qed (simp_all add: text_ok_def)
qed

lemma resourceToRow_text_ok: "exportable tz r \<Longrightarrow> list_all text_ok (resourceToRow tz r)"
  by (auto simp: exportable_def resourceToRow_def text_ok_formatNonBillableStatus
      text_ok_formatBillabilityStatus text_ok_formatResourceStatus date_ok_text_ok skills_ok_text_ok
      split: option.splits) (simp_all add: text_ok_def)

lemma length_resourceToRow: "length (resourceToRow tz r) = length EXPORT_HEADERS"
  by (simp add: resourceToRow_def EXPORT_HEADERS_def)

lemma row_data_resourceToRow:
  "exportable tz r \<Longrightarrow>
   row_data EXPORT_HEADERS (resourceToRow tz r) = map_of (zip EXPORT_HEADERS (resourceToRow tz r))"
  using row_data_export [OF length_resourceToRow] resourceToRow_text_ok [of tz r]
  by (simp add: text_ok_def list_all_iff map_idI)

lemma export_lookup:
  "map_of (zip EXPORT_HEADERS (resourceToRow tz r)) ''Employee ID'' = Some (employeeId r)"
  "map_of (zip EXPORT_HEADERS (resourceToRow tz r)) ''Name'' = Some (name r)"
  "map_of (zip EXPORT_HEADERS (resourceToRow tz r)) ''Email ID'' = Some (email r)"
  "map_of (zip EXPORT_HEADERS (resourceToRow tz r)) ''Contact Number'' = Some (contactNumber r)"
  "map_of (zip EXPORT_HEADERS (resourceToRow tz r)) ''Location'' = Some (location r)"
  "map_of (zip EXPORT_HEADERS (resourceToRow tz r)) ''Client'' = Some (client r)"
  "map_of (zip EXPORT_HEADERS (resourceToRow tz r)) ''Project'' = Some (project r)"
  "map_of (zip EXPORT_HEADERS (resourceToRow tz r)) ''Project ID'' =
     Some (case projectId r of None \<Rightarrow> [] | Some p \<Rightarrow> p)"
  "map_of (zip EXPORT_HEADERS (resourceToRow tz r)) ''Project Manager'' = Some (projectManager r)"
  "map_of (zip EXPORT_HEADERS (resourceToRow tz r)) ''Reporting Manager'' = Some (reportingManager r)"
  "map_of (zip EXPORT_HEADERS (resourceToRow tz r)) ''Delivery Head'' = Some (resource.deliveryHead r)"
  "map_of (zip EXPORT_HEADERS (resourceToRow tz r)) ''Billability Status'' =
     Some (formatBillabilityStatus (billabilityStatus r))"
  "map_of (zip EXPORT_HEADERS (resourceToRow tz r)) ''Non-Billable Category'' =
     Some (formatNonBillableStatus (nonBillableStatus r))"
  "map_of (zip EXPORT_HEADERS (resourceToRow tz r)) ''Total Experience'' = Some (totalExperience r)"
  "map_of (zip EXPORT_HEADERS (resourceToRow tz r)) ''DOJ'' = Some (formatDate tz (doj r))"
  "map_of (zip EXPORT_HEADERS (resourceToRow tz r)) ''Assignment Start Date'' =
     Some (formatDate tz (assignmentStartDate r))"
  "map_of (zip EXPORT_HEADERS (resourceToRow tz r)) ''Assignment End Date'' =
     Some (formatDate tz (assignmentEndDate r))"
  "map_of (zip EXPORT_HEADERS (resourceToRow tz r)) ''Practice'' = Some (practice r)"
  "map_of (zip EXPORT_HEADERS (resourceToRow tz r)) ''Primary Skills'' =
     Some (join_with '';'' (primarySkills r))"
  "map_of (zip EXPORT_HEADERS (resourceToRow tz r)) ''Secondary Skills'' =
     Some (join_with '';'' (secondarySkills r))"
  "map_of (zip EXPORT_HEADERS (resourceToRow tz r)) ''Status'' = Some (formatResourceStatus (status r))"
  by (simp_all add: EXPORT_HEADERS_def resourceToRow_def)

lemma category_roundtrip:
  assumes "case nbs of None \<Rightarrow> True | Some (NB _) \<Rightarrow> b = nonBillable | Some (NB_foreign _) \<Rightarrow> False"
  shows "(if b = nonBillable then parseNonBillableStatus (formatNonBillableStatus nbs) else None) = nbs"
proof (cases nbs)
  case None
  then show ?thesis
    by (simp add: formatNonBillableStatus_def parseNonBillableStatus_Nil)
next
  case (Some x)
  with assms show ?thesis
    by (cases x) (simp_all add: parse_formatNonBillableStatus)
qed

lemma projectId_roundtrip:
  "(case p of None \<Rightarrow> True | Some q \<Rightarrow> q \<noteq> [] \<and> text_ok q) \<Longrightarrow>
   (if (case p of None \<Rightarrow> [] | Some q \<Rightarrow> q) = [] then None
    else Some (case p of None \<Rightarrow> [] | Some q \<Rightarrow> q)) = p"
  by (auto split: option.splits)

lemma mapRowToResource_resourceToRow:
  assumes ok: "exportable tz r" and dm: "reads_iso_dates dm"
  shows "row_resource (mapRowToResource dm fid EXPORT_HEADERS (resourceToRow tz r) i) =
         Some (r\<lparr>res_id := fid, role := [], department := [], skillTags := []\<rparr>)"
proof -
  have cat: "(if billabilityStatus r = nonBillable
              then parseNonBillableStatus (formatNonBillableStatus (nonBillableStatus r)) else None) =
             nonBillableStatus r"
    using ok by (intro category_roundtrip) (simp add: exportable_def)
  have pid: "(if (case projectId r of None \<Rightarrow> [] | Some q \<Rightarrow> q) = [] then None
              else Some (case projectId r of None \<Rightarrow> [] | Some q \<Rightarrow> q)) = projectId r"
    using ok by (intro projectId_roundtrip) (simp add: exportable_def)
  have dates: "parseDateToTime dm (formatDate tz (doj r)) = doj r"
    "parseDateToTime dm (formatDate tz (assignmentStartDate r)) = assignmentStartDate r"
    "parseDateToTime dm (formatDate tz (assignmentEndDate r)) = assignmentEndDate r"
    using ok by (simp_all add: date_ok_roundtrip [OF dm] exportable_def)
  have skills: "parseSkills (join_with '';'' (primarySkills r)) = primarySkills r"
    "parseSkills (join_with '';'' (secondarySkills r)) = secondarySkills r"
    using ok by (simp_all add: parseSkills_join exportable_def)
  have req: "employeeId r \<noteq> []" "name r \<noteq> []" "email r \<noteq> []"
    using ok by (simp_all add: exportable_def)
  have nb: "formatBillabilityStatus b \<noteq> []" "formatResourceStatus st \<noteq> []" for b st
    by (simp_all add: formatBillabilityStatus_def formatResourceStatus_def)
  have js_or_Nil: "js_or x [] = x" for x by (simp add: js_or_def)
  have js_or_ne: "x \<noteq> [] \<Longrightarrow> js_or x d = x" for x d by (simp add: js_or_def)
  have fields: "field_or (row_data EXPORT_HEADERS (resourceToRow tz r)) k d =
      js_or (the (map_of (zip EXPORT_HEADERS (resourceToRow tz r)) k)) d"
    if "map_of (zip EXPORT_HEADERS (resourceToRow tz r)) k \<noteq> None" for k d
    using that by (auto simp: field_or_def row_data_resourceToRow [OF ok])
  show ?thesis
    using req nb
    by (simp add: mapRowToResource_def Let_def fields export_lookup required_errors_def js_or_Nil
        js_or_ne parse_formatBillabilityStatus parse_formatResourceStatus cat pid dates skills
        cong: if_cong split del: if_split)
qed

section \<open>A whole export through the import\<close>

lemma map_enumerate_map:
  "map g (enumerate n (map f xs)) = map (\<lambda>(i, x). g (i, f x)) (enumerate n xs)"
  by (induction xs arbitrary: n) auto

lemma export_rows_clean:
  assumes "list_all (exportable tz) rs"
  shows "\<forall>row \<in> set (EXPORT_HEADERS # map (resourceToRow tz) rs). clean_row row"
proof -
  have "clean_row EXPORT_HEADERS" by (simp add: clean_row_def EXPORT_HEADERS_def)
  moreover have "clean_row (resourceToRow tz r)" if "r \<in> set rs" for r
  proof -
    have "list_all text_ok (resourceToRow tz r)"
      using assms that by (intro resourceToRow_text_ok) (simp add: list_all_iff)
    then show ?thesis
      using length_resourceToRow [of tz r]
      by (auto simp: clean_row_def text_ok_def list_all_iff EXPORT_HEADERS_def)
  qed
  ultimately show ?thesis by auto
qed

lemma export_rows_nonblank:
  "exportable tz r \<Longrightarrow> nonblank_row (resourceToRow tz r)"
  using text_ok_not_blank [of "employeeId r"]
  by (auto simp: nonblank_row_def resourceToRow_def exportable_def)

lemma missing_columns_EXPORT_HEADERS: "missing_columns EXPORT_HEADERS = []"
  by (simp add: missing_columns_def REQUIRED_COLUMNS_def EXPORT_HEADERS_def js_eval)

lemma export_read_table:
  assumes "list_all (exportable tz) rs" and "file_ext (fname f) \<notin> {''xlsx'', ''xls''}"
    and "ftext f = export_text tz rs"
  shows "read_table f = Inr (EXPORT_HEADERS, map (resourceToRow tz) rs)"
  using assms(2,3) parseCSV_doc [OF export_rows_clean [OF assms(1)]]
  by (simp add: read_table_def export_text_def)

section \<open>Properties of the export\<close>

definition EXPORT_DEMO :: resource where
  "EXPORT_DEMO = \<lparr>res_id = ''r1'', doj = 1709251200000000000, status = active, client = ''Acme'',
     assignmentStartDate = 0, totalExperience = ''5 years'', name = ''Ann Lee'', role = ''Developer'',
     skillTags = [''java''], projectManager = ''Raj'', deliveryHead = ''Mia'', assignmentEndDate = 0,
     email = ''ann@x.com'', employeeId = ''E1'', projectId = Some ''P7'', practice = ''Cloud'',
     primarySkills = [''Java'', ''SQL''], billabilityStatus = nonBillable, contactNumber = ''555'',
     department = ''Eng'', secondarySkills = [], location = ''Pune'',
     nonBillableStatus = Some (NB biBench), project = ''Apollo'', reportingManager = ''Raj''\<rparr>"

definition export_file :: "(int \<Rightarrow> int) \<Rightarrow> resource list \<Rightarrow> file_info" where
  "export_file tz rs = \<lparr>fname = ''export.csv'', fsize = 0, ftext = export_text tz rs, fsheet = Inr []\<rparr>"

text \<open>C12:exporting resources and importing the file again gives, row by row and in
  order, each resource with a fresh identifier and with its role, department and
  skill tags emptied (the export has no column for them), provided every resource is
  exportable (one-line trimmed texts, required fields filled, skills without
  semicolons, a category only when non-billable, dates at the UTC midnight of their
  local day) and the date parser reads \<open>YYYY-MM-DD\<close> as \<open>Date.parse\<close> does.\<close>

theorem export_import_roundtrip:
  assumes "list_all (exportable tz) rs" and "reads_iso_dates dm"
    and "file_ext (fname f) \<notin> {''xlsx'', ''xls''}" and "ftext f = export_text tz rs"
  shows "map row_resource (parsedRows (processFile dm gen f st)) =
         map (\<lambda>(i, r). Some (r\<lparr>res_id := gen i, role := [], department := [], skillTags := []\<rparr>))
           (enumerate 0 rs)"
proof -
  let ?rows = "map (resourceToRow tz) rs"
  have nb: "filter nonblank_row ?rows = ?rows"
    using assms(1) export_rows_nonblank by (auto simp: list_all_iff filter_id_conv)
  have "EXPORT_HEADERS \<noteq> []" by (simp add: EXPORT_HEADERS_def)
  then have "parsedRows (processFile dm gen f st) = import_rows dm gen EXPORT_HEADERS ?rows"
    using export_read_table [OF assms(1,3,4)] missing_columns_EXPORT_HEADERS
    by (simp add: processFile_def Let_def)
  then have "map row_resource (parsedRows (processFile dm gen f st)) =
      map (\<lambda>(i, r). row_resource (mapRowToResource dm (gen i) EXPORT_HEADERS (resourceToRow tz r) (i + 2)))
        (enumerate 0 rs)"
    by (simp add: import_rows_def nb map_enumerate_map split_def)
  also have "\<dots> = map (\<lambda>(i, r). Some (r\<lparr>res_id := gen i, role := [], department := [], skillTags := []\<rparr>))
        (enumerate 0 rs)"
  proof (rule map_cong [OF refl])
    fix p assume "p \<in> set (enumerate 0 rs)"
    then have "snd p \<in> set rs" using nth_mem by (fastforce simp: in_set_enumerate_eq)
    then have "exportable tz (snd p)" using assms(1) by (simp add: list_all_iff)
    then show "(\<lambda>(i, r). row_resource (mapRowToResource dm (gen i) EXPORT_HEADERS (resourceToRow tz r) (i + 2))) p =
        (\<lambda>(i, r). Some (r\<lparr>res_id := gen i, role := [], department := [], skillTags := []\<rparr>)) p"
      using mapRowToResource_resourceToRow [OF _ assms(2)] by (simp add: split_def)
  qed
  finally show ?thesis .
qed

theorem export_import_roundtrip_witness:
  "map row_resource (parsedRows (processFile iso_date_ms demo_gen (export_file (\<lambda>_. 0) [EXPORT_DEMO]) init_modal)) =
   [Some (EXPORT_DEMO\<lparr>res_id := demo_gen 0, role := [], department := [], skillTags := []\<rparr>)]"
proof -
  have ok: "list_all (exportable (\<lambda>_. 0)) [EXPORT_DEMO]" by code_simp
  have dm: "reads_iso_dates iso_date_ms" by (simp add: reads_iso_dates_def)
  have ext: "file_ext (fname (export_file (\<lambda>_. 0) [EXPORT_DEMO])) \<notin> {''xlsx'', ''xls''}" by code_simp
  have text_eq: "ftext (export_file (\<lambda>_. 0) [EXPORT_DEMO]) = export_text (\<lambda>_. 0) [EXPORT_DEMO]"
    by (simp add: export_file_def)
  show ?thesis
    using export_import_roundtrip [OF ok dm ext text_eq, of demo_gen init_modal] by simp
qed

lemma time_ms_days: "time_ms (z * msPerDay * 1000000) = z * msPerDay"
proof -
  have "- (z * msPerDay * 1000000) = (- (z * msPerDay)) * 1000000" by simp
  then have "(- (z * msPerDay * 1000000)) div 1000000 = - (z * msPerDay)"
    by (simp only: nonzero_mult_div_cancel_right zero_neq_numeral [symmetric] not_False_eq_True)
  then show ?thesis by (simp add: time_ms_def)
qed

lemma local_day_const:
  assumes "- msPerDay \<le> off" and "off < msPerDay"
  shows "local_day (\<lambda>_. off) (time_ms (z * msPerDay * 1000000)) = (if off < 0 then z - 1 else z)"
proof -
  have "(z * msPerDay + off) div msPerDay = z + off div msPerDay"
    by (simp add: msPerDay_def)
  moreover have "off div msPerDay = (if off < 0 then -1 else 0)"
    using assms by (auto simp: msPerDay_def intro: div_pos_neg_trivial div_pos_pos_trivial
        zdiv_eq_0_iff; presburger)
  ultimately show ?thesis by (simp add: local_day_def time_ms_days)
qed

text \<open>C13:the export prints a date in the browser's time zone and the import reads it
  back as UTC midnight. For a date stored as a UTC midnight and a browser at a fixed
  offset of less than a day, the round trip keeps the date east of UTC and moves it
  one day earlier west of UTC.\<close>

theorem export_date_shift:
  assumes "reads_iso_dates dm" and "- msPerDay \<le> off" and "off < msPerDay"
    and "z \<noteq> 0" and "\<bar>z * msPerDay\<bar> \<le> 8640000000000000"
    and "1000 \<le> YearFromDay (z - 1)" and "YearFromDay z \<le> 9999"
  shows "parseDateToTime dm (formatDate (\<lambda>_. off) (z * msPerDay * 1000000)) =
         (if off < 0 then (z - 1) * msPerDay * 1000000 else z * msPerDay * 1000000)"
proof -
  let ?t = "z * msPerDay * 1000000" and ?d = "if off < 0 then z - 1 else z"
  have "1000 \<le> YearFromDay ?d" "YearFromDay ?d \<le> 9999"
    using assms(6,7) YearFromDay_mono [of "z - 1" z] by auto
  moreover have "?t \<noteq> 0" using assms(4) by (simp add: msPerDay_def)
  ultimately show ?thesis
    using parse_formatDate [OF assms(1), of ?t "\<lambda>_. off"] local_day_const [OF assms(2,3), of z]
      assms(5) time_ms_days [of z] by (auto split: if_splits)
qed

theorem export_date_shift_witness:
  "parseDateToTime iso_date_ms (formatDate (\<lambda>_. -18000000) (19783 * msPerDay * 1000000)) =
   19782 * msPerDay * 1000000"
proof -
  have "reads_iso_dates iso_date_ms" by (simp add: reads_iso_dates_def)
  moreover have "- msPerDay \<le> -18000000" "(-18000000::int) < msPerDay" "(19783::int) \<noteq> 0"
    "\<bar>19783 * msPerDay\<bar> \<le> 8640000000000000"
    by (simp_all add: msPerDay_def)
  moreover have "1000 \<le> YearFromDay (19783 - 1)" "YearFromDay 19783 \<le> 9999"
    by code_simp+
  ultimately show ?thesis
    using export_date_shift [of iso_date_ms "-18000000" 19783] by simp
qed

text \<open>a value holding a line break is quoted by the export, but the import splits
  the text into lines before it looks at quotes: the one exported resource whose name
  is written on two lines comes back as two rows, both rejected.\<close>

theorem export_multiline_name:
  "map errors (parsedRows (processFile iso_date_ms demo_gen
      (export_file (\<lambda>_. 0) [EXPORT_DEMO\<lparr>name := ''Ann'' @ [nl] @ ''Lee''\<rparr>]) init_modal)) =
   [[''Email ID is required''], [''Name is required'', ''Email ID is required'']]"
  by code_simp

end
