(* ===== verification/Resources.thy ===== *)
theory Resources
  imports ArraySort Dashboard Export
begin

text \<open>
  The resources page, \<open>src/frontend/src/pages/ResourcesPage.tsx\<close>, and its table,
  \<open>src/frontend/src/components/ResourceTableView.tsx\<close>.

  The table keeps a sort column and direction (\<open>table_state\<close>, changed by
  \<open>handleSort\<close>) and shows the resources it is given sorted by
  \<open>Array.prototype.sort\<close> (\<open>js_sort\<close>) with the comparator \<open>sortCompare\<close>. The
  comparator reads a date column through \<open>Number(bigint)\<close>, the nearest double
  (\<open>js_Number\<close>), and compares text with \<open>localeCompare\<close>, the browser's collation,
  which is a parameter \<open>lc\<close>. A row is the list of its cells as rendered.

  The page's state is its eight \<open>useState\<close> hooks plus the table's, which React
  discards when the table unmounts (the card view). \<open>resources_step\<close> is the page's
  handler for each control; the resource form submits through
  \<open>useAddResource\<close> (\<open>run_mutation\<close> of \<open>Queries\<close>).
\<close>

section \<open>Table cells\<close>

text \<open>\<open>Number(n)\<close> of a \<open>bigint\<close>: the nearest double, ties to even, for
  \<open>|n| < 2^1024\<close> (time stamps in nanoseconds are far below).\<close>

fun bitlen :: "nat \<Rightarrow> nat" where
  "bitlen n = (if n = 0 then 0 else Suc (bitlen (n div 2)))"

declare bitlen.simps [simp del]

definition round_double :: "nat \<Rightarrow> nat" where
  "round_double n =
     (let e = bitlen n in
      if e \<le> 53 then n
      else let s = e - 53; q = n div 2 ^ s; r = n mod 2 ^ s; h = 2 ^ (s - 1)
           in (if h < r \<or> (r = h \<and> odd q) then q + 1 else q) * 2 ^ s)"

definition js_Number :: "int \<Rightarrow> int" where
  "js_Number i = (if i < 0 then - int (round_double (nat (- i))) else int (round_double (nat i)))"

text \<open>\<open>formatDate\<close> of \<open>lib/utils.ts\<close>: \<open>toLocaleDateString('en-US', { year:
  'numeric', month: 'short', day: 'numeric' })\<close> of \<open>nsToDate(ns)\<close>, as
  \<open>Mar 6, 2024\<close>; a time beyond the range of \<open>Date\<close> prints \<open>Invalid Date\<close>.\<close>

definition utils_formatDate :: "(int \<Rightarrow> int) \<Rightarrow> time \<Rightarrow> string" where
  "utils_formatDate tz ns =
     (let ms = nsToDate ns in
      if 8640000000000000 < \<bar>ms\<bar> then ''Invalid Date''
      else case civil_local tz ms of (y, m, d) \<Rightarrow>
        MONTH_SHORT ! nat (m - 1) @ CHR '' '' # int_str d @ '', '' @ int_str y)"

text \<open>What a cell shows: a text, the placeholder dash of \<open>x || '\<midarrow>'\<close>, the avatar's
  letters with the name (the letters before \<open>toUpperCase\<close>), a badge, or at most three
  skill tags and the count of the others.\<close>

datatype cell = Text string | Dash | NameCell string string | Badge string | Tags "string list" nat

definition or_dash :: "string \<Rightarrow> cell" where
  "or_dash s = (if s = [] then Dash else Text s)"

text \<open>\<open>name.split(' ').map((n) => n[0]).join('').slice(0, 2).toUpperCase()\<close>: the
  first letter of each space-separated word (none for an empty word), the first two
  of them, in upper case.\<close>

definition initials :: "string \<Rightarrow> string" where
  "initials s = js_upper (take 2 (concat (map (take 1) (split_on CHR '' '' s))))"

definition date_cell :: "(int \<Rightarrow> int) \<Rightarrow> time \<Rightarrow> cell" where
  "date_cell tz t = (if t = 0 then Dash else Text (utils_formatDate tz t))"

definition skills_cell :: "string list \<Rightarrow> cell" where
  "skills_cell tags = (if tags = [] then Dash else Tags (take 3 tags) (length tags - 3))"

definition NON_BILLABLE_LABELS :: "NonBillableStatus \<Rightarrow> string" where
  "NON_BILLABLE_LABELS v =
     (case v of
        availableForDeployment \<Rightarrow> ''Available for Deployment''
      | biBench \<Rightarrow> ''BI Bench''
      | partialBench \<Rightarrow> ''Partial Bench''
      | benchBlocked \<Rightarrow> ''Bench Blocked''
      | maternity \<Rightarrow> ''Maternity''
      | solutionInvestment \<Rightarrow> ''Solution Investment''
      | deliverySupport \<Rightarrow> ''Delivery Support''
      | projectBuffer \<Rightarrow> ''Project Buffer'')"

text \<open>The category badge. A foreign value (an \<open>Object.prototype\<close> member, see
  \<open>nb_value\<close>) is a function, which React renders as nothing; the actor cannot encode
  one, so a stored resource never holds it.\<close>

definition category_cell :: "nb_value option \<Rightarrow> cell" where
  "category_cell v =
     (case v of None \<Rightarrow> Dash | Some (NB c) \<Rightarrow> Badge (NON_BILLABLE_LABELS c) | Some (NB_foreign _) \<Rightarrow> Badge [])"

definition table_row :: "(int \<Rightarrow> int) \<Rightarrow> resource \<Rightarrow> cell list" where
  "table_row tz r =
     [Text (js_or (employeeId r) (res_id r)),
      NameCell (initials (name r)) (name r),
      Text (email r),
      or_dash (contactNumber r), or_dash (location r), or_dash (client r), or_dash (project r),
      (case projectId r of None \<Rightarrow> Dash | Some p \<Rightarrow> or_dash p),
      or_dash (projectManager r), or_dash (reportingManager r), or_dash (resource.deliveryHead r),
      date_cell tz (assignmentStartDate r), date_cell tz (assignmentEndDate r),
      Badge (if billabilityStatus r = billable then ''Billable'' else ''Non-Billable''),
      category_cell (nonBillableStatus r),
      skills_cell (primarySkills r), skills_cell (secondarySkills r),
      or_dash (practice r), or_dash (totalExperience r),
      Badge (if status r = active then ''Active'' else ''Inactive'')]"

section \<open>Sorting\<close>

text \<open>\<open>SortKey\<close>; the constructors carry the prefix \<open>sk_\<close>, because the column
  names are the field names of \<open>resource\<close>.\<close>

datatype SortKey =
    sk_employeeId | sk_name | sk_email | sk_contactNumber | sk_location | sk_client | sk_project
  | sk_projectManager | sk_reportingManager | sk_deliveryHead | sk_assignmentStartDate
  | sk_assignmentEndDate | sk_billabilityStatus | sk_nonBillableStatus | sk_status

datatype SortDir = sort_asc | sort_desc

record table_state =
  sortKey :: SortKey
  sortDir :: SortDir

definition init_table :: table_state where
  "init_table = \<lparr>sortKey = sk_name, sortDir = sort_asc\<rparr>"

definition handleSort :: "SortKey \<Rightarrow> table_state \<Rightarrow> table_state" where
  "handleSort k st =
     (if sortKey st = k then st\<lparr>sortDir := (if sortDir st = sort_asc then sort_desc else sort_asc)\<rparr>
      else \<lparr>sortKey = k, sortDir = sort_asc\<rparr>)"

text \<open>The string values of the enums, as the generated interface declares them.\<close>

definition billability_value :: "BillabilityStatus \<Rightarrow> string" where
  "billability_value b = (case b of billable \<Rightarrow> ''billable'' | nonBillable \<Rightarrow> ''nonBillable'')"

definition category_value :: "NonBillableStatus \<Rightarrow> string" where
  "category_value v =
     (case v of
        availableForDeployment \<Rightarrow> ''availableForDeployment'' | solutionInvestment \<Rightarrow> ''solutionInvestment''
      | biBench \<Rightarrow> ''biBench'' | partialBench \<Rightarrow> ''partialBench'' | projectBuffer \<Rightarrow> ''projectBuffer''
      | benchBlocked \<Rightarrow> ''benchBlocked'' | maternity \<Rightarrow> ''maternity''
      | deliverySupport \<Rightarrow> ''deliverySupport'')"

definition status_value :: "ResourceStatus \<Rightarrow> string" where
  "status_value s = (case s of active \<Rightarrow> ''active'' | inactive \<Rightarrow> ''inactive'')"

text \<open>The text a non-date column compares (\<open>aVal\<close>). A foreign category value has
  no \<open>localeCompare\<close>; it never reaches the table (see \<open>category_cell\<close>), and the
  model compares it by its key, a case no stored resource exercises.\<close>

definition sort_string :: "SortKey \<Rightarrow> resource \<Rightarrow> string" where
  "sort_string k r =
     (case k of
        sk_employeeId \<Rightarrow> employeeId r | sk_name \<Rightarrow> name r | sk_email \<Rightarrow> email r
      | sk_contactNumber \<Rightarrow> contactNumber r | sk_location \<Rightarrow> location r | sk_client \<Rightarrow> client r
      | sk_project \<Rightarrow> project r | sk_projectManager \<Rightarrow> projectManager r
      | sk_reportingManager \<Rightarrow> reportingManager r | sk_deliveryHead \<Rightarrow> resource.deliveryHead r
      | sk_billabilityStatus \<Rightarrow> billability_value (billabilityStatus r)
      | sk_nonBillableStatus \<Rightarrow>
          (case nonBillableStatus r of None \<Rightarrow> [] | Some (NB v) \<Rightarrow> category_value v | Some (NB_foreign s) \<Rightarrow> s)
      | sk_status \<Rightarrow> status_value (status r)
      | _ \<Rightarrow> [])"

definition is_date_key :: "SortKey \<Rightarrow> bool" where
  "is_date_key k \<longleftrightarrow> k = sk_assignmentStartDate \<or> k = sk_assignmentEndDate"

definition sort_time :: "SortKey \<Rightarrow> resource \<Rightarrow> time" where
  "sort_time k r = (if k = sk_assignmentStartDate then assignmentStartDate r else assignmentEndDate r)"

text \<open>The comparator. Only its sign is read; the difference of two doubles has the
  sign of the difference of their values.\<close>

definition sortCompare :: "(string \<Rightarrow> string \<Rightarrow> int) \<Rightarrow> SortKey \<Rightarrow> SortDir \<Rightarrow> resource \<Rightarrow> resource \<Rightarrow> int" where
  "sortCompare lc k d a b =
     (if is_date_key k then
        (let x = js_Number (sort_time k a); y = js_Number (sort_time k b)
         in if d = sort_asc then x - y else y - x)
      else (let c = lc (sort_string k a) (sort_string k b) in if d = sort_asc then c else - c))"

definition sorted_resources :: "(string \<Rightarrow> string \<Rightarrow> int) \<Rightarrow> table_state \<Rightarrow> resource list \<Rightarrow> resource list" where
  "sorted_resources lc st rs = js_sort (sortCompare lc (sortKey st) (sortDir st)) rs"

datatype table_view = NoResourcesFound | TableRows "(resource \<times> cell list) list"

definition ResourceTableView ::
  "(string \<Rightarrow> string \<Rightarrow> int) \<Rightarrow> (int \<Rightarrow> int) \<Rightarrow> table_state \<Rightarrow> resource list \<Rightarrow> table_view" where
  "ResourceTableView lc tz st rs =
     (let ss = sorted_resources lc st rs
      in if ss = [] then NoResourcesFound else TableRows (map (\<lambda>r. (r, table_row tz r)) ss))"

section \<open>The page\<close>

datatype view_mode = table_mode | card_mode

text \<open>The page's props; \<open>App.tsx\<close> renders \<open><ResourcesPage /><\<close>, every one
  \<open>true\<close>.\<close>

record page_perms =
  canEdit :: bool
  canDelete :: bool
  canCreate :: bool
  canImport :: bool

definition ALL_PERMS :: page_perms where
  "ALL_PERMS = \<lparr>canEdit = True, canDelete = True, canCreate = True, canImport = True\<rparr>"

record resources_page =
  viewMode :: view_mode
  search :: string
  billabilityFilter :: string
  practiceFilter :: string
  showFormModal :: bool
  showImportModal :: bool
  editingResource :: "resource option"
  deletingResourceId :: "string option"
  table_st :: table_state

definition init_resources_page :: resources_page where
  "init_resources_page =
     \<lparr>viewMode = table_mode, search = [], billabilityFilter = ''all'', practiceFilter = ''all'',
      showFormModal = False, showImportModal = False, editingResource = None,
      deletingResourceId = None, table_st = init_table\<rparr>"

text \<open>\<open>resources ?? []\<close>: no rows while the query is disabled.\<close>

definition page_rows :: "bool \<Rightarrow> backend \<Rightarrow> resource list" where
  "page_rows ready b = (case useResources ready b of None \<Rightarrow> [] | Some rs \<Rightarrow> rs)"

text \<open>\<open>Array.from(new Set(resources.map((r) => r.practice).filter(Boolean)))\<close>.\<close>

definition practices :: "resource list \<Rightarrow> string list" where
  "practices rs = remdups (filter (\<lambda>p. p \<noteq> []) (map practice rs))"

text \<open>\<open>hay.includes(needle)\<close>.\<close>

definition js_includes :: "string \<Rightarrow> string \<Rightarrow> bool" where
  "js_includes hay needle \<longleftrightarrow> (\<exists>i \<in> {0..length hay}. take (length needle) (drop i hay) = needle)"

definition matchesSearch :: "string \<Rightarrow> resource \<Rightarrow> bool" where
  "matchesSearch q r \<longleftrightarrow>
     q = [] \<or> js_includes (js_lower (name r)) (js_lower q) \<or> js_includes (js_lower (email r)) (js_lower q) \<or>
     js_includes (js_lower (employeeId r)) (js_lower q)"

definition matchesBillability :: "string \<Rightarrow> resource \<Rightarrow> bool" where
  "matchesBillability f r \<longleftrightarrow>
     f = ''all'' \<or> (f = ''billable'' \<and> billabilityStatus r = billable) \<or>
     (f = ''nonBillable'' \<and> billabilityStatus r = nonBillable)"

definition matchesPractice :: "string \<Rightarrow> resource \<Rightarrow> bool" where
  "matchesPractice f r \<longleftrightarrow> f = ''all'' \<or> practice r = f"

definition filtered :: "resources_page \<Rightarrow> resource list \<Rightarrow> resource list" where
  "filtered st rs =
     filter (\<lambda>r. matchesSearch (search st) r \<and> matchesBillability (billabilityFilter st) r \<and>
                 matchesPractice (practiceFilter st) r) rs"

text \<open>The page's controls: the toolbar, the table's column headers and row buttons,
  the delete dialog, and the form and import modals' callbacks.\<close>

datatype page_event =
    SearchInput string | BillabilitySelect string | PracticeSelect string | ViewButton view_mode
  | SortClick SortKey | EditClick resource | DeleteClick string | ConfirmDeleteClick
  | DeleteDialogClose | AddClick | FormClose | FormSubmit resource | ImportClick
  | ImportOpenChange bool | ExportClick

datatype page_output = NoOutput | Downloaded download | SubmitFailed string

text \<open>One handler. The table's state is dropped when the view switches away from the
  table; a column header exists only in the table view. \<open>handleFormSubmit\<close> awaits
  \<open>useAddResource\<close> for a new and an edited resource alike, and closes the form
  only when the call succeeds. \<open>confirmDelete\<close> only closes the dialog.\<close>

definition resources_step ::
  "page_perms \<Rightarrow> bool \<Rightarrow> call_env \<Rightarrow> (int \<Rightarrow> int) \<Rightarrow> int \<Rightarrow> page_event \<Rightarrow> resources_page \<times> backend \<Rightarrow>
   (resources_page \<times> backend) \<times> page_output" where
  "resources_step perms ready env tz now ev s =
     (case s of (st, b) \<Rightarrow>
      (case ev of
         SearchInput q \<Rightarrow> ((st\<lparr>search := q\<rparr>, b), NoOutput)
       | BillabilitySelect f \<Rightarrow> ((st\<lparr>billabilityFilter := f\<rparr>, b), NoOutput)
       | PracticeSelect f \<Rightarrow> ((st\<lparr>practiceFilter := f\<rparr>, b), NoOutput)
       | ViewButton m \<Rightarrow>
           ((st\<lparr>viewMode := m, table_st := (if m = viewMode st then table_st st else init_table)\<rparr>, b), NoOutput)
       | SortClick k \<Rightarrow>
           ((if viewMode st = table_mode then st\<lparr>table_st := handleSort k (table_st st)\<rparr> else st, b), NoOutput)
       | EditClick r \<Rightarrow>
           ((if canEdit perms then st\<lparr>editingResource := Some r, showFormModal := True\<rparr> else st, b), NoOutput)
       | DeleteClick i \<Rightarrow> ((if canDelete perms then st\<lparr>deletingResourceId := Some i\<rparr> else st, b), NoOutput)
       | ConfirmDeleteClick \<Rightarrow> ((st\<lparr>deletingResourceId := None\<rparr>, b), NoOutput)
       | DeleteDialogClose \<Rightarrow> ((st\<lparr>deletingResourceId := None\<rparr>, b), NoOutput)
       | AddClick \<Rightarrow> ((if canCreate perms then st\<lparr>showFormModal := True\<rparr> else st, b), NoOutput)
       | FormClose \<Rightarrow> ((st\<lparr>showFormModal := False, editingResource := None\<rparr>, b), NoOutput)
       | FormSubmit r \<Rightarrow>
           (if \<not> showFormModal st then ((st, b), NoOutput)
            else case run_mutation env (AddResource r) b of
                   Inl e \<Rightarrow> ((st, b), SubmitFailed e)
                 | Inr b' \<Rightarrow> ((st\<lparr>showFormModal := False, editingResource := None\<rparr>, b'), NoOutput))
       | ImportClick \<Rightarrow> ((if canImport perms then st\<lparr>showImportModal := True\<rparr> else st, b), NoOutput)
       | ImportOpenChange opn \<Rightarrow> ((st\<lparr>showImportModal := opn\<rparr>, b), NoOutput)
       | ExportClick \<Rightarrow> ((st, b), Downloaded (exportResourcesAsCSV tz now (filtered st (page_rows ready b)) None))))"

text \<open>The sessions of the page from a backend \<open>b0\<close>: any sequence of its events,
  each call made in any network environment.\<close>

inductive page_reach :: "page_perms \<Rightarrow> bool \<Rightarrow> (int \<Rightarrow> int) \<Rightarrow> int \<Rightarrow> backend \<Rightarrow> resources_page \<times> backend \<Rightarrow> bool"
  for perms ready tz now b0 where
  start: "page_reach perms ready tz now b0 (init_resources_page, b0)"
| step: "page_reach perms ready tz now b0 s \<Longrightarrow> resources_step perms ready env tz now ev s = (s', out) \<Longrightarrow>
         page_reach perms ready tz now b0 s'"

section \<open>Properties of the table and the page\<close>

lemma sortCompare_date:
  assumes "is_date_key k"
  shows "sortCompare lc k d =
           (\<lambda>a b. (if d = sort_asc then 1 else -1) * js_Number (sort_time k a) -
                   (if d = sort_asc then 1 else -1) * js_Number (sort_time k b))"
  using assms by (auto simp: sortCompare_def fun_eq_iff Let_def)

lemma resources_step_editing:
  assumes "resources_step perms ready env tz now ev (st, b) = ((st', b'), out)"
    and "editingResource st \<noteq> None \<longrightarrow> showFormModal st"
  shows "editingResource st' \<noteq> None \<longrightarrow> showFormModal st'"
  using assms by (cases ev) (auto simp: resources_step_def split: if_splits sum.splits)

lemma js_lower_char_idem: "js_lower_char (js_lower_char c) = js_lower_char c"
  unfolding js_lower_char_def Let_def by (auto simp: of_char_of)

lemma js_lower_idem [simp]: "js_lower (js_lower s) = js_lower s"
  by (simp add: js_lower_def js_lower_char_idem)

lemma js_lower_Nil_iff [simp]: "js_lower s = [] \<longleftrightarrow> s = []"
  by (simp add: js_lower_def)

text \<open>The search box ignores case: a query and its lower-case form filter alike.\<close>

lemma filtered_search_lower: "filtered (st\<lparr>search := js_lower q\<rparr>) rs = filtered (st\<lparr>search := q\<rparr>) rs"
  by (simp add: filtered_def matchesSearch_def)

text \<open>C25:sorting the table by an assignment date is the stable sort of the resources by
  the date read as a double, ascending or descending: the comparator-based
  \<open>Array.prototype.sort\<close> of the code and the key-based \<open>sort_key\<close> agree.\<close>

theorem date_sort_key:
  assumes "is_date_key k"
  shows "sorted_resources lc \<lparr>sortKey = k, sortDir = d\<rparr> rs =
           sort_key (\<lambda>r. (if d = sort_asc then 1 else -1) * js_Number (sort_time k r)) rs"
  using assms by (simp add: sorted_resources_def sortCompare_date js_sort_key)

theorem date_sort_key_witness:
  "is_date_key sk_assignmentStartDate \<and>
   sorted_resources (\<lambda>_ _. 0) \<lparr>sortKey = sk_assignmentStartDate, sortDir = sort_desc\<rparr>
     [DEMO_RESOURCE, DEMO_RESOURCE\<lparr>res_id := ''r2'', assignmentStartDate := 1000000000000\<rparr>] =
   sort_key (\<lambda>r. (if sort_desc = sort_asc then 1 else -1) * js_Number (sort_time sk_assignmentStartDate r))
     [DEMO_RESOURCE, DEMO_RESOURCE\<lparr>res_id := ''r2'', assignmentStartDate := 1000000000000\<rparr>]"
  using date_sort_key [of sk_assignmentStartDate "\<lambda>_ _. 0" sort_desc] by (simp add: is_date_key_def)

text \<open>C26:whatever the table's state, clicking a column header at most twice sorts the
  table by that column in either direction.\<close>

theorem handleSort_reaches:
  "\<exists>n \<le> 2. (handleSort k ^^ n) st = \<lparr>sortKey = k, sortDir = d\<rparr>"
proof -
  have "(handleSort k ^^ 0) st = \<lparr>sortKey = k, sortDir = d\<rparr> \<or>
        (handleSort k ^^ 1) st = \<lparr>sortKey = k, sortDir = d\<rparr> \<or>
        (handleSort k ^^ 2) st = \<lparr>sortKey = k, sortDir = d\<rparr>"
    by (cases d; cases "sortDir st"; cases "sortKey st = k") (auto simp: handleSort_def numeral_2_eq_2)
  moreover have "(0::nat) \<le> 2" "(1::nat) \<le> 2" "(2::nat) \<le> 2" by simp_all
  ultimately show ?thesis by blast
qed

end
