(* ===== verification/ProjectViews.thy ===== *)
theory ProjectViews
  imports Resources
begin

text \<open>
  The read-only project views: the kanban board
  (\<open>src/frontend/src/components/ProjectKanbanBoard.tsx\<close>), the milestone checklist
  (\<open>components/MilestoneChecklist.tsx\<close>) and the project detail dialog
  (\<open>components/ProjectDetailModal.tsx\<close>), each a function from its props to what it
  shows, with \<open>formatCurrency\<close> of \<open>lib/utils.ts\<close>.

  All three show a progress percentage, \<open>Math.round((completed / total) * 100)\<close>.
  It is computed in doubles: \<open>progress\<close> rounds the quotient to the nearest double,
  multiplies by 100 rounding again, and applies \<open>Math.round\<close>, each step exactly as
  IEEE 754 does it.
\<close>

section \<open>Progress\<close>

text \<open>\<open>p / q\<close> rounded to the nearest integer, ties to even.\<close>

definition rhe_div :: "nat \<Rightarrow> nat \<Rightarrow> nat" where
  "rhe_div p q = (let d = p div q; r = p mod q in if q < 2 * r \<or> (2 * r = q \<and> odd d) then d + 1 else d)"

text \<open>The scale \<open>s\<close> at which \<open>a / b\<close> has 53 bits before the binary point:
  \<open>2^52 \<le> a * 2^s / b < 2^53\<close>, for \<open>0 < a \<le> b\<close>.\<close>

definition div_scale :: "nat \<Rightarrow> nat \<Rightarrow> nat" where
  "div_scale a b = (let s0 = 52 + bitlen b - bitlen a in if 2 ^ 52 * b \<le> a * 2 ^ s0 then s0 else s0 + 1)"

text \<open>\<open>Math.round((c / t) * 100)\<close>, for \<open>c \<le> t\<close>: the quotient is the double
  \<open>q / 2^s\<close>, the product the double \<open>round_double (100 * q) / 2^s\<close> (a power of two
  scales exactly), and \<open>Math.round(x)\<close> is \<open>floor(x + 1/2)\<close>. The views show 0
  when there are no milestones.\<close>

definition progress :: "nat \<Rightarrow> nat \<Rightarrow> nat" where
  "progress c t =
     (if t = 0 \<or> c = 0 then 0
      else let s = div_scale c t; q = rhe_div (c * 2 ^ s) t; v = round_double (100 * q)
           in (v + 2 ^ (s - 1)) div 2 ^ s)"

definition milestone_progress :: "Milestone list \<Rightarrow> nat" where
  "milestone_progress ms = progress (length (filter completed ms)) (length ms)"

section \<open>Currency\<close>

text \<open>The digits of a number in groups of three from the right.\<close>

function chunks3 :: "string \<Rightarrow> string list" where
  "chunks3 s = (if s = [] then [] else take 3 s # chunks3 (drop 3 s))"
  by auto
termination
  by (relation "measure length") auto

definition group3 :: "string \<Rightarrow> string" where
  "group3 ds = join_with '','' (rev (map rev (chunks3 (rev ds))))"

text \<open>\<open>formatCurrency\<close>: \<open>Intl.NumberFormat('en-US', { style: 'currency', currency:
  'USD', maximumFractionDigits: 0 })\<close> of \<open>Number(amount)\<close>, as \<open>$1,234\<close> and
  \<open>-$1,234\<close>, for amounts below \<open>2^1024\<close>.\<close>

definition formatCurrency :: "int \<Rightarrow> string" where
  "formatCurrency amount =
     (let n = js_Number amount
      in (if n < 0 then ''-$'' else ''$'') @ group3 (nat_str (nat \<bar>n\<bar>)))"

section \<open>The kanban board\<close>

definition COLUMNS :: "(ProjectStatus \<times> string) list" where
  "COLUMNS = [(ps_planning, ''Planning''), (ps_active, ''Active''), (ps_onHold, ''On Hold''),
              (ps_completed, ''Completed'')]"

text \<open>A card: the project, its progress when it has milestones, its manager and
  the number of members; a click opens the project, its buttons edit or delete it.\<close>

record kanban_card =
  card_project :: Project
  card_progress :: "nat option"
  card_members :: nat

definition KanbanCard :: "Project \<Rightarrow> kanban_card" where
  "KanbanCard p =
     \<lparr>card_project = p,
      card_progress = (if milestones p = [] then None else Some (milestone_progress (milestones p))),
      card_members = length (assignedResourceIds p)\<rparr>"

datatype column_body = ColumnSkeleton | ColumnEmpty string | ColumnCards "kanban_card list"

record kanban_column =
  col_label :: string
  col_count :: "nat option"
  col_body :: column_body

definition column_projects :: "Project list \<Rightarrow> ProjectStatus \<Rightarrow> Project list" where
  "column_projects ps s = filter (\<lambda>p. project_status p = s) ps"

definition ProjectKanbanBoard :: "bool \<Rightarrow> Project list \<Rightarrow> kanban_column list" where
  "ProjectKanbanBoard isLoading ps =
     map (\<lambda>(s, label).
            let cps = column_projects ps s
            in \<lparr>col_label = label, col_count = (if isLoading then None else Some (length cps)),
                col_body = (if isLoading then ColumnSkeleton
                            else if cps = [] then ColumnEmpty (''No '' @ js_lower label @ '' projects'')
                            else ColumnCards (map KanbanCard cps))\<rparr>)
       COLUMNS"

section \<open>The milestone checklist\<close>

text \<open>A milestone row: its title, whether it is checked, and its due date as
  \<open>formatDate\<close> prints it.\<close>

datatype checklist_view =
    NoMilestones
  | Checklist nat nat nat "(string \<times> bool \<times> string) list"

definition MilestoneChecklist :: "(int \<Rightarrow> int) \<Rightarrow> Milestone list \<Rightarrow> checklist_view" where
  "MilestoneChecklist tz ms =
     (if ms = [] then NoMilestones
      else Checklist (length (filter completed ms)) (length ms) (milestone_progress ms)
             (map (\<lambda>m. (title m, completed m, ''Due: '' @ utils_formatDate tz (dueDate m))) ms))"

section \<open>The project detail dialog\<close>

definition project_status_label :: "ProjectStatus \<Rightarrow> string" where
  "project_status_label s =
     (case s of ps_planning \<Rightarrow> ''Planning'' | ps_active \<Rightarrow> ''Active'' | ps_onHold \<Rightarrow> ''On Hold''
      | ps_completed \<Rightarrow> ''Completed'')"

definition assignedResources :: "resource list \<Rightarrow> Project \<Rightarrow> resource list" where
  "assignedResources rs p = filter (\<lambda>r. res_id r \<in> set (assignedResourceIds p)) rs"

record detail_view =
  dt_name :: string
  dt_status :: string
  dt_progress :: "nat option"
  dt_description :: "string option"
  dt_manager :: string
  dt_budget :: string
  dt_start :: string
  dt_end :: string
  dt_team :: "(string \<times> string \<times> string) list"
  dt_milestones :: checklist_view
  dt_edit_button :: bool
  dt_delete_button :: bool

definition ProjectDetailModal ::
  "(int \<Rightarrow> int) \<Rightarrow> resource list \<Rightarrow> bool \<Rightarrow> bool \<Rightarrow> Project \<Rightarrow> detail_view" where
  "ProjectDetailModal tz rs can_edit can_delete p =
     \<lparr>dt_name = project_name p, dt_status = project_status_label (project_status p),
      dt_progress = (if milestones p = [] then None else Some (milestone_progress (milestones p))),
      dt_description = (if project_description p = [] then None else Some (project_description p)),
      dt_manager = managerName p, dt_budget = formatCurrency (budget p),
      dt_start = utils_formatDate tz (startDate p), dt_end = utils_formatDate tz (endDate p),
      dt_team = map (\<lambda>r. (initials (name r), name r, role r)) (assignedResources rs p),
      dt_milestones = MilestoneChecklist tz (milestones p),
      dt_edit_button = can_edit, dt_delete_button = can_delete\<rparr>"

section \<open>Properties of the views\<close>

lemma bitlen_less: "n < 2 ^ bitlen n"
proof (induction n rule: bitlen.induct)
  case (1 n)
  show ?case
  proof (cases "n = 0")
    case False
    then have "n div 2 < 2 ^ bitlen (n div 2)" using 1 by simp
    then show ?thesis using False by (simp add: bitlen.simps [of n])
  qed (simp add: bitlen.simps)
qed

lemma bitlen_mono: "m \<le> n \<Longrightarrow> bitlen m \<le> bitlen n"
proof (induction n arbitrary: m rule: bitlen.induct)
  case (1 n)
  show ?case
  proof (cases "m = 0")
    case False
    then have "bitlen (m div 2) \<le> bitlen (n div 2)" using 1 by (simp add: div_le_mono)
    then show ?thesis using False 1(2) by (simp add: bitlen.simps [of m] bitlen.simps [of n])
  qed (simp add: bitlen.simps)
qed

lemma bitlen_le_pow: "n < 2 ^ k \<Longrightarrow> bitlen n \<le> k"
proof (induction n arbitrary: k rule: bitlen.induct)
  case (1 n)
  show ?case
  proof (cases "n = 0")
    case False
    then obtain k' where k: "k = Suc k'" using 1(2) by (cases k) auto
    then have "n div 2 < 2 ^ k'" using 1(2) by simp
    then show ?thesis using 1(1) False k by (simp add: bitlen.simps [of n])
  qed (simp add: bitlen.simps)
qed

text \<open>Rounding an integer to the nearest double moves it by at most one unit in
  its last place.\<close>

lemma round_double_le: "round_double n \<le> n + 2 ^ (bitlen n - 53)"
proof (cases "bitlen n \<le> 53")
  case False
  define e where "e = bitlen n - 53"
  have "n div 2 ^ e * 2 ^ e \<le> n" by (rule div_times_less_eq_dividend)
  then have a: "(n div 2 ^ e + 1) * 2 ^ e \<le> n + 2 ^ e" by (simp add: algebra_simps)
  have b: "round_double n \<le> (n div 2 ^ e + 1) * 2 ^ e"
    using False by (simp add: round_double_def Let_def e_def)
  show ?thesis using order_trans [OF b a] by (simp add: e_def)
qed (simp add: round_double_def)

lemma rhe_div_le: "0 < q \<Longrightarrow> p \<le> q * k \<Longrightarrow> rhe_div p q \<le> k"
proof -
  assume q: "0 < q" and p: "p \<le> q * k"
  have d: "p div q \<le> k" using div_le_mono [OF p, of q] q by simp
  show ?thesis
  proof (cases "p div q = k")
    case True
    have "p div q * q + p mod q = p" by (rule div_mult_mod_eq)
    then have "p mod q = 0" using True p by (simp add: mult.commute)
    then show ?thesis using True q by (simp add: rhe_div_def)
  next
    case False
    then show ?thesis using d by (simp add: rhe_div_def Let_def)
  qed
qed

lemma div_scale_ge: "bitlen a \<le> bitlen b \<Longrightarrow> 52 \<le> div_scale a b"
  unfolding div_scale_def Let_def by (simp split: if_split; linarith)

lemma progress_all_done: "0 < t \<Longrightarrow> progress t t = 100"
proof -
  assume t: "0 < t"
  have s: "div_scale t t = 52" by (simp add: div_scale_def)
  have q: "rhe_div (t * 2 ^ 52) t = 2 ^ 52" using t by (simp add: rhe_div_def)
  have v: "round_double (100 * 2 ^ 52) = 100 * 2 ^ 52"
    by (simp add: round_double_def bitlen.simps)
  show ?thesis using t s q v by (simp add: progress_def)
qed

text \<open>C28:the percentage the kanban card, the checklist and the detail dialog
  show lies between 0 and 100, and is 100 when every milestone is completed.\<close>

theorem progress_bounds:
  assumes "c \<le> t"
  shows "progress c t \<le> 100 \<and> (0 < t \<longrightarrow> c = t \<longrightarrow> progress c t = 100)"
proof (cases "t = 0 \<or> c = 0")
  case True
  then show ?thesis using assms by (auto simp: progress_def)
next
  case False
  define s where "s = div_scale c t"
  define q where "q = rhe_div (c * 2 ^ s) t"
  define v where "v = round_double (100 * q)"
  have p: "progress c t = (v + 2 ^ (s - 1)) div 2 ^ s"
    using False by (simp add: progress_def s_def q_def v_def Let_def)
  have "52 \<le> s" unfolding s_def by (rule div_scale_ge) (rule bitlen_mono [OF assms])
  then obtain k where k: "s = k + 52" by (metis add.commute le_iff_add)
  have "q \<le> 2 ^ s" unfolding q_def
    using False assms by (intro rhe_div_le) (simp_all add: mult.commute)
  then have q100: "100 * q \<le> 100 * 2 ^ k * 2 ^ 52" by (simp add: k power_add)
  have pos: "(0::nat) < 2 ^ k" by simp
  have "100 * 2 ^ k * 2 ^ 52 < 2 ^ k * (2::nat) ^ 59" using pos by simp
  then have "100 * q < 2 ^ (k + 59)" using q100 by (simp only: power_add)
  then have "bitlen (100 * q) - 53 \<le> k + 6" using bitlen_le_pow [of "100 * q" "k + 59"] by simp
  then have "(2::nat) ^ (bitlen (100 * q) - 53) \<le> 2 ^ k * 64"
    using power_increasing [of "bitlen (100 * q) - 53" "k + 6" "2::nat"] by (simp add: power_add)
  then have "v \<le> 100 * 2 ^ k * 2 ^ 52 + 2 ^ k * 64"
    using round_double_le [of "100 * q"] q100 unfolding v_def by linarith
  then have "v \<le> 450359962737049600 * 2 ^ k + 64 * 2 ^ k" by (simp add: mult.commute)
  then have "v + 2251799813685248 * 2 ^ k < 454863562364420096 * 2 ^ k" using pos by linarith
  then have "v + 2 ^ (s - 1) < 101 * 2 ^ s" by (simp add: k power_add mult.commute)
  then have "(v + 2 ^ (s - 1)) div 2 ^ s < 101" by (rule less_mult_imp_div_less)
  then show ?thesis using p progress_all_done by auto
qed

lemma progress_bounds_witness:
  "3 \<le> (3::nat) \<and> progress 3 3 \<le> 100 \<and> progress 3 3 = 100"
proof -
  have b: "progress 3 3 \<le> 100 \<and> (0 < (3::nat) \<longrightarrow> 3 = (3::nat) \<longrightarrow> progress 3 3 = 100)"
    by (rule progress_bounds) simp
  have "progress 3 3 = 100" using mp [OF mp [OF conjunct2 [OF b]]] by simp
  then show ?thesis using conjunct1 [OF b] by simp
qed

lemma status_partition:
  "mset (column_projects ps ps_planning) + mset (column_projects ps ps_active) +
   mset (column_projects ps ps_onHold) + mset (column_projects ps ps_completed) = mset ps"
proof (induction ps)
  case (Cons p ps)
  then show ?case by (cases "project_status p") (simp_all add: column_projects_def)
qed (simp add: column_projects_def)

lemma card_projects_column:
  "(case (if cps = [] then ColumnEmpty l else ColumnCards (map KanbanCard cps)) of
      ColumnCards cs \<Rightarrow> map card_project cs | _ \<Rightarrow> []) = cps"
  by (simp add: KanbanCard_def comp_def)

text \<open>C29:once loaded, the board has the columns Planning, Active, On Hold and
  Completed in this order, each showing exactly the projects of its status in list
  order; so every project is shown exactly once, and the column counts add up to the
  number of projects.\<close>

theorem kanban_partition:
  "map (\<lambda>c. (col_label c, case col_body c of ColumnCards cs \<Rightarrow> map card_project cs | _ \<Rightarrow> []))
       (ProjectKanbanBoard False ps) =
     [(''Planning'', filter (\<lambda>p. project_status p = ps_planning) ps),
      (''Active'', filter (\<lambda>p. project_status p = ps_active) ps),
      (''On Hold'', filter (\<lambda>p. project_status p = ps_onHold) ps),
      (''Completed'', filter (\<lambda>p. project_status p = ps_completed) ps)] \<and>
   mset (concat (map (\<lambda>c. case col_body c of ColumnCards cs \<Rightarrow> map card_project cs | _ \<Rightarrow> [])
                      (ProjectKanbanBoard False ps))) = mset ps \<and>
   sum_list (map (\<lambda>c. the (col_count c)) (ProjectKanbanBoard False ps)) = length ps"
proof -
  have cols: "map (\<lambda>c. (col_label c, case col_body c of ColumnCards cs \<Rightarrow> map card_project cs | _ \<Rightarrow> []))
       (ProjectKanbanBoard False ps) =
     [(''Planning'', column_projects ps ps_planning), (''Active'', column_projects ps ps_active),
      (''On Hold'', column_projects ps ps_onHold), (''Completed'', column_projects ps ps_completed)]"
    by (simp add: ProjectKanbanBoard_def COLUMNS_def Let_def card_projects_column del: mset_filter)
  have m: "mset (concat (map (\<lambda>c. case col_body c of ColumnCards cs \<Rightarrow> map card_project cs | _ \<Rightarrow> [])
                      (ProjectKanbanBoard False ps))) =
           mset (column_projects ps ps_planning) + mset (column_projects ps ps_active) +
           mset (column_projects ps ps_onHold) + mset (column_projects ps ps_completed)"
    by (simp add: ProjectKanbanBoard_def COLUMNS_def Let_def card_projects_column del: mset_filter)
  have "size (mset (column_projects ps ps_planning) + mset (column_projects ps ps_active) +
           mset (column_projects ps ps_onHold) + mset (column_projects ps ps_completed)) = size (mset ps)"
    using status_partition [of ps] by simp
  then have "sum_list (map (\<lambda>c. the (col_count c)) (ProjectKanbanBoard False ps)) = length ps"
    by (simp add: ProjectKanbanBoard_def COLUMNS_def Let_def del: mset_filter)
  then show ?thesis using cols m status_partition [of ps] by (simp add: column_projects_def)
qed

end
