(* ===== verification/ResourceForm.thy ===== *)
theory ResourceForm
  imports Resources
begin

text \<open>
  The resource form, \<open>src/frontend/src/components/ResourceFormModal.tsx\<close>, with the
  skills multi-select hook \<open>src/frontend/src/hooks/useMultiSelectDropdown.ts\<close>.

  The form's state is its \<open>form\<close> object (\<open>form_fields\<close>, one field per key, the
  empty category \<open>''\<close> as \<open>None\<close>), its error message and the two multi-select
  states. Opening the form runs the \<open>useEffect\<close> that loads it from the resource
  being edited, or empties it (\<open>open_form\<close>); \<open>form_step\<close> is the handler of each
  control. \<open>handleSubmit\<close> validates, builds the \<open>Resource\<close> and hands it to the
  page (\<open>FormSubmitted\<close>), or reports why not.

  Dates pass through text: \<open>formatDateInput\<close> prints the UTC date of a time
  (\<open>toISOString\<close>), and \<open>new Date(text)\<close> reads it back with the browser's parser,
  the parameter \<open>dm\<close> of the import (\<open>None\<close> for an invalid date, whose
  \<open>BigInt(NaN)\<close> throws).
\<close>

section \<open>The skills multi-select\<close>

definition SKILL_OPTIONS :: "string list" where
  "SKILL_OPTIONS =
     [''UI'', ''UX'', ''Automation Testing'', ''Java'', ''Jenkins'', ''Azure'', ''Adobe'', ''React'',
      ''Angular'', ''Vue'', ''Node.js'', ''Python'', ''SQL'', ''AWS'', ''Docker'', ''Kubernetes'',
      ''Selenium'', ''Cypress'', ''TypeScript'', ''JavaScript'', ''C#'', ''.NET'', ''Spring Boot'',
      ''Microservices'', ''DevOps'', ''Agile/Scrum'', ''Power BI'', ''Tableau'', ''Salesforce'', ''SAP'']"

record ms_state =
  ms_selected :: "string list"
  ms_search :: string
  ms_customInput :: string
  ms_isOpen :: bool

definition init_ms :: ms_state where
  "init_ms = \<lparr>ms_selected = [], ms_search = [], ms_customInput = [], ms_isOpen = False\<rparr>"

definition filteredOptions :: "string list \<Rightarrow> ms_state \<Rightarrow> string list" where
  "filteredOptions options st =
     filter (\<lambda>opt. js_includes (js_lower opt) (js_lower (ms_search st)) \<and> opt \<notin> set (ms_selected st)) options"

definition addItem :: "string \<Rightarrow> ms_state \<Rightarrow> ms_state" where
  "addItem item st =
     (let t = js_trim item
      in (if t \<noteq> [] \<and> t \<notin> set (ms_selected st) then st\<lparr>ms_selected := ms_selected st @ [t]\<rparr> else st)
           \<lparr>ms_search := [], ms_customInput := []\<rparr>)"

definition removeItem :: "string \<Rightarrow> ms_state \<Rightarrow> ms_state" where
  "removeItem item st = st\<lparr>ms_selected := filter (\<lambda>s. s \<noteq> item) (ms_selected st)\<rparr>"

definition ms_reset :: "string list \<Rightarrow> ms_state \<Rightarrow> ms_state" where
  "ms_reset sel st = st\<lparr>ms_selected := sel, ms_search := [], ms_customInput := [], ms_isOpen := False\<rparr>"

text \<open>\<open>SkillsMultiSelect\<close>'s \<open>handleAddCustom\<close>.\<close>

definition handleAddCustom :: "ms_state \<Rightarrow> ms_state" where
  "handleAddCustom st = (if js_trim (ms_customInput st) \<noteq> [] then addItem (js_trim (ms_customInput st)) st else st)"

text \<open>The controls of \<open>SkillsMultiSelect\<close>: the box toggles the list, a tag removes
  itself, a mouse-down outside closes the open list; the search box, the options,
  the custom input and its button (or Enter) exist while the list is open.\<close>

datatype ms_event =
    ToggleOpen | ClickOutside | TagClick string | SearchType string | OptionClick string
  | CustomType string | AddCustomClick

definition ms_step :: "string list \<Rightarrow> ms_event \<Rightarrow> ms_state \<Rightarrow> ms_state" where
  "ms_step options ev st =
     (case ev of
        ToggleOpen \<Rightarrow> st\<lparr>ms_isOpen := \<not> ms_isOpen st\<rparr>
      | ClickOutside \<Rightarrow> st\<lparr>ms_isOpen := False\<rparr>
      | TagClick s \<Rightarrow> if s \<in> set (ms_selected st) then removeItem s st else st
      | SearchType q \<Rightarrow> if ms_isOpen st then st\<lparr>ms_search := q\<rparr> else st
      | OptionClick opt \<Rightarrow>
          if ms_isOpen st \<and> opt \<in> set (filteredOptions options st) then addItem opt st else st
      | CustomType v \<Rightarrow> if ms_isOpen st then st\<lparr>ms_customInput := v\<rparr> else st
      | AddCustomClick \<Rightarrow> if ms_isOpen st then handleAddCustom st else st)"

text \<open>A selection the multi-select keeps: distinct, trimmed, non-empty tags.\<close>

definition good_tags :: "string list \<Rightarrow> bool" where
  "good_tags sel \<longleftrightarrow> distinct sel \<and> list_all (\<lambda>s. s \<noteq> [] \<and> js_trim s = s) sel"

section \<open>The form\<close>

record form_fields =
  fm_employeeId :: string
  fm_name :: string
  fm_email :: string
  fm_contactNumber :: string
  fm_location :: string
  fm_client :: string
  fm_project :: string
  fm_projectId :: string
  fm_projectManager :: string
  fm_reportingManager :: string
  fm_deliveryHead :: string
  fm_billabilityStatus :: BillabilityStatus
  fm_nonBillableStatus :: "nb_value option"
  fm_totalExperience :: string
  fm_doj :: string
  fm_assignmentStartDate :: string
  fm_assignmentEndDate :: string
  fm_practice :: string
  fm_status :: ResourceStatus
  fm_role :: string
  fm_department :: string

record form_state =
  form :: form_fields
  form_error :: string
  primary_ms :: ms_state
  secondary_ms :: ms_state

definition empty_fields :: form_fields where
  "empty_fields =
     \<lparr>fm_employeeId = [], fm_name = [], fm_email = [], fm_contactNumber = [], fm_location = [],
      fm_client = [], fm_project = [], fm_projectId = [], fm_projectManager = [],
      fm_reportingManager = [], fm_deliveryHead = [], fm_billabilityStatus = billable,
      fm_nonBillableStatus = None, fm_totalExperience = [], fm_doj = [], fm_assignmentStartDate = [],
      fm_assignmentEndDate = [], fm_practice = [], fm_status = active, fm_role = [], fm_department = []\<rparr>"

text \<open>\<open>formatDateInput(ns)\<close>: \<open>toISOString().split('T')[0]\<close> of \<open>nsToDate(ns)\<close>, the
  UTC date with a four-digit year for the years 0 to 9999 and a signed six-digit one
  beyond; \<open>toISOString\<close> throws on a time outside the range of \<open>Date\<close>
  (\<open>None\<close>).\<close>

definition pad_to :: "nat \<Rightarrow> string \<Rightarrow> string" where
  "pad_to n s = replicate (n - length s) (CHR ''0'') @ s"

definition iso_year :: "int \<Rightarrow> string" where
  "iso_year y =
     (if 0 \<le> y \<and> y \<le> 9999 then pad_to 4 (nat_str (nat y))
      else (if y < 0 then CHR ''-'' else CHR ''+'') # pad_to 6 (nat_str (nat \<bar>y\<bar>)))"

definition formatDateInput :: "time \<Rightarrow> string option" where
  "formatDateInput ns =
     (let ms = nsToDate ns in
      if 8640000000000000 < \<bar>ms\<bar> then None
      else case civil_of_day (ms div msPerDay) of (y, m, d) \<Rightarrow>
        Some (iso_year y @ CHR ''-'' # pad2 (int_str m) @ CHR ''-'' # pad2 (int_str d)))"

text \<open>\<open>t && t !== 0n ? formatDateInput(t) : ''\<close>.\<close>

definition date_input :: "time \<Rightarrow> string option" where
  "date_input t = (if t = 0 then Some [] else formatDateInput t)"

definition load_fields :: "resource \<Rightarrow> form_fields option" where
  "load_fields r =
     (case (date_input (doj r), date_input (assignmentStartDate r), date_input (assignmentEndDate r)) of
        (Some dj, Some sd, Some ed) \<Rightarrow>
          Some \<lparr>fm_employeeId = employeeId r, fm_name = name r, fm_email = email r,
                fm_contactNumber = contactNumber r, fm_location = location r, fm_client = client r,
                fm_project = project r, fm_projectId = (case projectId r of None \<Rightarrow> [] | Some p \<Rightarrow> p),
                fm_projectManager = projectManager r, fm_reportingManager = reportingManager r,
                fm_deliveryHead = resource.deliveryHead r, fm_billabilityStatus = billabilityStatus r,
                fm_nonBillableStatus = nonBillableStatus r, fm_totalExperience = totalExperience r,
                fm_doj = dj, fm_assignmentStartDate = sd, fm_assignmentEndDate = ed,
                fm_practice = practice r, fm_status = status r, fm_role = role r,
                fm_department = department r\<rparr>
      | _ \<Rightarrow> None)"

text \<open>The effect run when the form opens: the loaded or the empty form, no error, the
  skills reset to the resource's. \<open>None\<close> when loading throws.\<close>

definition open_form :: "resource option \<Rightarrow> form_state option" where
  "open_form init =
     (case init of
        None \<Rightarrow> Some \<lparr>form = empty_fields, form_error = [], primary_ms = ms_reset [] init_ms,
                     secondary_ms = ms_reset [] init_ms\<rparr>
      | Some r \<Rightarrow> map_option (\<lambda>f. \<lparr>form = f, form_error = [], primary_ms = ms_reset (primarySkills r) init_ms,
                                     secondary_ms = ms_reset (secondarySkills r) init_ms\<rparr>) (load_fields r))"

text \<open>The text inputs, each bound to one key through \<open>set(field, value)\<close>.\<close>

datatype text_field =
    EmployeeIdInput | NameInput | EmailInput | ContactNumberInput | LocationInput
  | TotalExperienceInput | DojInput | PracticeInput | ClientInput | ProjectInput | ProjectIdInput
  | ProjectManagerInput | ReportingManagerInput | DeliveryHeadInput | AssignmentStartDateInput
  | AssignmentEndDateInput

definition set_text :: "text_field \<Rightarrow> string \<Rightarrow> form_fields \<Rightarrow> form_fields" where
  "set_text fld v f =
     (case fld of
        EmployeeIdInput \<Rightarrow> f\<lparr>fm_employeeId := v\<rparr> | NameInput \<Rightarrow> f\<lparr>fm_name := v\<rparr>
      | EmailInput \<Rightarrow> f\<lparr>fm_email := v\<rparr> | ContactNumberInput \<Rightarrow> f\<lparr>fm_contactNumber := v\<rparr>
      | LocationInput \<Rightarrow> f\<lparr>fm_location := v\<rparr> | TotalExperienceInput \<Rightarrow> f\<lparr>fm_totalExperience := v\<rparr>
      | DojInput \<Rightarrow> f\<lparr>fm_doj := v\<rparr> | PracticeInput \<Rightarrow> f\<lparr>fm_practice := v\<rparr>
      | ClientInput \<Rightarrow> f\<lparr>fm_client := v\<rparr> | ProjectInput \<Rightarrow> f\<lparr>fm_project := v\<rparr>
      | ProjectIdInput \<Rightarrow> f\<lparr>fm_projectId := v\<rparr> | ProjectManagerInput \<Rightarrow> f\<lparr>fm_projectManager := v\<rparr>
      | ReportingManagerInput \<Rightarrow> f\<lparr>fm_reportingManager := v\<rparr>
      | DeliveryHeadInput \<Rightarrow> f\<lparr>fm_deliveryHead := v\<rparr>
      | AssignmentStartDateInput \<Rightarrow> f\<lparr>fm_assignmentStartDate := v\<rparr>
      | AssignmentEndDateInput \<Rightarrow> f\<lparr>fm_assignmentEndDate := v\<rparr>)"

text \<open>\<open>/^[^\s@]+@[^\s@]+\.[^\s@]+$/.test(email)\<close>: exactly one \<open>@\<close>, no white space,
  something before the \<open>@\<close>, and after it a dot with something on both sides.\<close>

definition email_ok :: "string \<Rightarrow> bool" where
  "email_ok s \<longleftrightarrow>
     (case split_on CHR ''@'' s of
        [a, b] \<Rightarrow> a \<noteq> [] \<and> list_all (\<lambda>c. \<not> is_ws c) (a @ b) \<and> CHR ''.'' \<in> set (drop 1 (butlast b))
      | _ \<Rightarrow> False)"

definition REQUIRED_MSG :: string where
  "REQUIRED_MSG = ''Employee ID, Name, and Email are required.''"

definition EMAIL_MSG :: string where
  "EMAIL_MSG = ''Please enter a valid email address.''"

definition CATEGORY_MSG :: string where
  "CATEGORY_MSG = ''Please select a Non-Billable Status.''"

text \<open>\<open>text ? dateToNs(new Date(text)) : 0n\<close>; \<open>None\<close> when the text is not a date
  and \<open>BigInt(NaN)\<close> throws.\<close>

definition form_date :: "(string \<Rightarrow> int option) \<Rightarrow> string \<Rightarrow> time option" where
  "form_date dm s = (if s = [] then Some 0 else map_option dateToNs (dm s))"

datatype submit_result = FormInvalid string | SubmitThrows | SubmitResource resource

text \<open>\<open>handleSubmit\<close>: the three checks in order, then the resource, with the edited
  resource's identifier or the fresh one \<open>gid\<close>.\<close>

definition handleSubmit ::
  "(string \<Rightarrow> int option) \<Rightarrow> string \<Rightarrow> resource option \<Rightarrow> form_state \<Rightarrow> submit_result" where
  "handleSubmit dm gid init fs =
     (let f = form fs in
      if is_blank (fm_name f) \<or> is_blank (fm_email f) \<or> is_blank (fm_employeeId f) then FormInvalid REQUIRED_MSG
      else if \<not> email_ok (fm_email f) then FormInvalid EMAIL_MSG
      else if fm_billabilityStatus f = nonBillable \<and> fm_nonBillableStatus f = None then FormInvalid CATEGORY_MSG
      else case (form_date dm (fm_doj f), form_date dm (fm_assignmentStartDate f),
                 form_date dm (fm_assignmentEndDate f)) of
        (Some dj, Some sd, Some ed) \<Rightarrow>
          SubmitResource
           \<lparr>res_id = (case init of Some r \<Rightarrow> res_id r | None \<Rightarrow> gid), doj = dj, status = fm_status f,
            client = js_trim (fm_client f), assignmentStartDate = sd,
            totalExperience = js_trim (fm_totalExperience f), name = js_trim (fm_name f),
            role = js_trim (fm_role f),
            skillTags = ms_selected (primary_ms fs) @ ms_selected (secondary_ms fs),
            projectManager = js_trim (fm_projectManager f), deliveryHead = js_trim (fm_deliveryHead f),
            assignmentEndDate = ed, email = js_trim (fm_email f), employeeId = js_trim (fm_employeeId f),
            projectId = (let p = js_trim (fm_projectId f) in if p = [] then None else Some p),
            practice = js_trim (fm_practice f), primarySkills = ms_selected (primary_ms fs),
            billabilityStatus = fm_billabilityStatus f, contactNumber = js_trim (fm_contactNumber f),
            department = js_trim (fm_department f), secondarySkills = ms_selected (secondary_ms fs),
            location = js_trim (fm_location f),
            nonBillableStatus = (if fm_billabilityStatus f = nonBillable then fm_nonBillableStatus f else None),
            project = js_trim (fm_project f), reportingManager = js_trim (fm_reportingManager f)\<rparr>
      | _ \<Rightarrow> SubmitThrows)"

datatype skill_list = PrimarySkills | SecondarySkills

datatype form_event =
    TypeText text_field string | BillabilityChange BillabilityStatus | CategoryChange NonBillableStatus
  | StatusChange ResourceStatus | SkillsEvent skill_list ms_event | SubmitClick | CancelClick

text \<open>What a handler leaves: the open form, the form closed, or the resource handed
  to \<open>onSubmit\<close>; a throwing submit leaves the form open with no error shown.\<close>

datatype form_out = FormOpen form_state | FormClosed | FormSubmitted form_state resource

definition form_step ::
  "(string \<Rightarrow> int option) \<Rightarrow> string \<Rightarrow> resource option \<Rightarrow> form_event \<Rightarrow> form_state \<Rightarrow> form_out" where
  "form_step dm gid init ev fs =
     (case ev of
        TypeText fld v \<Rightarrow> FormOpen (fs\<lparr>form := set_text fld v (form fs)\<rparr>)
      | BillabilityChange v \<Rightarrow>
          FormOpen (fs\<lparr>form := (form fs)\<lparr>fm_billabilityStatus := v,
             fm_nonBillableStatus := (if v = billable then None else fm_nonBillableStatus (form fs))\<rparr>\<rparr>)
      | CategoryChange v \<Rightarrow>
          FormOpen (if fm_billabilityStatus (form fs) = nonBillable
                    then fs\<lparr>form := (form fs)\<lparr>fm_nonBillableStatus := Some (NB v)\<rparr>\<rparr> else fs)
      | StatusChange v \<Rightarrow> FormOpen (fs\<lparr>form := (form fs)\<lparr>fm_status := v\<rparr>\<rparr>)
      | SkillsEvent PrimarySkills e \<Rightarrow> FormOpen (fs\<lparr>primary_ms := ms_step SKILL_OPTIONS e (primary_ms fs)\<rparr>)
      | SkillsEvent SecondarySkills e \<Rightarrow> FormOpen (fs\<lparr>secondary_ms := ms_step SKILL_OPTIONS e (secondary_ms fs)\<rparr>)
      | SubmitClick \<Rightarrow>
          (case handleSubmit dm gid init fs of
             FormInvalid msg \<Rightarrow> FormOpen (fs\<lparr>form_error := msg\<rparr>)
           | SubmitThrows \<Rightarrow> FormOpen (fs\<lparr>form_error := []\<rparr>)
           | SubmitResource r \<Rightarrow> FormSubmitted (fs\<lparr>form_error := []\<rparr>) r)
      | CancelClick \<Rightarrow> FormClosed)"

text \<open>A resource the edit form gives back unchanged: its text fields trimmed, the three
  required ones present and the email well formed, no empty project identifier, a
  category exactly when non-billable, dates the form can print and read back (zero or
  a UTC midnight of a four-digit year), and the skill tags the two skill lists.\<close>

definition form_normal :: "resource \<Rightarrow> bool" where
  "form_normal r \<longleftrightarrow>
     employeeId r \<noteq> [] \<and> name r \<noteq> [] \<and> email_ok (email r) \<and>
     list_all (\<lambda>s. js_trim s = s)
       [employeeId r, name r, email r, contactNumber r, location r, client r, project r, projectManager r,
        reportingManager r, resource.deliveryHead r, totalExperience r, practice r, role r, department r] \<and>
     (case projectId r of None \<Rightarrow> True | Some p \<Rightarrow> p \<noteq> [] \<and> js_trim p = p) \<and>
     (if billabilityStatus r = nonBillable then nonBillableStatus r \<noteq> None else nonBillableStatus r = None) \<and>
     date_ok (\<lambda>_. 0) (doj r) \<and> date_ok (\<lambda>_. 0) (assignmentStartDate r) \<and>
     date_ok (\<lambda>_. 0) (assignmentEndDate r) \<and>
     skillTags r = primarySkills r @ secondarySkills r"

definition FORM_DEMO :: resource where
  "FORM_DEMO = DEMO_RESOURCE\<lparr>email := ''ann@x.io'', primarySkills := [''SQL''], skillTags := [''SQL'']\<rparr>"

section \<open>Properties of the form\<close>

lemma good_tags_addItem: "good_tags (ms_selected st) \<Longrightarrow> good_tags (ms_selected (addItem x st))"
  by (auto simp: good_tags_def addItem_def Let_def)

lemma good_tags_removeItem: "good_tags (ms_selected st) \<Longrightarrow> good_tags (ms_selected (removeItem x st))"
  by (auto simp: good_tags_def removeItem_def list_all_iff)

text \<open>The multi-select keeps its selection distinct, trimmed and free of empty tags
  whatever control is used, once it starts from such a selection.\<close>

lemma good_tags_ms_step: "good_tags (ms_selected st) \<Longrightarrow> good_tags (ms_selected (ms_step opts ev st))"
  by (cases ev) (simp_all add: ms_step_def handleAddCustom_def good_tags_addItem good_tags_removeItem)

lemma filteredOptions_unselected: "set (filteredOptions opts st) \<inter> set (ms_selected st) = {}"
  by (auto simp: filteredOptions_def)

lemma trimmed_not_blank: "s \<noteq> [] \<Longrightarrow> js_trim s = s \<Longrightarrow> \<not> is_blank s"
  by (cases s) (auto simp: is_blank_iff js_trim_id_iff)

lemma time_ms_nsToDate: "time_ms t = nsToDate t"
  by (simp add: time_ms_def nsToDate_def)

lemma formatDateInput_formatDate:
  assumes "date_ok (\<lambda>_. 0) t" and "t \<noteq> 0"
  shows "formatDateInput t = Some (formatDate (\<lambda>_. 0) t)"
proof -
  obtain y m d where c: "civil_of_day (local_day (\<lambda>_. 0) (time_ms t)) = (y, m, d)"
    by (cases "civil_of_day (local_day (\<lambda>_. 0) (time_ms t))") auto
  then have "y = YearFromDay (local_day (\<lambda>_. 0) (time_ms t))"
    using fst_civil_of_day [of "local_day (\<lambda>_. 0) (time_ms t)"] by simp
  then have b: "\<bar>time_ms t\<bar> \<le> 8640000000000000" "1000 \<le> y" "y \<le> 9999"
    using assms by (simp_all add: date_ok_def)
  have "iso_year y = int_str y"
    using b(2,3) length_nat_str_4 [of "nat y"] by (simp add: iso_year_def pad_to_def int_str_def)
  then show ?thesis
    using c b(1) assms(2)
    by (simp add: formatDateInput_def formatDate_def local_day_def time_ms_nsToDate iso_string_def Let_def)
qed

text \<open>A date the form can show survives it: printed into the date input and read
  back by \<open>new Date\<close>, it is the same time.\<close>

lemma form_date_input:
  assumes "reads_iso_dates dm" and "date_ok (\<lambda>_. 0) t"
  shows "\<exists>s. date_input t = Some s \<and> form_date dm s = Some t"
proof (cases "t = 0")
  case True
  then show ?thesis by (simp add: date_input_def form_date_def)
next
  case False
  obtain y m d where c: "civil_of_day (local_day (\<lambda>_. 0) (time_ms t)) = (y, m, d)"
    by (cases "civil_of_day (local_day (\<lambda>_. 0) (time_ms t))") auto
  then have "y = YearFromDay (local_day (\<lambda>_. 0) (time_ms t))"
    using fst_civil_of_day [of "local_day (\<lambda>_. 0) (time_ms t)"] by simp
  then have b: "\<bar>time_ms t\<bar> \<le> 8640000000000000" "1000 \<le> y" "y \<le> 9999"
    and t: "local_day (\<lambda>_. 0) (time_ms t) * msPerDay * 1000000 = t"
    using assms(2) False by (simp_all add: date_ok_def)
  have fmt: "formatDate (\<lambda>_. 0) t = iso_string y m d"
    using formatDate_iso [OF False b(1) c] .
  have "dm (iso_string y m d) = Some (local_day (\<lambda>_. 0) (time_ms t) * msPerDay)"
    using assms(1) iso_date_ms_civil [OF c b(2,3)] by (simp add: reads_iso_dates_def)
  then have "form_date dm (iso_string y m d) = Some t"
    using t by (simp add: form_date_def dateToNs_def iso_string_def)
  moreover have "date_input t = Some (iso_string y m d)"
    using formatDateInput_formatDate [OF assms(2) False] fmt False by (simp add: date_input_def)
  ultimately show ?thesis by blast
qed

lemma email_ok_Nil: "\<not> email_ok []"
  by (simp add: email_ok_def)

text \<open>C27:opening the edit form on a resource of the form's normal shape and saving
  without touching a control submits exactly that resource, identifier included:
  on such resources, editing loses nothing.\<close>

theorem edit_form_roundtrip:
  assumes dm: "reads_iso_dates dm" and n: "form_normal r"
  shows "\<exists>fs. open_form (Some r) = Some fs \<and> form_step dm gid (Some r) SubmitClick fs = FormSubmitted fs r"
proof -
  have d: "date_ok (\<lambda>_. 0) (doj r)" "date_ok (\<lambda>_. 0) (assignmentStartDate r)"
    "date_ok (\<lambda>_. 0) (assignmentEndDate r)"
    using n by (simp_all add: form_normal_def)
  obtain s1 where s1: "date_input (doj r) = Some s1" "form_date dm s1 = Some (doj r)"
    using form_date_input [OF dm d(1)] by blast
  obtain s2 where s2: "date_input (assignmentStartDate r) = Some s2" "form_date dm s2 = Some (assignmentStartDate r)"
    using form_date_input [OF dm d(2)] by blast
  obtain s3 where s3: "date_input (assignmentEndDate r) = Some s3" "form_date dm s3 = Some (assignmentEndDate r)"
    using form_date_input [OF dm d(3)] by blast
  obtain F where F: "load_fields r = Some F"
    using s1(1) s2(1) s3(1) by (simp add: load_fields_def)
  define fs where "fs = \<lparr>form = F, form_error = [], primary_ms = ms_reset (primarySkills r) init_ms,
                         secondary_ms = ms_reset (secondarySkills r) init_ms\<rparr>"
  have o: "open_form (Some r) = Some fs" using F by (simp add: open_form_def fs_def)
  have e: "email r \<noteq> []"
    using n email_ok_Nil by (auto simp: form_normal_def)
  have nb: "\<not> is_blank (employeeId r)" "\<not> is_blank (name r)" "\<not> is_blank (email r)"
    using n e trimmed_not_blank by (simp_all add: form_normal_def)
  have "handleSubmit dm gid (Some r) fs = SubmitResource r"
    using F s1 s2 s3 n nb
    by (cases "billabilityStatus r"; cases "projectId r")
       (auto simp: handleSubmit_def load_fields_def fs_def form_normal_def ms_reset_def Let_def
             intro!: resource.equality)
  then show ?thesis using o by (simp add: form_step_def fs_def)
qed

theorem edit_form_roundtrip_witness:
  "reads_iso_dates iso_date_ms \<and> form_normal FORM_DEMO \<and>
   (\<exists>fs. open_form (Some FORM_DEMO) = Some fs \<and>
         form_step iso_date_ms ''fresh'' (Some FORM_DEMO) SubmitClick fs = FormSubmitted fs FORM_DEMO)"
proof -
  have dm: "reads_iso_dates iso_date_ms" by (simp add: reads_iso_dates_def)
  have n: "form_normal FORM_DEMO"
    by (simp add: form_normal_def FORM_DEMO_def DEMO_RESOURCE_def email_ok_def date_ok_def js_eval)
  show ?thesis using edit_form_roundtrip [OF dm n] dm n by blast
qed

end
