(* ===== verification/ProjectForm.thy ===== *)
theory ProjectForm
  imports ProjectViews ResourceForm "HOL-Library.While_Combinator"
begin

text \<open>
  The project form, \<open>src/frontend/src/components/ProjectFormModal.tsx\<close>, and the
  projects page, \<open>src/frontend/src/pages/ProjectsPage.tsx\<close>.

  The form keeps the budget as text: it loads \<open>String(Number(budget))\<close> and saves
  \<open>BigInt(parseInt(text) || 0)\<close>. \<open>js_toString\<close> is ECMAScript's
  \<open>Number::toString\<close> on an integral double: the shortest digit string that reads
  back as the same double, found by a search over the number of digits
  (\<open>while_option\<close>); \<open>js_parseInt\<close> is \<open>parseInt\<close> without a radix, reading the
  longest prefix of digits (hexadecimal after \<open>0x\<close>) as an exact integer, which
  \<open>Number\<close> then rounds to a double.
\<close>

section \<open>Numbers as text\<close>

text \<open>The candidates \<open>(s, e)\<close> with \<open>k\<close> digits for the double \<open>x > 0\<close>:
  \<open>10^(k-1) \<le> s < 10^k\<close>, \<open>s * 10^e\<close> near \<open>x\<close> (its exponent \<open>n = e + k\<close>
  within one of the number of digits \<open>d\<close> of \<open>x\<close>), and reading back as \<open>x\<close>.\<close>

definition num_cands :: "nat \<Rightarrow> nat \<Rightarrow> (nat \<times> nat) list" where
  "num_cands x k =
     (let d = length (nat_str x)
      in filter (\<lambda>(s, e). 10 ^ (k - 1) \<le> s \<and> s < 10 ^ k \<and> round_double (s * 10 ^ e) = x)
           (concat (map (\<lambda>n. if k \<le> n then [(x div 10 ^ (n - k), n - k), (x div 10 ^ (n - k) + 1, n - k)]
                              else [])
                     [d - 1, d, d + 1])))"

text \<open>The least number of digits with a candidate: the loop the specification
  describes as "\<open>k\<close> as small as possible".\<close>

definition min_digits :: "nat \<Rightarrow> nat option" where
  "min_digits x = while_option (\<lambda>k. num_cands x k = []) Suc 1"

text \<open>Among the candidates, the one closest to \<open>x\<close>; of two, the even one.\<close>

definition closer :: "nat \<Rightarrow> nat \<times> nat \<Rightarrow> nat \<times> nat \<Rightarrow> nat \<times> nat" where
  "closer x c c' =
     (let dist = (\<lambda>(s, e). \<bar>int (s * 10 ^ e) - int x\<bar>)
      in if dist c' < dist c \<or> (dist c' = dist c \<and> even (fst c') \<and> odd (fst c)) then c' else c)"

definition num_repr :: "nat \<Rightarrow> (nat \<times> nat \<times> nat) option" where
  "num_repr x =
     (case min_digits x of
        None \<Rightarrow> None
      | Some k \<Rightarrow> (case num_cands x k of
                     [] \<Rightarrow> None
                   | c # cs \<Rightarrow> (case fold (\<lambda>c' c. closer x c c') cs c of (s, e) \<Rightarrow> Some (s, e, k))))"

text \<open>\<open>Number::toString\<close> of an integral double: the digits of \<open>s\<close> and \<open>n - k\<close>
  zeros when \<open>n \<le> 21\<close>, else the exponential form \<open>d.ddde+(n-1)\<close>.\<close>

definition js_toString :: "int \<Rightarrow> string" where
  "js_toString v =
     (if v = 0 then ''0''
      else (if v < 0 then ''-'' else []) @
           (case num_repr (nat \<bar>v\<bar>) of
              None \<Rightarrow> []
            | Some (s, e, k) \<Rightarrow>
                let ds = nat_str s; n = e + k
                in if n \<le> 21 then ds @ replicate e (CHR ''0'')
                   else take 1 ds @ (if k = 1 then [] else CHR ''.'' # drop 1 ds) @ ''e+'' @ nat_str (n - 1)))"

text \<open>The value of a digit in radix 16 or 10.\<close>

definition digit_of :: "nat \<Rightarrow> char \<Rightarrow> nat option" where
  "digit_of radix c =
     (let n = of_char c :: nat
      in if 48 \<le> n \<and> n \<le> 57 then Some (n - 48)
         else if radix = 16 \<and> 97 \<le> n \<and> n \<le> 102 then Some (n - 87)
         else if radix = 16 \<and> 65 \<le> n \<and> n \<le> 70 then Some (n - 55)
         else None)"

definition radix_val :: "nat \<Rightarrow> string \<Rightarrow> nat" where
  "radix_val radix ds = foldl (\<lambda>v c. radix * v + the (digit_of radix c)) 0 ds"

text \<open>\<open>parseInt(text)\<close>: leading white space skipped, a sign, \<open>0x\<close> or \<open>0X\<close> for
  radix 16, then the longest run of digits, \<open>None\<close> (NaN) when there is none; the
  exact integer, before \<open>Number\<close> rounds it.\<close>

definition js_parseInt :: "string \<Rightarrow> int option" where
  "js_parseInt str =
     (let s1 = dropWhile is_ws str;
          (sg, s2) = (case s1 of c # r \<Rightarrow> if c = CHR ''-'' then (-1, r) else if c = CHR ''+'' then (1, r) else (1, s1)
                              | [] \<Rightarrow> (1, s1));
          (radix, s3) = (if take 2 s2 = ''0x'' \<or> take 2 s2 = ''0X'' then (16, drop 2 s2) else (10, s2));
          ds = takeWhile (\<lambda>c. digit_of radix c \<noteq> None) s3
      in if ds = [] then None else Some (sg * int (radix_val radix ds)))"

text \<open>\<open>BigInt(parseInt(text) || 0)\<close>: NaN and zero give 0; a value that rounds to
  Infinity (from \<open>2^1024 - 2^970\<close> up) makes \<open>BigInt\<close> throw (\<open>None\<close>).\<close>

definition budget_of_text :: "string \<Rightarrow> int option" where
  "budget_of_text str =
     (case js_parseInt str of
        None \<Rightarrow> Some 0
      | Some v \<Rightarrow> if 2 ^ 1024 - 2 ^ 970 \<le> \<bar>v\<bar> then None else Some (js_Number v))"

text \<open>\<open>parseInt\<close> reads a run of decimal digits up to the first character that
  is not a digit (and not the \<open>x\<close> of a hexadecimal prefix).\<close>

definition digits_end :: "string \<Rightarrow> bool" where
  "digits_end rest \<longleftrightarrow> (case rest of [] \<Rightarrow> True | c # _ \<Rightarrow> \<not> is_digit c \<and> c \<noteq> CHR ''x'' \<and> c \<noteq> CHR ''X'')"

section \<open>The project form\<close>

text \<open>\<open>const today = new Date().toISOString().split('T')[0]\<close>, evaluated once when
  the module loads, at the clock reading \<open>now\<close> (milliseconds): the UTC date.\<close>

definition today :: "int \<Rightarrow> string" where
  "today now = (case formatDateInput (dateToNs now) of Some s \<Rightarrow> s | None \<Rightarrow> [])"

text \<open>The \<open>form\<close> state of \<open>ProjectFormModal\<close>; the budget is the text of its
  number input.\<close>

record pform_fields =
  pf_name :: string
  pf_description :: string
  pf_status :: ProjectStatus
  pf_startDate :: string
  pf_endDate :: string
  pf_budget :: string
  pf_managerName :: string
  pf_assignedResourceIds :: "string list"

record pform_state =
  pform :: pform_fields
  pform_error :: string

definition pform_empty :: "int \<Rightarrow> pform_fields" where
  "pform_empty now =
     \<lparr>pf_name = [], pf_description = [], pf_status = ps_planning, pf_startDate = today now,
      pf_endDate = today now, pf_budget = ''0'', pf_managerName = [], pf_assignedResourceIds = []\<rparr>"

text \<open>The \<open>useEffect\<close> on \<open>[initialData, open]\<close>: the project's fields, its dates
  through \<open>formatDateInput\<close> (which throws, \<open>None\<close>, outside the range of
  \<open>Date\<close>), its budget as \<open>String(Number(budget))\<close>; then no error.\<close>

definition pform_load :: "Project \<Rightarrow> pform_fields option" where
  "pform_load p =
     (case (formatDateInput (startDate p), formatDateInput (endDate p)) of
        (Some sd, Some ed) \<Rightarrow>
          Some \<lparr>pf_name = project_name p, pf_description = project_description p,
                pf_status = project_status p, pf_startDate = sd, pf_endDate = ed,
                pf_budget = js_toString (js_Number (budget p)), pf_managerName = managerName p,
                pf_assignedResourceIds = assignedResourceIds p\<rparr>
      | _ \<Rightarrow> None)"

definition open_pform :: "int \<Rightarrow> Project option \<Rightarrow> pform_state option" where
  "open_pform now init =
     (case init of
        None \<Rightarrow> Some \<lparr>pform = pform_empty now, pform_error = []\<rparr>
      | Some p \<Rightarrow> map_option (\<lambda>f. \<lparr>pform = f, pform_error = []\<rparr>) (pform_load p))"

text \<open>\<open>toggleResource(id)\<close>: removes every copy of \<open>id\<close> when it is there,
  appends it otherwise.\<close>

definition toggleResource :: "string \<Rightarrow> string list \<Rightarrow> string list" where
  "toggleResource i ids = (if i \<in> set ids then filter (\<lambda>r. r \<noteq> i) ids else ids @ [i])"

definition PROJECT_REQUIRED_MSG :: string where
  "PROJECT_REQUIRED_MSG = ''Name and Manager are required.''"

datatype psubmit_result = PInvalid string | PSubmitThrows | PSubmitProject Project

text \<open>\<open>handleSubmit\<close>: the required-fields check; then \<open>setError('')\<close> and the
  project, each date \<open>dateToNs(new Date(text))\<close> (an invalid or empty text makes
  \<open>BigInt(NaN)\<close> throw), the budget through \<open>budget_of_text\<close>, the identifier and
  milestones of the edited project, or \<open>gid\<close> and none.\<close>

definition pform_submit ::
  "(string \<Rightarrow> int option) \<Rightarrow> string \<Rightarrow> Project option \<Rightarrow> pform_fields \<Rightarrow> psubmit_result" where
  "pform_submit dm gid init f =
     (if is_blank (pf_name f) \<or> is_blank (pf_managerName f) then PInvalid PROJECT_REQUIRED_MSG
      else case (map_option dateToNs (dm (pf_startDate f)), map_option dateToNs (dm (pf_endDate f)),
                 budget_of_text (pf_budget f)) of
        (Some sd, Some ed, Some b) \<Rightarrow>
          PSubmitProject
           \<lparr>project_id = (case init of Some p \<Rightarrow> project_id p | None \<Rightarrow> gid),
            project_status = pf_status f, assignedResourceIds = pf_assignedResourceIds f, endDate = ed,
            project_name = js_trim (pf_name f), project_description = js_trim (pf_description f),
            budget = b, startDate = sd, milestones = (case init of Some p \<Rightarrow> milestones p | None \<Rightarrow> []),
            managerName = js_trim (pf_managerName f)\<rparr>
      | _ \<Rightarrow> PSubmitThrows)"

datatype ptext_field = PNameInput | PDescriptionInput | PManagerInput | PStartInput | PEndInput | PBudgetInput

definition set_ptext :: "ptext_field \<Rightarrow> string \<Rightarrow> pform_fields \<Rightarrow> pform_fields" where
  "set_ptext fld v f =
     (case fld of
        PNameInput \<Rightarrow> f\<lparr>pf_name := v\<rparr> | PDescriptionInput \<Rightarrow> f\<lparr>pf_description := v\<rparr>
      | PManagerInput \<Rightarrow> f\<lparr>pf_managerName := v\<rparr> | PStartInput \<Rightarrow> f\<lparr>pf_startDate := v\<rparr>
      | PEndInput \<Rightarrow> f\<lparr>pf_endDate := v\<rparr> | PBudgetInput \<Rightarrow> f\<lparr>pf_budget := v\<rparr>)"

datatype pform_event =
    PTypeText ptext_field string | PStatusSelect ProjectStatus | PResourceCheck string
  | PSubmitClick | PCancelClick | PDismiss

datatype pform_out = PFormOpen pform_state | PFormClosed | PFormSubmitted pform_state Project

text \<open>The form's controls: a resource's checkbox is rendered for each resource of
  \<open>rs\<close>; Cancel and Submit are disabled while a mutation is pending
  (\<open>loading\<close>); closing the dialog (\<open>onOpenChange\<close>) is not.\<close>

definition pform_step ::
  "(string \<Rightarrow> int option) \<Rightarrow> string \<Rightarrow> resource list \<Rightarrow> bool \<Rightarrow> Project option \<Rightarrow> pform_event \<Rightarrow>
   pform_state \<Rightarrow> pform_out" where
  "pform_step dm gid rs loading init ev fs =
     (case ev of
        PTypeText fld v \<Rightarrow> PFormOpen (fs\<lparr>pform := set_ptext fld v (pform fs)\<rparr>)
      | PStatusSelect v \<Rightarrow> PFormOpen (fs\<lparr>pform := (pform fs)\<lparr>pf_status := v\<rparr>\<rparr>)
      | PResourceCheck i \<Rightarrow>
          PFormOpen (if i \<in> res_id ` set rs
                     then fs\<lparr>pform := (pform fs)\<lparr>pf_assignedResourceIds :=
                               toggleResource i (pf_assignedResourceIds (pform fs))\<rparr>\<rparr>
                     else fs)
      | PSubmitClick \<Rightarrow>
          (if loading then PFormOpen fs
           else case pform_submit dm gid init (pform fs) of
                  PInvalid msg \<Rightarrow> PFormOpen (fs\<lparr>pform_error := msg\<rparr>)
                | PSubmitThrows \<Rightarrow> PFormOpen (fs\<lparr>pform_error := []\<rparr>)
                | PSubmitProject p \<Rightarrow> PFormSubmitted (fs\<lparr>pform_error := []\<rparr>) p)
      | PCancelClick \<Rightarrow> (if loading then PFormOpen fs else PFormClosed)
      | PDismiss \<Rightarrow> PFormClosed)"

text \<open>A project the edit form gives back unchanged: name and manager trimmed and
  present, description trimmed, dates the form prints and reads back (UTC
  midnights of four-digit years), a budget below \<open>2^53\<close>.\<close>

definition project_normal :: "Project \<Rightarrow> bool" where
  "project_normal p \<longleftrightarrow>
     project_name p \<noteq> [] \<and> js_trim (project_name p) = project_name p \<and>
     managerName p \<noteq> [] \<and> js_trim (managerName p) = managerName p \<and>
     js_trim (project_description p) = project_description p \<and>
     date_ok (\<lambda>_. 0) (startDate p) \<and> startDate p \<noteq> 0 \<and> date_ok (\<lambda>_. 0) (endDate p) \<and> endDate p \<noteq> 0 \<and>
     \<bar>budget p\<bar> < 2 ^ 53"

section \<open>The projects page\<close>

text \<open>\<open>ProjectsPage\<close>'s four \<open>useState\<close> hooks.\<close>

record projects_page =
  pp_showFormModal :: bool
  pp_editingProject :: "Project option"
  pp_viewingProject :: "Project option"
  pp_deletingProjectId :: "string option"

definition init_projects_page :: projects_page where
  "init_projects_page =
     \<lparr>pp_showFormModal = False, pp_editingProject = None, pp_viewingProject = None,
      pp_deletingProjectId = None\<rparr>"

text \<open>\<open>projects ?? []\<close>: the board's projects, none until the actor is ready.\<close>

definition page_projects :: "bool \<Rightarrow> backend \<Rightarrow> Project list" where
  "page_projects ready b = (case useProjects ready None b of None \<Rightarrow> [] | Some ps \<Rightarrow> ps)"

text \<open>The page's controls: the New Project button, a card and its edit and delete
  buttons (rendered for every card: \<open>noopEdit\<close> and \<open>noopDelete\<close> are functions,
  so \<open>onEdit || onDelete\<close> always holds), the form's callbacks, the detail modal's
  close, edit, delete and milestone checkboxes, and the delete dialog.\<close>

datatype projects_event =
    NewProjectClick | CardClick Project | CardEditClick Project | CardDeleteClick string
  | ProjectFormClose | ProjectFormSubmit Project | DetailClose | DetailEditClick | DetailDeleteClick
  | MilestoneCheck string string | ConfirmDeleteProject | DeleteDialogChange

text \<open>One handler. \<open>handleFormSubmit\<close> awaits \<open>useUpdateProject\<close> when a project is
  being edited and \<open>useAddProject\<close> otherwise; a rejected call leaves the form open.
  The detail modal's delete button calls \<open>handleDelete\<close> then \<open>onClose\<close>; its edit
  button calls \<open>handleEdit\<close> and leaves the detail open; its milestone checkboxes
  call an empty function; \<open>confirmDelete\<close> only closes the dialog.\<close>

definition projects_step ::
  "page_perms \<Rightarrow> bool \<Rightarrow> call_env \<Rightarrow> projects_event \<Rightarrow> projects_page \<times> backend \<Rightarrow>
   (projects_page \<times> backend) \<times> page_output" where
  "projects_step perms ready env ev s =
     (case s of (st, b) \<Rightarrow>
      let ps = page_projects ready b in
      (case ev of
         NewProjectClick \<Rightarrow> ((if canCreate perms then st\<lparr>pp_showFormModal := True\<rparr> else st, b), NoOutput)
       | CardClick p \<Rightarrow> ((if p \<in> set ps then st\<lparr>pp_viewingProject := Some p\<rparr> else st, b), NoOutput)
       | CardEditClick p \<Rightarrow>
           ((if p \<in> set ps \<and> canEdit perms then st\<lparr>pp_editingProject := Some p, pp_showFormModal := True\<rparr>
             else st, b), NoOutput)
       | CardDeleteClick i \<Rightarrow>
           ((if i \<in> project_id ` set ps \<and> canDelete perms then st\<lparr>pp_deletingProjectId := Some i\<rparr> else st, b),
            NoOutput)
       | ProjectFormClose \<Rightarrow> ((st\<lparr>pp_showFormModal := False, pp_editingProject := None\<rparr>, b), NoOutput)
       | ProjectFormSubmit p \<Rightarrow>
           (if \<not> pp_showFormModal st then ((st, b), NoOutput)
            else case run_mutation env (case pp_editingProject st of Some _ \<Rightarrow> UpdateProject (project_id p) p
                                                               | None \<Rightarrow> AddProject p) b of
                   Inl e \<Rightarrow> ((st, b), SubmitFailed e)
                 | Inr b' \<Rightarrow> ((st\<lparr>pp_showFormModal := False, pp_editingProject := None\<rparr>, b'), NoOutput))
       | DetailClose \<Rightarrow> ((st\<lparr>pp_viewingProject := None\<rparr>, b), NoOutput)
       | DetailEditClick \<Rightarrow>
           ((case pp_viewingProject st of
               Some p \<Rightarrow> if canEdit perms then st\<lparr>pp_editingProject := Some p, pp_showFormModal := True\<rparr> else st
             | None \<Rightarrow> st, b), NoOutput)
       | DetailDeleteClick \<Rightarrow>
           ((case pp_viewingProject st of
               Some p \<Rightarrow> if canDelete perms
                         then st\<lparr>pp_deletingProjectId := Some (project_id p), pp_viewingProject := None\<rparr> else st
             | None \<Rightarrow> st, b), NoOutput)
       | MilestoneCheck _ _ \<Rightarrow> ((st, b), NoOutput)
       | ConfirmDeleteProject \<Rightarrow> ((st\<lparr>pp_deletingProjectId := None\<rparr>, b), NoOutput)
       | DeleteDialogChange \<Rightarrow> ((st\<lparr>pp_deletingProjectId := None\<rparr>, b), NoOutput)))"

text \<open>The sessions of the page from a backend \<open>b0\<close>: any sequence of its events,
  each call made in any network environment.\<close>

inductive projects_reach :: "page_perms \<Rightarrow> bool \<Rightarrow> backend \<Rightarrow> projects_page \<times> backend \<Rightarrow> bool"
  for perms ready b0 where
  start: "projects_reach perms ready b0 (init_projects_page, b0)"
| step: "projects_reach perms ready b0 s \<Longrightarrow> projects_step perms ready env ev s = (s', out) \<Longrightarrow>
         projects_reach perms ready b0 s'"

text \<open>A project to run the form on: one day, 2024-03-06, as start and end.\<close>

definition PROJECT_DEMO :: Project where
  "PROJECT_DEMO =
     \<lparr>project_id = ''p1'', project_status = ps_active, assignedResourceIds = [''r1''],
      endDate = 19788 * msPerDay * 1000000, project_name = ''Website'', project_description = [],
      budget = 1500, startDate = 19788 * msPerDay * 1000000, milestones = [], managerName = ''Kim''\<rparr>"

definition PROJECTS_START :: backend where
  "PROJECTS_START = EMPTY_BACKEND\<lparr>stored_projects := [PROJECT_DEMO]\<rparr>"

section \<open>Properties of numbers as text\<close>

lemma nat_str_length_bounds:
  "0 < n \<Longrightarrow> 10 ^ (length (nat_str n) - 1) \<le> n \<and> n < 10 ^ length (nat_str n)"
proof (induction n rule: nat_str.induct)
  case (1 n)
  show ?case
  proof (cases "n < 10")
    case True
    then show ?thesis using 1(2) by (simp add: nat_str_less10)
  next
    case False
    let ?L = "length (nat_str (n div 10))"
    have ih: "10 ^ (?L - 1) \<le> n div 10 \<and> n div 10 < 10 ^ ?L" using 1 False by simp
    have L: "0 < ?L" using ih by (cases ?L) auto
    have d: "n div 10 * 10 + n mod 10 = n" by (rule div_mult_mod_eq)
    have lo: "10 ^ ?L \<le> n"
    proof -
      have "10 ^ ?L = 10 * 10 ^ (?L - 1)" using L by (cases ?L) simp_all
      also have "\<dots> \<le> 10 * (n div 10)" using ih by simp
      also have "\<dots> \<le> n" using d by linarith
      finally show ?thesis .
    qed
    have hi: "n < 10 ^ Suc ?L"
    proof -
      have "n div 10 + 1 \<le> 10 ^ ?L" using ih by simp
      then have "10 * (n div 10) + 10 \<le> 10 ^ Suc ?L" by simp
      moreover have "n mod 10 < 10" by simp
      ultimately show ?thesis using d by linarith
    qed
    have "10 ^ ?L \<le> n \<and> n < 10 ^ Suc ?L" using lo hi by simp
    then show ?thesis using False L by (simp add: nat_str_ge10)
  qed
qed

lemma bitlen_ge: "0 < n \<Longrightarrow> 2 ^ (bitlen n - 1) \<le> n"
proof (induction n rule: bitlen.induct)
  case (1 n)
  show ?case
  proof (cases "n div 2 = 0")
    case True
    then show ?thesis using 1(2) by (simp add: bitlen.simps [of n] bitlen.simps [of 0])
  next
    case False
    then have ih: "2 ^ (bitlen (n div 2) - 1) \<le> n div 2" using 1 by simp
    obtain j where j: "bitlen (n div 2) = Suc j" using False by (simp add: bitlen.simps [of "n div 2"])
    have "n div 2 * 2 + n mod 2 = n" by (rule div_mult_mod_eq)
    then have "2 * (n div 2) \<le> n" by linarith
    then have "2 ^ bitlen (n div 2) \<le> n" using ih j by simp
    then show ?thesis using 1(2) by (simp add: bitlen.simps [of n])
  qed
qed

lemma round_double_small: "n < 2 ^ 53 \<Longrightarrow> round_double n = n"
  using bitlen_le_pow [of n 53] by (simp add: round_double_def)

lemma round_double_big:
  assumes "2 ^ 53 \<le> n"
  shows "2 ^ 53 \<le> round_double n"
proof -
  have "n < 2 ^ bitlen n" by (rule bitlen_less)
  have b: "54 \<le> bitlen n"
  proof (rule ccontr)
    assume "\<not> 54 \<le> bitlen n"
    then have "(2::nat) ^ bitlen n \<le> 2 ^ 53" by (intro power_increasing) simp_all
    then show False using \<open>n < 2 ^ bitlen n\<close> assms by linarith
  qed
  define e where "e = bitlen n - 53"
  have "bitlen n - 1 = 52 + e" using b by (simp add: e_def)
  then have pw: "(2::nat) ^ (bitlen n - 1) = 2 ^ 52 * 2 ^ e" by (simp add: power_add)
  have "2 ^ (bitlen n - 1) div 2 ^ e \<le> n div 2 ^ e"
    using bitlen_ge [of n] assms by (intro div_le_mono) simp_all
  then have "2 ^ 52 \<le> n div 2 ^ e" using pw by simp
  then have "2 ^ 52 * 2 ^ e \<le> n div 2 ^ e * 2 ^ e" by simp
  moreover have "n div 2 ^ e * 2 ^ e \<le> round_double n"
    using b by (simp add: round_double_def Let_def e_def)
  moreover have "(2::nat) ^ 53 \<le> 2 ^ 52 * 2 ^ e"
  proof -
    have "(2::nat) ^ 1 \<le> 2 ^ e" using b by (intro power_increasing) (simp_all add: e_def)
    then show ?thesis by simp
  qed
  ultimately show ?thesis by linarith
qed

lemma num_cands_self:
  assumes "0 < x" "round_double x = x"
  shows "(x, 0) \<in> set (num_cands x (length (nat_str x)))"
proof -
  let ?d = "length (nat_str x)"
  have "10 ^ (?d - 1) \<le> x \<and> x < 10 ^ ?d" using nat_str_length_bounds assms(1) by blast
  then show ?thesis using assms(2) by (auto simp: num_cands_def Let_def)
qed

lemma pow10_digits_unique:
  fixes s :: nat
  assumes "10 ^ (a - 1) \<le> s" "s < 10 ^ a" "10 ^ (b - 1) \<le> s" "s < 10 ^ b" "1 \<le> a" "1 \<le> b"
  shows "a = b"
proof (rule ccontr)
  have lt: "a < b \<Longrightarrow> False" if "10 ^ (a - 1) \<le> s" "s < 10 ^ a" "10 ^ (b - 1) \<le> s" "s < 10 ^ b" for a b
  proof -
    assume "a < b"
    then have "(10::nat) ^ a \<le> 10 ^ (b - 1)" by (intro power_increasing) simp_all
    then show False using that by linarith
  qed
  assume "a \<noteq> b"
  then show False using lt [of a b] lt [of b a] assms by linarith
qed

lemma cand_exact:
  assumes "x < 2 ^ 53" "(s, e) \<in> set (num_cands x k)"
  shows "s * 10 ^ e = x \<and> 10 ^ (k - 1) \<le> s \<and> s < 10 ^ k"
proof -
  have c: "round_double (s * 10 ^ e) = x" "10 ^ (k - 1) \<le> s" "s < 10 ^ k"
    using assms(2) by (auto simp: num_cands_def Let_def)
  have "s * 10 ^ e < 2 ^ 53"
  proof (rule ccontr)
    assume "\<not> s * 10 ^ e < 2 ^ 53"
    then have "2 ^ 53 \<le> round_double (s * 10 ^ e)" by (intro round_double_big) simp
    then show False using c(1) assms(1) by simp
  qed
  then show ?thesis using c round_double_small by simp
qed

lemma closer_cases: "closer x c c' = c \<or> closer x c c' = c'"
  by (simp add: closer_def Let_def)

lemma fold_closer_mem: "fold (\<lambda>c' c. closer x c c') cs c \<in> insert c (set cs)"
proof (induction cs arbitrary: c)
  case (Cons c' cs)
  show ?case using Cons [of "closer x c c'"] closer_cases [of x c c'] by fastforce
qed simp

lemma nat_str_length_pos: "0 < n \<Longrightarrow> 1 \<le> length (nat_str n)"
  using nat_str_length_bounds [of n] by (cases "length (nat_str n)") simp_all

lemma min_digits_Some:
  assumes "0 < x" "round_double x = x"
  shows "\<exists>k. min_digits x = Some k \<and> 1 \<le> k \<and> k \<le> length (nat_str x) \<and> num_cands x k \<noteq> [] \<and>
             (\<forall>j. 1 \<le> j \<and> j < k \<longrightarrow> num_cands x j = [])"
proof -
  define d where "d = length (nat_str x)"
  define P where "P = (\<lambda>k. 1 \<le> k \<and> k \<le> d \<and> (\<forall>j. 1 \<le> j \<and> j < k \<longrightarrow> num_cands x j = []))"
  have nd: "num_cands x d \<noteq> []" using num_cands_self [OF assms] by (auto simp: d_def)
  have step: "P (Suc k) \<and> d - Suc k < d - k" if "P k" "num_cands x k = []" for k
  proof -
    have "k < d" using that nd by (cases "k = d") (simp_all add: P_def)
    then show ?thesis using that by (auto simp: P_def less_Suc_eq)
  qed
  have P1: "P 1" using nat_str_length_pos [OF assms(1)] by (simp add: P_def d_def)
  obtain t where t: "while_option (\<lambda>k. num_cands x k = []) Suc 1 = Some t"
    using measure_while_option_Some [of P "\<lambda>k. num_cands x k = []" Suc "\<lambda>k. d - k" 1] step P1 by blast
  have "P t" using while_option_rule [of P "\<lambda>k. num_cands x k = []" Suc 1 t] step P1 t by blast
  moreover have "num_cands x t \<noteq> []" using while_option_stop [OF t] by simp
  ultimately show ?thesis using t by (simp add: min_digits_def P_def d_def)
qed

lemma num_repr_exact:
  assumes "0 < x" "x < 2 ^ 53"
  shows "\<exists>s e k. num_repr x = Some (s, e, k) \<and> s * 10 ^ e = x \<and> length (nat_str s) = k \<and>
                10 ^ (k - 1) \<le> s \<and> 1 \<le> k"
proof -
  have rx: "round_double x = x" using assms(2) by (rule round_double_small)
  obtain k where k: "min_digits x = Some k" "num_cands x k \<noteq> []" "1 \<le> k"
    using min_digits_Some [OF assms(1) rx] by blast
  obtain c cs where ccs: "num_cands x k = c # cs" using k(2) by (cases "num_cands x k") auto
  obtain s e where se: "fold (\<lambda>c' c. closer x c c') cs c = (s, e)" by (cases "fold (\<lambda>c' c. closer x c c') cs c")
  have "(s, e) \<in> set (num_cands x k)" using fold_closer_mem [of x cs c] se ccs by simp
  then have ex: "s * 10 ^ e = x" "10 ^ (k - 1) \<le> s" "s < 10 ^ k" using cand_exact assms(2) by blast+
  have "0 < s" using ex(2) by (metis le_zero_eq not_gr0 power_not_zero zero_neq_numeral)
  then have "length (nat_str s) = k"
    using nat_str_length_bounds [of s] nat_str_length_pos [of s] ex k(3) pow10_digits_unique by blast
  then show ?thesis using k ccs se ex by (simp add: num_repr_def)
qed

lemma radix_val_10:
  "list_all is_digit ds \<Longrightarrow>
   foldl (\<lambda>v c. 10 * v + the (digit_of 10 c)) a ds = foldl (\<lambda>n c. 10 * n + (of_char c - 48)) a ds"
  by (induction ds arbitrary: a) (simp_all add: digit_of_def is_digit_def)

lemma digits_val_zeros: "digits_val (ds @ replicate e (CHR ''0'')) = digits_val ds * 10 ^ e"
proof -
  have "foldl (\<lambda>n c. 10 * n + (of_char c - 48)) a (replicate e (CHR ''0'')) = a * 10 ^ e" for a :: nat
    by (induction e arbitrary: a) simp_all
  then show ?thesis by (simp add: digits_val_def)
qed

lemma digit_not_ws: "is_digit c \<Longrightarrow> \<not> is_ws c"
  by (simp add: is_digit_def is_ws_def)

lemma digits_not_hex_prefix: "list_all is_digit ds \<Longrightarrow> take 2 ds \<noteq> ''0x'' \<and> take 2 ds \<noteq> ''0X''"
proof -
  assume d: "list_all is_digit ds"
  have dg: "c \<in> set (take 2 ds) \<Longrightarrow> is_digit c" for c using d set_take_subset [of 2 ds] by (auto simp: list_all_iff)
  have "\<not> is_digit CHR ''x''" "\<not> is_digit CHR ''X''" by (simp_all add: is_digit_def)
  then show ?thesis using dg [of "CHR ''x''"] dg [of "CHR ''X''"] by auto
qed

lemma js_parseInt_prefix:
  assumes "list_all is_digit ds" "ds \<noteq> []" "digits_end rest"
  shows "js_parseInt (ds @ rest) = Some (int (digits_val ds)) \<and>
         js_parseInt (CHR ''-'' # ds @ rest) = Some (- int (digits_val ds))"
proof -
  obtain c ds' where cr: "ds = c # ds'" using assms(2) by (cases ds) auto
  have c: "is_digit c" "c \<noteq> CHR ''-''" "c \<noteq> CHR ''+''" using assms(1) cr by (auto simp: is_digit_def)
  have dg: "\<forall>x\<in>set ds. \<exists>y. digit_of 10 x = Some y"
    using assms(1) by (simp add: list_all_iff digit_of_def is_digit_def)
  have "takeWhile (\<lambda>c. \<exists>y. digit_of 10 c = Some y) rest = []"
    using assms(3) by (cases rest) (auto simp: digits_end_def digit_of_def is_digit_def)
  then have tw: "takeWhile (\<lambda>c. \<exists>y. digit_of 10 c = Some y) (ds @ rest) = ds"
    using dg by (simp add: takeWhile_append2 del: takeWhile_eq_all_conv)
  have hx: "take 2 (ds @ rest) \<noteq> ''0x'' \<and> take 2 (ds @ rest) \<noteq> ''0X''"
    using assms(1,3) cr by (cases ds'; cases rest) (auto simp: digits_end_def is_digit_def)
  have rv: "radix_val 10 ds = digits_val ds" using radix_val_10 [OF assms(1)] by (simp add: radix_val_def digits_val_def)
  have dw: "dropWhile is_ws (ds @ rest) = ds @ rest"
    using digit_not_ws c(1) cr by (simp add: is_ws_def)
  have sg: "(case ds @ rest of c # r \<Rightarrow> if c = CHR ''-'' then (-1, r) else if c = CHR ''+'' then (1, r)
                                     else (1, ds @ rest)
                             | [] \<Rightarrow> (1, ds @ rest)) = (1::int, ds @ rest)"
    using c cr by simp
  have m: "\<not> is_ws CHR ''-''" by (simp add: is_ws_def)
  have "js_parseInt (ds @ rest) = Some (int (digits_val ds))"
    using dw sg rv hx assms(2)
    by (simp add: js_parseInt_def Let_def tw del: list.case takeWhile_eq_all_conv append_is_Nil_conv)
  moreover have "js_parseInt (CHR ''-'' # ds @ rest) = Some (- int (digits_val ds))"
    using m rv hx assms(2)
    by (simp add: js_parseInt_def Let_def tw del: takeWhile_eq_all_conv)
  ultimately show ?thesis ..
qed

lemma js_parseInt_digits:
  assumes "list_all is_digit ds" "ds \<noteq> []"
  shows "js_parseInt ds = Some (int (digits_val ds)) \<and> js_parseInt (CHR ''-'' # ds) = Some (- int (digits_val ds))"
  using js_parseInt_prefix [OF assms, of "[]"] by (simp add: digits_end_def)

lemma js_toString_exact:
  assumes "0 < x" "x < 2 ^ 53"
  shows "\<exists>ds. js_toString (int x) = ds \<and> js_toString (- int x) = CHR ''-'' # ds \<and>
              list_all is_digit ds \<and> ds \<noteq> [] \<and> digits_val ds = x"
proof -
  obtain s e k where r: "num_repr x = Some (s, e, k)" "s * 10 ^ e = x" "length (nat_str s) = k"
      "10 ^ (k - 1) \<le> s" "1 \<le> k"
    using num_repr_exact [OF assms] by blast
  have "(10::nat) ^ (k - 1 + e) \<le> x" using mult_le_mono1 [OF r(4), of "10 ^ e"] r(2) by (simp add: power_add)
  then have "(10::nat) ^ (k - 1 + e) < 10 ^ 16" using assms(2) by simp
  then have n: "e + k \<le> 21" using power_less_imp_less_exp [of "10::nat" "k - 1 + e" 16] r(5) by simp
  let ?ds = "nat_str s @ replicate e (CHR ''0'')"
  have str: "js_toString (int x) = ?ds \<and> js_toString (- int x) = CHR ''-'' # ?ds"
    using assms(1) r(1) n by (simp add: js_toString_def)
  have "list_all is_digit ?ds" using nat_str_digits [of s] by (auto simp: list_all_iff is_digit_def)
  moreover have "digits_val ?ds = x" using nat_str_digits [of s] r(2) by (simp add: digits_val_zeros)
  moreover have "nat_str s \<noteq> []" using r(3,5) by auto
  ultimately show ?thesis using str by simp
qed

lemma js_Number_small: "\<bar>b\<bar> < 2 ^ 53 \<Longrightarrow> js_Number b = b"
  by (simp add: js_Number_def round_double_small nat_less_iff)

text \<open>A budget below \<open>2^53\<close> printed by \<open>String(Number(b))\<close> reads back as
  \<open>b\<close>.\<close>

lemma budget_of_text_toString:
  assumes "\<bar>b\<bar> < 2 ^ 53"
  shows "budget_of_text (js_toString (js_Number b)) = Some b"
proof -
  have nb: "js_Number b = b" using assms by (rule js_Number_small)
  have big: "\<bar>b\<bar> < 2 ^ 1024 - 2 ^ 970" using assms by simp
  consider "b = 0" | "0 < b" | "b < 0" by linarith
  then show ?thesis
  proof cases
    case 1
    have "js_parseInt ''0'' = Some 0" using js_parseInt_digits [of "''0''"] by (simp add: is_digit_def digits_val_def)
    then show ?thesis using 1 by (simp add: budget_of_text_def js_toString_def js_Number_def round_double_small)
  next
    case 2
    obtain ds where "js_toString (int (nat b)) = ds" "list_all is_digit ds" "ds \<noteq> []" "digits_val ds = nat b"
      using js_toString_exact [of "nat b"] 2 assms by auto
    then show ?thesis using 2 nb big js_parseInt_digits [of ds] by (simp add: budget_of_text_def)
  next
    case 3
    obtain ds where "js_toString (- int (nat (- b))) = CHR ''-'' # ds" "list_all is_digit ds" "ds \<noteq> []"
        "digits_val ds = nat (- b)"
      using js_toString_exact [of "nat (- b)"] 3 assms by auto
    then show ?thesis using 3 nb big js_parseInt_digits [of ds] by (simp add: budget_of_text_def)
  qed
qed

text \<open>C31:the budget input accepts \<open>1e5\<close> and \<open>12.5\<close>, but \<open>parseInt\<close> stops at
  the exponent or the decimal point, so the form saves the digits before it.\<close>

theorem budget_text_cut:
  assumes "list_all is_digit ds" "ds \<noteq> []" "c \<in> {CHR ''e'', CHR ''E'', CHR ''.''}"
  shows "budget_of_text (ds @ c # r) = budget_of_text ds"
proof -
  have "digits_end (c # r)" using assms(3) by (auto simp: digits_end_def is_digit_def)
  then show ?thesis
    using js_parseInt_prefix [OF assms(1,2)] js_parseInt_digits [OF assms(1,2)] by (simp add: budget_of_text_def)
qed

lemma budget_text_cut_witness:
  "list_all is_digit ''1'' \<and> ''1'' \<noteq> [] \<and> CHR ''e'' \<in> {CHR ''e'', CHR ''E'', CHR ''.''} \<and>
   budget_of_text ''1e5'' = budget_of_text ''1'' \<and> budget_of_text ''1'' = Some 1"
proof -
  have d: "list_all is_digit ''1''" by (simp add: is_digit_def)
  have "budget_of_text ''1'' = Some 1"
    using js_parseInt_digits [OF d] by (simp add: budget_of_text_def digits_val_def js_Number_small)
  then show ?thesis using budget_text_cut [OF d, of "CHR ''e''" "''5''"] d by simp
qed

text \<open>C32:\<open>toggleResource\<close> implements toggling membership in the set of
  assigned resources, and keeps the list free of repetitions when it was.\<close>

theorem toggleResource_refines:
  "set (toggleResource i ids) = (if i \<in> set ids then set ids - {i} else insert i (set ids)) \<and>
   (distinct ids \<longrightarrow> distinct (toggleResource i ids))"
  by (auto simp: toggleResource_def)

lemma toggleResource_refines_witness:
  "set (toggleResource ''r1'' [''r1'', ''r2'']) = {''r2''} \<and> distinct (toggleResource ''r1'' [''r1'', ''r2''])"
proof -
  note t = toggleResource_refines [of "''r1''" "[''r1'', ''r2'']"]
  have "distinct (toggleResource ''r1'' [''r1'', ''r2''])" using mp [OF conjunct2 [OF t]] by simp
  moreover have "set (toggleResource ''r1'' [''r1'', ''r2'']) = {''r2''}" using conjunct1 [OF t] by auto
  ultimately show ?thesis by simp
qed

lemma project_date_input:
  assumes "reads_iso_dates dm" "date_ok (\<lambda>_. 0) t" "t \<noteq> 0"
  shows "\<exists>s. formatDateInput t = Some s \<and> map_option dateToNs (dm s) = Some t"
proof -
  obtain s where s: "date_input t = Some s" "form_date dm s = Some t" using form_date_input [OF assms(1,2)] by blast
  have "s \<noteq> []" using s(2) assms(3) by (auto simp: form_date_def)
  then show ?thesis using s assms(3) by (simp add: date_input_def form_date_def)
qed

text \<open>C30:opening the project form on a project in the form's normal shape and
  saving it without changes hands exactly that project to \<open>onSubmit\<close>: the dates
  and the budget survive their round trip through text.\<close>

theorem project_edit_roundtrip:
  assumes dm: "reads_iso_dates dm" and n: "project_normal p"
  shows "\<exists>fs. open_pform now (Some p) = Some fs \<and>
              pform_step dm gid rs False (Some p) PSubmitClick fs = PFormSubmitted fs p"
proof -
  have d: "date_ok (\<lambda>_. 0) (startDate p)" "startDate p \<noteq> 0" "date_ok (\<lambda>_. 0) (endDate p)" "endDate p \<noteq> 0"
    using n by (simp_all add: project_normal_def)
  obtain s1 where s1: "formatDateInput (startDate p) = Some s1" "map_option dateToNs (dm s1) = Some (startDate p)"
    using project_date_input [OF dm d(1,2)] by blast
  obtain s2 where s2: "formatDateInput (endDate p) = Some s2" "map_option dateToNs (dm s2) = Some (endDate p)"
    using project_date_input [OF dm d(3,4)] by blast
  have b: "budget_of_text (js_toString (js_Number (budget p))) = Some (budget p)"
    using n budget_of_text_toString by (simp add: project_normal_def)
  have nb: "\<not> is_blank (project_name p)" "\<not> is_blank (managerName p)"
    using n trimmed_not_blank by (simp_all add: project_normal_def)
  define f where "f = \<lparr>pf_name = project_name p, pf_description = project_description p,
                pf_status = project_status p, pf_startDate = s1, pf_endDate = s2,
                pf_budget = js_toString (js_Number (budget p)), pf_managerName = managerName p,
                pf_assignedResourceIds = assignedResourceIds p\<rparr>"
  have o: "open_pform now (Some p) = Some \<lparr>pform = f, pform_error = []\<rparr>"
    using s1(1) s2(1) by (simp add: open_pform_def pform_load_def f_def)
  obtain z1 z2 where z: "dm s1 = Some z1" "dateToNs z1 = startDate p" "dm s2 = Some z2" "dateToNs z2 = endDate p"
    using s1(2) s2(2) by auto
  have "pform_submit dm gid (Some p) f = PSubmitProject p"
    using z b nb n by (cases p) (simp add: pform_submit_def f_def project_normal_def)
  then show ?thesis using o by (simp add: pform_step_def)
qed

lemma project_edit_roundtrip_witness:
  "reads_iso_dates iso_date_ms \<and> project_normal PROJECT_DEMO \<and>
   (\<exists>fs. open_pform 0 (Some PROJECT_DEMO) = Some fs \<and>
         pform_step iso_date_ms ''p9'' [] False (Some PROJECT_DEMO) PSubmitClick fs = PFormSubmitted fs PROJECT_DEMO)"
proof -
  have dm: "reads_iso_dates iso_date_ms" by (simp add: reads_iso_dates_def)
  have y: "1000 \<le> YearFromDay 19788" "YearFromDay 19788 \<le> 9999" by code_simp+
  have "date_ok (\<lambda>_. 0) (19788 * msPerDay * 1000000)"
    using y by (simp add: date_ok_def time_ms_def local_day_def msPerDay_def)
  then have n: "project_normal PROJECT_DEMO"
    by (simp add: project_normal_def PROJECT_DEMO_def msPerDay_def js_eval)
  show ?thesis using project_edit_roundtrip [OF dm n] dm n by blast
qed

lemma run_project_noop:
  "run_mutation env (AddProject p) b = Inr b' \<Longrightarrow> b' = b"
  "run_mutation env (UpdateProject i p) b = Inr b' \<Longrightarrow> b' = b"
  by (simp_all add: run_mutation_def split: if_splits)

lemma projects_step_inv:
  assumes "projects_step perms ready env ev (st, b) = ((st', b'), out)"
    and "pp_editingProject st \<noteq> None \<longrightarrow> pp_showFormModal st"
  shows "b' = b \<and> (pp_editingProject st' \<noteq> None \<longrightarrow> pp_showFormModal st')"
  using assms
  by (cases ev) (auto simp: projects_step_def Let_def dest!: run_project_noop split: if_splits sum.splits option.splits)

text \<open>C33:a session of the projects page never changes the backend (the project
  hooks are stubs: a created or edited project is never stored), and the form is open
  whenever a project is being edited.\<close>

theorem projects_reach_inv:
  assumes "projects_reach perms ready b0 (st, b)"
  shows "b = b0 \<and> (pp_editingProject st \<noteq> None \<longrightarrow> pp_showFormModal st)"
proof -
  have "projects_reach perms ready b0 s \<Longrightarrow>
        snd s = b0 \<and> (pp_editingProject (fst s) \<noteq> None \<longrightarrow> pp_showFormModal (fst s))" for s
  proof (induction rule: projects_reach.induct)
    case start
    then show ?case by (simp add: init_projects_page_def)
  next
    case (step s env ev s' out)
    obtain st1 b1 st2 b2 where s: "s = (st1, b1)" "s' = (st2, b2)" by (cases s; cases s')
    then show ?case using projects_step_inv [of perms ready env ev st1 b1 st2 b2 out] step by simp
  qed
  from this [OF assms] show ?thesis by simp
qed

lemma projects_reach_inv_witness:
  "projects_reach ALL_PERMS True PROJECTS_START
     (init_projects_page\<lparr>pp_viewingProject := Some PROJECT_DEMO, pp_editingProject := Some PROJECT_DEMO,
                          pp_showFormModal := True\<rparr>, PROJECTS_START) \<and>
   pp_showFormModal (init_projects_page\<lparr>pp_viewingProject := Some PROJECT_DEMO,
                       pp_editingProject := Some PROJECT_DEMO, pp_showFormModal := True\<rparr>)"
proof -
  let ?st1 = "init_projects_page\<lparr>pp_viewingProject := Some PROJECT_DEMO\<rparr>"
  let ?st2 = "init_projects_page\<lparr>pp_viewingProject := Some PROJECT_DEMO, pp_editingProject := Some PROJECT_DEMO,
                          pp_showFormModal := True\<rparr>"
  have r0: "projects_reach ALL_PERMS True PROJECTS_START (init_projects_page, PROJECTS_START)"
    by (rule projects_reach.start)
  have r1: "projects_reach ALL_PERMS True PROJECTS_START (?st1, PROJECTS_START)"
    by (rule projects_reach.step [OF r0, where env = NetOk and ev = "CardClick PROJECT_DEMO" and out = NoOutput])
       (simp add: projects_step_def page_projects_def useProjects_def getProjects_def PROJECTS_START_def)
  have r2: "projects_reach ALL_PERMS True PROJECTS_START (?st2, PROJECTS_START)"
    by (rule projects_reach.step [OF r1, where env = NetOk and ev = DetailEditClick and out = NoOutput])
       (simp add: projects_step_def ALL_PERMS_def init_projects_page_def)
  have "pp_editingProject ?st2 \<noteq> None" by simp
  then have "pp_showFormModal ?st2" using mp [OF conjunct2 [OF projects_reach_inv [OF r2]]] by simp
  then show ?thesis using r2 by simp
qed

end
