(* ===== verification/EntryForm.thy ===== *)
theory EntryForm
  imports ProjectForm
begin

text \<open>
  The timesheet entry form, \<open>src/frontend/src/components/TimesheetEntryFormModal.tsx\<close>:
  its five fields, their loading when the form opens (the date through
  \<open>formatDateInput\<close>, the hours as \<open>String(Number(hours))\<close>), \<open>handleSubmit\<close> with
  its two checks and \<open>parseInt\<close> of the hours, and the controls as \<open>eform_step\<close>.
  No page of the application renders the form; it is modelled as written.
\<close>

section \<open>The entry form\<close>

record eform_fields =
  ef_resourceId :: string
  ef_projectId :: string
  ef_date :: string
  ef_hoursLogged :: string
  ef_description :: string

record eform_state =
  eform :: eform_fields
  eform_error :: string

text \<open>The empty form, with \<open>today\<close> computed when the form renders (\<open>now\<close>).\<close>

definition eform_empty :: "int \<Rightarrow> eform_fields" where
  "eform_empty now =
     \<lparr>ef_resourceId = [], ef_projectId = [], ef_date = today now, ef_hoursLogged = ''8'', ef_description = []\<rparr>"

text \<open>The \<open>useEffect\<close> on \<open>[initialData, open]\<close>; \<open>formatDateInput\<close> throws
  (\<open>None\<close>) outside the range of \<open>Date\<close>.\<close>

definition eform_load :: "TimesheetEntry \<Rightarrow> eform_fields option" where
  "eform_load e =
     map_option (\<lambda>d. \<lparr>ef_resourceId = resourceId e, ef_projectId = entry_projectId e, ef_date = d,
                      ef_hoursLogged = js_toString (js_Number (hoursLogged e)),
                      ef_description = entry_description e\<rparr>)
       (formatDateInput (entry_date e))"

definition open_eform :: "int \<Rightarrow> TimesheetEntry option \<Rightarrow> eform_state option" where
  "open_eform now init =
     (case init of
        None \<Rightarrow> Some \<lparr>eform = eform_empty now, eform_error = []\<rparr>
      | Some e \<Rightarrow> map_option (\<lambda>f. \<lparr>eform = f, eform_error = []\<rparr>) (eform_load e))"

definition FILL_MSG :: string where
  "FILL_MSG = ''Please fill in all required fields.''"

definition HOURS_MSG :: string where
  "HOURS_MSG = ''Hours must be between 1 and 24.''"

datatype esubmit_result = EInvalid string | ESubmitThrows | ESubmitEntry TimesheetEntry

text \<open>\<open>handleSubmit\<close>: the four fields present (the text itself, untrimmed), then
  \<open>hours = parseInt(text)\<close> (a double: \<open>js_Number\<close> of the digits read) between 1
  and 24; then the entry, its date \<open>dateToNs(new Date(text))\<close> (\<open>BigInt(NaN)\<close>
  throws on an invalid date), the identifier and status of the edited entry, or
  \<open>gid\<close> and \<open>draft\<close>.\<close>

definition eform_submit ::
  "(string \<Rightarrow> int option) \<Rightarrow> string \<Rightarrow> TimesheetEntry option \<Rightarrow> eform_fields \<Rightarrow> esubmit_result" where
  "eform_submit dm gid init f =
     (if ef_resourceId f = [] \<or> ef_projectId f = [] \<or> ef_date f = [] \<or> ef_hoursLogged f = [] then EInvalid FILL_MSG
      else case js_parseInt (ef_hoursLogged f) of
        None \<Rightarrow> EInvalid HOURS_MSG
      | Some v \<Rightarrow>
          let hours = js_Number v in
          if hours < 1 \<or> 24 < hours then EInvalid HOURS_MSG
          else case dm (ef_date f) of
            None \<Rightarrow> ESubmitThrows
          | Some ms \<Rightarrow>
              ESubmitEntry
               \<lparr>entry_id = (case init of Some e \<Rightarrow> entry_id e | None \<Rightarrow> gid),
                entry_status = (case init of Some e \<Rightarrow> entry_status e | None \<Rightarrow> draft),
                resourceId = ef_resourceId f, entry_date = dateToNs ms,
                entry_description = js_trim (ef_description f), entry_projectId = ef_projectId f,
                hoursLogged = hours\<rparr>)"

datatype eform_event =
    ResourceSelect string | ProjectSelect string | DateInput string | HoursInput string
  | DescriptionInput string | ESubmitClick | ECancelClick | EDismiss

datatype eform_out = EFormOpen eform_state | EFormClosed | EFormSubmitted eform_state TimesheetEntry

text \<open>The form's controls: a select offers the identifiers of \<open>rs\<close> and \<open>ps\<close>;
  Cancel and Submit are disabled while \<open>loading\<close>; a failed check shows its
  message; a throwing submit leaves the error cleared.\<close>

definition eform_step ::
  "(string \<Rightarrow> int option) \<Rightarrow> string \<Rightarrow> resource list \<Rightarrow> Project list \<Rightarrow> bool \<Rightarrow> TimesheetEntry option \<Rightarrow>
   eform_event \<Rightarrow> eform_state \<Rightarrow> eform_out" where
  "eform_step dm gid rs ps loading init ev fs =
     (case ev of
        ResourceSelect v \<Rightarrow>
          EFormOpen (if v \<in> res_id ` set rs then fs\<lparr>eform := (eform fs)\<lparr>ef_resourceId := v\<rparr>\<rparr> else fs)
      | ProjectSelect v \<Rightarrow>
          EFormOpen (if v \<in> project_id ` set ps then fs\<lparr>eform := (eform fs)\<lparr>ef_projectId := v\<rparr>\<rparr> else fs)
      | DateInput v \<Rightarrow> EFormOpen (fs\<lparr>eform := (eform fs)\<lparr>ef_date := v\<rparr>\<rparr>)
      | HoursInput v \<Rightarrow> EFormOpen (fs\<lparr>eform := (eform fs)\<lparr>ef_hoursLogged := v\<rparr>\<rparr>)
      | DescriptionInput v \<Rightarrow> EFormOpen (fs\<lparr>eform := (eform fs)\<lparr>ef_description := v\<rparr>\<rparr>)
      | ESubmitClick \<Rightarrow>
          (if loading then EFormOpen fs
           else case eform_submit dm gid init (eform fs) of
                  EInvalid msg \<Rightarrow> EFormOpen (fs\<lparr>eform_error := msg\<rparr>)
                | ESubmitThrows \<Rightarrow> EFormOpen (fs\<lparr>eform_error := []\<rparr>)
                | ESubmitEntry e \<Rightarrow> EFormSubmitted (fs\<lparr>eform_error := []\<rparr>) e)
      | ECancelClick \<Rightarrow> (if loading then EFormOpen fs else EFormClosed)
      | EDismiss \<Rightarrow> EFormClosed)"

text \<open>An entry the edit form gives back unchanged: both identifiers present, the
  description trimmed, the date a UTC midnight of a four-digit year, 1 to 24 hours.\<close>

definition entry_normal :: "TimesheetEntry \<Rightarrow> bool" where
  "entry_normal e \<longleftrightarrow>
     resourceId e \<noteq> [] \<and> entry_projectId e \<noteq> [] \<and> js_trim (entry_description e) = entry_description e \<and>
     date_ok (\<lambda>_. 0) (entry_date e) \<and> entry_date e \<noteq> 0 \<and> 1 \<le> hoursLogged e \<and> hoursLogged e \<le> 24"

definition ENTRY_DEMO :: TimesheetEntry where
  "ENTRY_DEMO =
     \<lparr>entry_id = ''t1'', entry_status = submitted, resourceId = ''r1'', entry_date = 19788 * msPerDay * 1000000,
      entry_description = ''Design review'', entry_projectId = ''p1'', hoursLogged = 6\<rparr>"

section \<open>Properties of the entry form\<close>

text \<open>The hours text the form loads for 1 to 24 hours is read back as the same
  number.\<close>

lemma hours_text_roundtrip:
  assumes "1 \<le> h" "h \<le> (24::int)"
  shows "\<exists>v. js_parseInt (js_toString (js_Number h)) = Some v \<and> js_Number v = h \<and> js_toString (js_Number h) \<noteq> []"
proof -
  have nh: "js_Number h = h" using assms by (intro js_Number_small) simp
  obtain ds where ds: "js_toString (int (nat h)) = ds" "list_all is_digit ds" "ds \<noteq> []" "digits_val ds = nat h"
    using js_toString_exact [of "nat h"] assms by auto
  have "js_parseInt ds = Some h" using js_parseInt_digits [OF ds(2,3)] ds(4) assms by simp
  then show ?thesis using ds nh assms by auto
qed

lemma formatDateInput_nonempty: "formatDateInput t = Some s \<Longrightarrow> s \<noteq> []"
  by (auto simp: formatDateInput_def Let_def split: if_splits prod.splits)

text \<open>C34:opening the entry form on an entry in the form's normal shape and
  saving it without changes hands exactly that entry to \<open>onSubmit\<close>: the date
  and the hours survive their round trip through text.\<close>

theorem entry_edit_roundtrip:
  assumes dm: "reads_iso_dates dm" and n: "entry_normal e"
  shows "\<exists>fs. open_eform now (Some e) = Some fs \<and>
              eform_step dm gid rs ps False (Some e) ESubmitClick fs = EFormSubmitted fs e"
proof -
  have d: "date_ok (\<lambda>_. 0) (entry_date e)" "entry_date e \<noteq> 0" "1 \<le> hoursLogged e" "hoursLogged e \<le> 24"
    using n by (simp_all add: entry_normal_def)
  obtain s where s: "formatDateInput (entry_date e) = Some s" "map_option dateToNs (dm s) = Some (entry_date e)"
    using project_date_input [OF dm d(1,2)] by blast
  obtain ms where ms: "dm s = Some ms" "dateToNs ms = entry_date e" using s(2) by auto
  obtain v where v: "js_parseInt (js_toString (js_Number (hoursLogged e))) = Some v" "js_Number v = hoursLogged e"
      "js_toString (js_Number (hoursLogged e)) \<noteq> []"
    using hours_text_roundtrip [OF d(3,4)] by blast
  define f where "f = \<lparr>ef_resourceId = resourceId e, ef_projectId = entry_projectId e, ef_date = s,
                      ef_hoursLogged = js_toString (js_Number (hoursLogged e)),
                      ef_description = entry_description e\<rparr>"
  have o: "open_eform now (Some e) = Some \<lparr>eform = f, eform_error = []\<rparr>"
    using s(1) by (simp add: open_eform_def eform_load_def f_def)
  have "eform_submit dm gid (Some e) f = ESubmitEntry e"
    using ms v d n formatDateInput_nonempty [OF s(1)]
    by (cases e) (simp add: eform_submit_def f_def entry_normal_def)
  then show ?thesis using o by (simp add: eform_step_def)
qed

lemma entry_edit_roundtrip_witness:
  "reads_iso_dates iso_date_ms \<and> entry_normal ENTRY_DEMO \<and>
   (\<exists>fs. open_eform 0 (Some ENTRY_DEMO) = Some fs \<and>
         eform_step iso_date_ms ''t9'' [] [] False (Some ENTRY_DEMO) ESubmitClick fs = EFormSubmitted fs ENTRY_DEMO)"
proof -
  have dm: "reads_iso_dates iso_date_ms" by (simp add: reads_iso_dates_def)
  have y: "1000 \<le> YearFromDay 19788" "YearFromDay 19788 \<le> 9999" by code_simp+
  have "date_ok (\<lambda>_. 0) (19788 * msPerDay * 1000000)"
    using y by (simp add: date_ok_def time_ms_def local_day_def msPerDay_def)
  then have n: "entry_normal ENTRY_DEMO"
    by (simp add: entry_normal_def ENTRY_DEMO_def msPerDay_def js_eval)
  show ?thesis using entry_edit_roundtrip [OF dm n] dm n by blast
qed

text \<open>The hours input accepts \<open>7.5\<close>, but \<open>parseInt\<close> stops at the point: the form
  saves 7 hours.\<close>

lemma eform_decimal_hours:
  "eform_submit dm gid init (f\<lparr>ef_hoursLogged := ''7.5''\<rparr>) = eform_submit dm gid init (f\<lparr>ef_hoursLogged := ''7''\<rparr>)"
proof -
  have d: "list_all is_digit ''7''" by (simp add: is_digit_def)
  have "digits_end ''.5''" by (simp add: digits_end_def is_digit_def)
  then have "js_parseInt ''7.5'' = Some 7" "js_parseInt ''7'' = Some 7"
    using js_parseInt_prefix [OF d _, of "''.5''"] js_parseInt_digits [OF d] by (simp_all add: digits_val_def)
  then show ?thesis by (simp add: eform_submit_def Let_def split: option.split)
qed

end
