(* ===== verification/DateFilter.thy ===== *)
theory DateFilter
  imports Dashboard
begin

text \<open>
  The dashboard's period filter, \<open>src/frontend/src/components/DashboardDateFilter.tsx\<close>:
  the \<open>FilterState\<close> the dashboard page keeps (\<open>value\<close>, set through \<open>onChange\<close>)
  together with the component's own \<open>dateInput\<close>, the month and year selects, the
  date input, the clear button and the effect that empties the input when the date
  is cleared, as the step function \<open>filter_step\<close> and its sessions \<open>filter_reach\<close>.
  \<open>new Date(raw + 'T00:00:00')\<close> is the browser's parser of a local date-time, the
  parameter \<open>dl\<close> (\<open>None\<close> for an invalid date).
\<close>

section \<open>The filter component\<close>

definition MONTHS :: "(int \<times> string) list" where
  "MONTHS = [(1, ''January''), (2, ''February''), (3, ''March''), (4, ''April''), (5, ''May''), (6, ''June''),
             (7, ''July''), (8, ''August''), (9, ''September''), (10, ''October''), (11, ''November''),
             (12, ''December'')]"

text \<open>\<open>getYearRange()\<close>: the local year of the clock, two years either side.\<close>

definition getYearRange :: "(int \<Rightarrow> int) \<Rightarrow> int \<Rightarrow> int list" where
  "getYearRange tz now = (case civil_local tz now of (y, _, _) \<Rightarrow> map (\<lambda>i. y - 2 + int i) [0..<5])"

datatype filter_event = MonthSelect int | YearSelect int | DateTyped string | ClearDateClick

text \<open>The handlers, each followed by the effect on \<open>[value.selectedDate]\<close>: when the
  date has just become \<open>null\<close>, the input is emptied. A select offers only its
  options; the clear button exists only while a date is selected; an invalid date
  typed into the input changes only the input.\<close>

definition filter_handler ::
  "(string \<Rightarrow> int option) \<Rightarrow> (int \<Rightarrow> int) \<Rightarrow> int \<Rightarrow> filter_event \<Rightarrow> FilterState \<times> string \<Rightarrow> FilterState \<times> string" where
  "filter_handler dl tz now ev s =
     (case s of (v, inp) \<Rightarrow>
      (case ev of
         MonthSelect m \<Rightarrow> (if m \<in> fst ` set MONTHS then (v\<lparr>selectedMonth := m\<rparr>, inp) else (v, inp))
       | YearSelect y \<Rightarrow> (if y \<in> set (getYearRange tz now) then (v\<lparr>selectedYear := y\<rparr>, inp) else (v, inp))
       | DateTyped raw \<Rightarrow>
           (if raw = [] then (v\<lparr>selectedDate := None\<rparr>, raw)
            else case dl (raw @ ''T00:00:00'') of
              None \<Rightarrow> (v, raw)
            | Some ms \<Rightarrow> (case civil_local tz ms of (y, m, _) \<Rightarrow>
                           (\<lparr>selectedMonth = m, selectedYear = y, selectedDate = Some ms\<rparr>, raw)))
       | ClearDateClick \<Rightarrow> (if selectedDate v \<noteq> None then (v\<lparr>selectedDate := None\<rparr>, []) else (v, inp))))"

definition filter_step ::
  "(string \<Rightarrow> int option) \<Rightarrow> (int \<Rightarrow> int) \<Rightarrow> int \<Rightarrow> filter_event \<Rightarrow> FilterState \<times> string \<Rightarrow> FilterState \<times> string" where
  "filter_step dl tz now ev s =
     (case filter_handler dl tz now ev s of (v', inp') \<Rightarrow>
        (v', if selectedDate v' \<noteq> selectedDate (fst s) \<and> selectedDate v' = None then [] else inp'))"

inductive filter_reach :: "(string \<Rightarrow> int option) \<Rightarrow> (int \<Rightarrow> int) \<Rightarrow> int \<Rightarrow> FilterState \<times> string \<Rightarrow> bool"
  for dl tz now where
  start: "filter_reach dl tz now (initial_filter tz now, [])"
| step: "filter_reach dl tz now s \<Longrightarrow> filter_reach dl tz now (filter_step dl tz now ev s)"

section \<open>Properties of the filter\<close>

lemma filter_step_inv:
  assumes "1 \<le> selectedMonth v \<and> selectedMonth v \<le> 12 \<and> (inp = [] \<longrightarrow> selectedDate v = None)"
    and "filter_step dl tz now ev (v, inp) = (v', inp')"
  shows "1 \<le> selectedMonth v' \<and> selectedMonth v' \<le> 12 \<and> (inp' = [] \<longrightarrow> selectedDate v' = None)"
  using assms civil_of_day_bounds
  by (cases ev) (auto simp: filter_step_def filter_handler_def MONTHS_def civil_local_def
                      split: if_splits option.splits prod.splits)

text \<open>C35: the filter state is well formed in every session: the month is one of
  the twelve, so \<open>formatPeriodLabel\<close> indexes its month names within range, and an
  empty date input means no date is selected.\<close>

theorem filter_reach_wellformed:
  assumes "filter_reach dl tz now (v, inp)"
  shows "1 \<le> selectedMonth v \<and> selectedMonth v \<le> 12 \<and> nat (selectedMonth v - 1) < length MONTH_SHORT \<and>
         (inp = [] \<longrightarrow> selectedDate v = None)"
proof -
  have "filter_reach dl tz now s \<Longrightarrow>
        1 \<le> selectedMonth (fst s) \<and> selectedMonth (fst s) \<le> 12 \<and> (snd s = [] \<longrightarrow> selectedDate (fst s) = None)" for s
  proof (induction rule: filter_reach.induct)
    case start
    obtain y m d where "civil_local tz now = (y, m, d)" by (cases "civil_local tz now") auto
    then show ?case using civil_of_day_bounds [of "local_day tz now" y m d]
      by (simp add: initial_filter_def civil_local_def)
  next
    case (step s ev)
    obtain v inp v' inp' where "s = (v, inp)" "filter_step dl tz now ev s = (v', inp')"
      by (cases s; cases "filter_step dl tz now ev s")
    then show ?case using filter_step_inv [of v inp dl tz now ev v' inp'] step.IH by simp
  qed
  from this [OF assms] have m: "1 \<le> selectedMonth v \<and> selectedMonth v \<le> 12 \<and> (inp = [] \<longrightarrow> selectedDate v = None)"
    by simp
  moreover have "nat (selectedMonth v - 1) < 12" using m by linarith
  ultimately show ?thesis by (simp add: MONTH_SHORT_def)
qed

lemma filter_reach_wellformed_witness:
  "filter_reach (\<lambda>_. None) (\<lambda>_. 0) 0 (initial_filter (\<lambda>_. 0) 0, []) \<and>
   1 \<le> selectedMonth (initial_filter (\<lambda>_. 0) 0) \<and> selectedMonth (initial_filter (\<lambda>_. 0) 0) \<le> 12 \<and>
   nat (selectedMonth (initial_filter (\<lambda>_. 0) 0) - 1) < length MONTH_SHORT"
proof -
  have r: "filter_reach (\<lambda>_. None) (\<lambda>_. 0) 0 (initial_filter (\<lambda>_. 0) 0, [])" by (rule filter_reach.start)
  show ?thesis using r conjunct1 [OF filter_reach_wellformed [OF r]]
    conjunct1 [OF conjunct2 [OF filter_reach_wellformed [OF r]]]
    conjunct1 [OF conjunct2 [OF conjunct2 [OF filter_reach_wellformed [OF r]]]] by blast
qed

text \<open>While a date is selected, the month select changes the month it shows but
  not the period the dashboard filters by.\<close>

lemma month_select_ignored:
  assumes "selectedDate v = Some sd"
  shows "in_period tz (fst (filter_step dl tz now (MonthSelect m) (v, inp))) = in_period tz v"
  using assms by (auto simp: filter_step_def filter_handler_def in_period_def isDateInPeriod_def)

end
