(* ===== verification/Reports.thy ===== *)
theory Reports
  imports Access Queries
begin

text \<open>
  The state of the reports page, \<open>src/frontend/src/pages/ReportsPage.tsx\<close> (whether
  the configuration dialog is open, the iframe's key), and the configuration dialog
  \<open>src/frontend/src/components/PowerBIConfigModal.tsx\<close> (its URL text, the effect that
  loads the stored URL when it opens, \<open>handleSave\<close> through \<open>useSetPowerBIEmbedUrl\<close>),
  composed with the backend as \<open>reports_step\<close>; \<open>reports_reach\<close> is the set of
  sessions. The page's access decision and content are \<open>ReportsPage\<close> of \<open>Access\<close>;
  the handlers act only on a page that is shown, for a profile whose role is
  \<open>admin\<close> or \<open>management\<close>, and \<open>isAdmin\<close> is the parameter \<open>is_admin\<close>.
\<close>

section \<open>The page and the configuration dialog\<close>

record reports_state =
  configOpen :: bool
  iframeKey :: nat
  pbi_url :: string

definition init_reports :: reports_state where
  "init_reports = \<lparr>configOpen = False, iframeKey = 0, pbi_url = []\<rparr>"

text \<open>\<open>currentUrl = embedUrl ?? null\<close>, and \<open>setUrl(currentUrl ?? '')\<close>: the stored
  URL, or the empty text while the query has no data or nothing is stored.\<close>

definition current_url :: "bool \<Rightarrow> backend \<Rightarrow> string" where
  "current_url ready b = (case useGetPowerBIEmbedUrl ready b of Some (Some u) \<Rightarrow> u | _ \<Rightarrow> [])"

definition SAVE_OK_MSG :: string where
  "SAVE_OK_MSG = ''Power BI embed URL saved successfully.''"

definition SAVE_ERROR_MSG :: string where
  "SAVE_ERROR_MSG = ''Failed to save the embed URL. Please try again.''"

datatype toast = NoToast | ToastSuccess string | ToastError string

datatype reports_event =
    RefreshClick | ConfigureClick | UrlInput string | SaveUrlClick | CancelConfigClick | ConfigDismiss

text \<open>\<open>handleSave\<close>: nothing for a blank URL (the button is disabled and the handler
  returns); otherwise the trimmed URL is sent, and on success a toast and
  \<open>onClose\<close>, on failure an error toast with the dialog left open.\<close>

definition handleSave :: "call_env \<Rightarrow> reports_state \<times> backend \<Rightarrow> (reports_state \<times> backend) \<times> toast" where
  "handleSave env s =
     (case s of (st, b) \<Rightarrow>
        if js_trim (pbi_url st) = [] then ((st, b), NoToast)
        else (case run_mutation env (SetPowerBIEmbedUrl (js_trim (pbi_url st))) b of
                Inl _ \<Rightarrow> ((st, b), ToastError SAVE_ERROR_MSG)
              | Inr b' \<Rightarrow> ((st\<lparr>configOpen := False\<rparr>, b'), ToastSuccess SAVE_OK_MSG)))"

text \<open>The page's handlers. The Configure buttons and the dialog exist for an admin
  only; opening the dialog runs its effect on \<open>[open, currentUrl]\<close>, which loads the
  stored URL. The refresh button bumps the iframe's key (\<open>refetch\<close> reads the same
  backend).\<close>

definition reports_step ::
  "bool \<Rightarrow> bool \<Rightarrow> call_env \<Rightarrow> reports_event \<Rightarrow> reports_state \<times> backend \<Rightarrow> (reports_state \<times> backend) \<times> toast" where
  "reports_step is_admin ready env ev s =
     (case s of (st, b) \<Rightarrow>
      (case ev of
         RefreshClick \<Rightarrow> ((st\<lparr>iframeKey := Suc (iframeKey st)\<rparr>, b), NoToast)
       | ConfigureClick \<Rightarrow>
           ((if is_admin \<and> \<not> configOpen st then st\<lparr>configOpen := True, pbi_url := current_url ready b\<rparr> else st, b),
            NoToast)
       | UrlInput u \<Rightarrow> ((if is_admin \<and> configOpen st then st\<lparr>pbi_url := u\<rparr> else st, b), NoToast)
       | SaveUrlClick \<Rightarrow> (if is_admin \<and> configOpen st then handleSave env (st, b) else ((st, b), NoToast))
       | CancelConfigClick \<Rightarrow> ((if is_admin then st\<lparr>configOpen := False\<rparr> else st, b), NoToast)
       | ConfigDismiss \<Rightarrow> ((if is_admin then st\<lparr>configOpen := False\<rparr> else st, b), NoToast)))"

inductive reports_reach :: "bool \<Rightarrow> bool \<Rightarrow> backend \<Rightarrow> reports_state \<times> backend \<Rightarrow> bool"
  for is_admin ready b0 where
  start: "reports_reach is_admin ready b0 (init_reports, b0)"
| step: "reports_reach is_admin ready b0 s \<Longrightarrow> reports_step is_admin ready env ev s = (s', t) \<Longrightarrow>
         reports_reach is_admin ready b0 s'"

text \<open>A stored URL as the dialog saves it: trimmed and not empty.\<close>

definition saved_url :: "string option \<Rightarrow> bool" where
  "saved_url u \<longleftrightarrow> (case u of None \<Rightarrow> True | Some v \<Rightarrow> v \<noteq> [] \<and> js_trim v = v)"

definition REPORTS_START :: backend where
  "REPORTS_START = EMPTY_BACKEND"

section \<open>Properties of the reports page\<close>

lemma run_set_url:
  "run_mutation env (SetPowerBIEmbedUrl u) b = Inr b' \<Longrightarrow> b' = b\<lparr>powerBIEmbedUrl := Some u\<rparr>"
  by (cases env) (simp_all add: run_mutation_def actor_call_def)

lemma reports_step_backend:
  assumes "reports_step is_admin ready env ev (st, b) = ((st', b'), t)"
  shows "b' = b \<or> (is_admin \<and> (\<exists>u. u \<noteq> [] \<and> js_trim u = u \<and> b' = b\<lparr>powerBIEmbedUrl := Some u\<rparr>))"
  using assms
  by (cases ev) (auto simp: reports_step_def handleSave_def dest!: run_set_url split: if_splits sum.splits)

lemma saved_url_trim: "u \<noteq> [] \<Longrightarrow> js_trim u = u \<Longrightarrow> saved_url (Some u)"
  by (simp add: saved_url_def)

text \<open>C36: in every session of the reports page only the embed URL of the
  backend changes, only an admin changes it, and it stays a trimmed, non-empty URL
  when it was one.\<close>

theorem reports_reach_inv:
  assumes "reports_reach is_admin ready b0 (st, b)" and "saved_url (powerBIEmbedUrl b0)"
  shows "saved_url (powerBIEmbedUrl b) \<and> b\<lparr>powerBIEmbedUrl := powerBIEmbedUrl b0\<rparr> = b0 \<and>
         (\<not> is_admin \<longrightarrow> b = b0)"
proof -
  have "reports_reach is_admin ready b0 s \<Longrightarrow>
        saved_url (powerBIEmbedUrl (snd s)) \<and> (snd s)\<lparr>powerBIEmbedUrl := powerBIEmbedUrl b0\<rparr> = b0 \<and>
        (\<not> is_admin \<longrightarrow> snd s = b0)" for s
  proof (induction rule: reports_reach.induct)
    case start
    then show ?case using assms(2) by simp
  next
    case (step s env ev s' t)
    obtain st1 b1 st2 b2 where s: "s = (st1, b1)" "s' = (st2, b2)" by (cases s; cases s')
    then have "b2 = b1 \<or> (is_admin \<and> (\<exists>u. u \<noteq> [] \<and> js_trim u = u \<and> b2 = b1\<lparr>powerBIEmbedUrl := Some u\<rparr>))"
      using reports_step_backend step.hyps(2) by simp
    then show ?case using step.IH s saved_url_trim by auto
  qed
  from this [OF assms(1)] show ?thesis by simp
qed

lemma reports_reach_inv_witness:
  "reports_reach True True REPORTS_START
     (init_reports\<lparr>pbi_url := '' https://x ''\<rparr>, REPORTS_START\<lparr>powerBIEmbedUrl := Some ''https://x''\<rparr>) \<and>
   saved_url (powerBIEmbedUrl REPORTS_START) \<and>
   saved_url (powerBIEmbedUrl (REPORTS_START\<lparr>powerBIEmbedUrl := Some ''https://x''\<rparr>))"
proof -
  let ?b1 = "REPORTS_START\<lparr>powerBIEmbedUrl := Some ''https://x''\<rparr>"
  have r0: "reports_reach True True REPORTS_START (init_reports, REPORTS_START)" by (rule reports_reach.start)
  have r1: "reports_reach True True REPORTS_START (init_reports\<lparr>configOpen := True\<rparr>, REPORTS_START)"
    by (rule reports_reach.step [OF r0, where env = NetOk and ev = ConfigureClick and t = NoToast])
       (simp add: reports_step_def init_reports_def current_url_def useGetPowerBIEmbedUrl_def
                  REPORTS_START_def EMPTY_BACKEND_def)
  have r2: "reports_reach True True REPORTS_START
              (init_reports\<lparr>configOpen := True, pbi_url := '' https://x ''\<rparr>, REPORTS_START)"
    by (rule reports_reach.step [OF r1, where env = NetOk and ev = "UrlInput '' https://x ''" and t = NoToast])
       (simp add: reports_step_def)
  have r3: "reports_reach True True REPORTS_START (init_reports\<lparr>pbi_url := '' https://x ''\<rparr>, ?b1)"
    by (rule reports_reach.step [OF r2, where env = NetOk and ev = SaveUrlClick and t = "ToastSuccess SAVE_OK_MSG"])
       (simp add: reports_step_def handleSave_def run_mutation_def actor_call_def init_reports_def js_eval)
  have s0: "saved_url (powerBIEmbedUrl REPORTS_START)"
    by (simp add: saved_url_def REPORTS_START_def EMPTY_BACKEND_def)
  have "saved_url (powerBIEmbedUrl ?b1)" using conjunct1 [OF reports_reach_inv [OF r3 s0]] .
  then show ?thesis using r3 s0 by simp
qed

text \<open>After a successful save, opening the dialog again shows the URL that was
  saved, trimmed.\<close>

lemma save_then_reopen:
  assumes "reports_step True True env SaveUrlClick (st, b) = ((st', b'), ToastSuccess m)"
  shows "configOpen st' = False \<and>
         pbi_url (fst (fst (reports_step True True env' ConfigureClick (st', b')))) = js_trim (pbi_url st)"
  using assms
  by (auto simp: reports_step_def handleSave_def current_url_def useGetPowerBIEmbedUrl_def
           dest!: run_set_url split: if_splits sum.splits)

end
