(* ===== verification/ResourceViews.thy ===== *)
theory ResourceViews
  imports Resources
begin

text \<open>
  The card view of the resources page: \<open>src/frontend/src/components/ResourceCard.tsx\<close>
  as a function from a resource to what its card shows, and the content area of
  \<open>src/frontend/src/pages/ResourcesPage.tsx\<close>, which shows skeletons while the
  resources load and otherwise the sorted table or one card per filtered resource.
\<close>

section \<open>The resource card\<close>

text \<open>A card: the initials, name and role, the status badge, department, email and
  role, the first four skill tags and the count of the others, and the resource its
  Edit and Delete buttons pass to \<open>onEdit\<close> and \<open>onDelete\<close>.\<close>

record card_view =
  cv_initials :: string
  cv_name :: string
  cv_role :: string
  cv_badge :: string
  cv_department :: string
  cv_email :: string
  cv_tags :: "string list"
  cv_more :: "nat option"
  cv_resource :: resource

definition ResourceCard :: "resource \<Rightarrow> card_view" where
  "ResourceCard r =
     \<lparr>cv_initials = initials (name r), cv_name = name r, cv_role = role r,
      cv_badge = (if status r = active then ''Active'' else ''Inactive''),
      cv_department = department r, cv_email = email r, cv_tags = take 4 (skillTags r),
      cv_more = (if 4 < length (skillTags r) then Some (length (skillTags r) - 4) else None),
      cv_resource = r\<rparr>"

section \<open>The page's content area\<close>

datatype resources_content =
    TableSkeleton | CardSkeletons nat | TableContent table_view | CardGrid "card_view list"

text \<open>\<open>isLoading\<close> of \<open>useResources\<close>: the table skeleton or six card skeletons;
  then \<open>ResourceTableView\<close> of the filtered resources with the table's sort state,
  or a card per filtered resource in the backend's order.\<close>

definition resources_content ::
  "(string \<Rightarrow> string \<Rightarrow> int) \<Rightarrow> (int \<Rightarrow> int) \<Rightarrow> bool \<Rightarrow> bool \<Rightarrow> resources_page \<Rightarrow> backend \<Rightarrow> resources_content" where
  "resources_content lc tz ready isLoading st b =
     (if isLoading then (if viewMode st = table_mode then TableSkeleton else CardSkeletons 6)
      else if viewMode st = table_mode
      then TableContent (ResourceTableView lc tz (table_st st) (filtered st (page_rows ready b)))
      else CardGrid (map ResourceCard (filtered st (page_rows ready b))))"

text \<open>The resources a content area shows.\<close>

definition content_resources :: "resources_content \<Rightarrow> resource list" where
  "content_resources c =
     (case c of
        TableContent (TableRows rows) \<Rightarrow> map fst rows
      | CardGrid cards \<Rightarrow> map cv_resource cards
      | _ \<Rightarrow> [])"

section \<open>Properties of the views\<close>

text \<open>A card shows every skill tag, either by name or in the count of the others.\<close>

lemma ResourceCard_tags:
  "length (cv_tags (ResourceCard r)) + (case cv_more (ResourceCard r) of None \<Rightarrow> 0 | Some n \<Rightarrow> n) =
   length (skillTags r)"
  by (simp add: ResourceCard_def)

text \<open>Switching between the table and the cards shows the same resources, each as
  often: the table sorts them, the cards keep the backend's order.\<close>

lemma content_views_agree:
  "mset (content_resources (resources_content lc tz ready False (st\<lparr>viewMode := table_mode\<rparr>) b)) =
   mset (content_resources (resources_content lc tz ready False (st\<lparr>viewMode := card_mode\<rparr>) b))"
proof -
  have f: "filtered (st\<lparr>viewMode := m\<rparr>) rs = filtered st rs" for m rs
    by (simp add: filtered_def)
  have e: "js_sort c xs = [] \<longleftrightarrow> xs = []" for c :: "resource \<Rightarrow> resource \<Rightarrow> int" and xs
    using length_js_sort [of c xs] by (metis length_0_conv)
  show ?thesis
    by (simp add: resources_content_def content_resources_def ResourceTableView_def sorted_resources_def
                  Let_def ResourceCard_def comp_def f e)
qed

end
