(* ===== verification/Shell.thy ===== *)
theory Shell
  imports Access Calendar
begin

text \<open>
  The application shell, \<open>src/frontend/src/components/Layout.tsx\<close>: its one piece of
  state, whether the sidebar is open, toggled by the collapse button, and what the
  sidebar, the header and the footer show for a profile, the current path and the
  clock. The navigation items, the active test, the header title and the role labels
  are those of \<open>Access\<close>; the logout button's handler is a step of
  \<open>session_step\<close> there.
\<close>

section \<open>The sidebar, header and footer\<close>

record layout_state =
  sidebarOpen :: bool

definition init_layout :: layout_state where
  "init_layout = \<lparr>sidebarOpen = True\<rparr>"

text \<open>The collapse button: \<open>setSidebarOpen((v) => !v)\<close>.\<close>

definition toggle_sidebar :: "layout_state \<Rightarrow> layout_state" where
  "toggle_sidebar st = st\<lparr>sidebarOpen := \<not> sidebarOpen st\<rparr>"

text \<open>A navigation link: its path and label, whether the label is shown (only in
  the open sidebar), whether it is active, and the chevron of an active link in the
  open sidebar.\<close>

record nav_entry =
  ne_path :: string
  ne_text :: string
  ne_label_shown :: bool
  ne_active :: bool
  ne_chevron :: bool

datatype toggle_icon = CloseIcon | MenuIcon

record layout_view =
  lv_wide :: bool
  lv_brand :: bool
  lv_demo_badge :: bool
  lv_nav :: "nav_entry list"
  lv_user_box :: "(string \<times> string) option"
  lv_logout_label :: "string option"
  lv_toggle :: toggle_icon
  lv_title :: string
  lv_header_demo :: bool
  lv_header_user :: "string \<times> string"
  lv_footer_year :: int

definition nav_entry_of :: "bool \<Rightarrow> string \<Rightarrow> nav_item \<Rightarrow> nav_entry" where
  "nav_entry_of opn currentPath item =
     \<lparr>ne_path = nav_path item, ne_text = nav_label item, ne_label_shown = opn,
      ne_active = isActive currentPath item, ne_chevron = (opn \<and> isActive currentPath item)\<rparr>"

text \<open>\<open>Layout\<close>'s rendering: the brand text and the demo badge in the open sidebar,
  one link per item of \<open>navItems\<close>, the user box and the logout label in the open
  sidebar, the toggle's icon, the header's title, demo badge and user, and the
  footer's year, the local year of the clock.\<close>

definition Layout ::
  "(int \<Rightarrow> int) \<Rightarrow> int \<Rightarrow> layout_state \<Rightarrow> bool \<Rightarrow> UserProfile \<Rightarrow> string \<Rightarrow> layout_view" where
  "Layout tz now st isDemo p currentPath =
     (let opn = sidebarOpen st; roleLabel = ROLE_LABELS (appRole p)
      in \<lparr>lv_wide = opn, lv_brand = opn, lv_demo_badge = (isDemo \<and> opn),
          lv_nav = map (nav_entry_of opn currentPath) (navItems (appRole p)),
          lv_user_box = (if opn then Some (profile_name p, roleLabel) else None),
          lv_logout_label = (if opn then Some (if isDemo then ''Exit Demo'' else ''Logout'') else None),
          lv_toggle = (if opn then CloseIcon else MenuIcon),
          lv_title = page_title (appRole p) currentPath, lv_header_demo = isDemo,
          lv_header_user = (profile_name p, roleLabel),
          lv_footer_year = fst (civil_of_day (local_day tz now))\<rparr>)"

section \<open>Properties of the shell\<close>

lemma find_map_comp: "find P (map f xs) = map_option f (find (P \<circ> f) xs)"
  by (induction xs) auto

text \<open>The header's title is the label of the first link the sidebar marks active,
  or TeamTrack when none is.\<close>

lemma Layout_title_active:
  "lv_title (Layout tz now st isDemo p path) =
   (case find ne_active (lv_nav (Layout tz now st isDemo p path)) of None \<Rightarrow> ''TeamTrack'' | Some e \<Rightarrow> ne_text e)"
proof -
  have "ne_active \<circ> nav_entry_of (sidebarOpen st) path = isActive path"
    by (simp add: fun_eq_iff nav_entry_of_def)
  then show ?thesis
    by (simp add: Layout_def Let_def page_title_def find_map_comp split: option.split)
       (simp add: nav_entry_of_def)
qed

text \<open>Collapsing the sidebar hides the labels but keeps every link and which of
  them is active.\<close>

lemma Layout_toggle_links:
  "map (\<lambda>e. (ne_path e, ne_active e)) (lv_nav (Layout tz now (toggle_sidebar st) isDemo p path)) =
   map (\<lambda>e. (ne_path e, ne_active e)) (lv_nav (Layout tz now st isDemo p path))"
  by (simp add: Layout_def Let_def nav_entry_of_def)

end
