(* ===== verification/ImportView.thy ===== *)
theory ImportView
  imports ImportModal Calendar
begin

text \<open>
  What the import dialog of \<open>src/frontend/src/components/ResourceImportModal.tsx\<close>
  shows for a state of \<open>ImportModal\<close>: the result panel after an import, or the
  import flow (template, columns, drop zone, parsing indicator, parse error, the
  chosen file with its size, the preview table and the action bar).
\<close>

section \<open>The rendered dialog\<close>

text \<open>\<open>(file.size / 1024).toFixed(1)\<close>: the quotient is exact in binary, and
  \<open>toFixed\<close> prints the nearest tenth, the larger one on a tie.\<close>

definition size_kb :: "nat \<Rightarrow> string" where
  "size_kb n = (let t = (n * 10 + 512) div 1024 in nat_str (t div 10) @ CHR ''.'' # nat_str (t mod 10))"

record result_panel =
  rp_success :: nat
  rp_total :: nat
  rp_failed_note :: "nat option"
  rp_skipped :: "(nat \<times> string) list"

datatype row_status = RowOk | RowError string

record preview =
  pv_valid :: nat
  pv_invalid :: "nat option"
  pv_rows :: nat
  pv_table :: "(nat \<times> string list \<times> row_status) list"

record flow_panel =
  fp_columns :: "string list"
  fp_drop_zone :: "bool option"
  fp_parsing :: bool
  fp_error :: "string option"
  fp_file :: "(string \<times> string) option"
  fp_preview :: "preview option"
  fp_actions :: "(string \<times> bool) option"

datatype import_view = ResultPanel result_panel | FlowPanel flow_panel

text \<open>A row of the preview: its number, \<open>row.data[h] || ''\<close> for each column, and
  OK or its first error.\<close>

definition preview_row :: "ParsedRow \<Rightarrow> nat \<times> string list \<times> row_status" where
  "preview_row r =
     (index r, map (\<lambda>h. field_or (data r) h []) COLUMN_HEADERS,
      if errors r = [] then RowOk else RowError (hd (errors r)))"

definition ImportDialog :: "modal_state \<Rightarrow> import_view" where
  "ImportDialog st =
     (case importResult st of
        Some res \<Rightarrow>
          ResultPanel
           \<lparr>rp_success = success res, rp_total = total res,
            rp_failed_note = (if 0 < failed res then Some (failed res) else None),
            rp_skipped = map (\<lambda>(n, es). (n, join_with '', '' es)) (failedRows res)\<rparr>
      | None \<Rightarrow>
          let shown = parsedRows st \<noteq> [] \<and> \<not> isParsing st in
          FlowPanel
           \<lparr>fp_columns = COLUMN_HEADERS,
            fp_drop_zone = (if modal_file st = None then Some (isDragging st) else None),
            fp_parsing = isParsing st, fp_error = parseError st,
            fp_file = (case modal_file st of
                         Some f \<Rightarrow> if isParsing st then None else Some (fname f, size_kb (fsize f))
                       | None \<Rightarrow> None),
            fp_preview = (if shown then Some
                           \<lparr>pv_valid = length (validRows st),
                            pv_invalid = (if invalidRows st = [] then None else Some (length (invalidRows st))),
                            pv_rows = length (parsedRows st),
                            pv_table = map preview_row (parsedRows st)\<rparr> else None),
            fp_actions = (if shown then Some
                           (if validRows st \<noteq> [] then nat_str (length (validRows st)) @ '' record(s) will be imported.''
                            else ''No valid records to import.'', import_enabled st) else None)\<rparr>)"

section \<open>Properties of the dialog\<close>

lemma size_kb_exact: "n mod 1024 = 0 \<Longrightarrow> size_kb n = nat_str (n div 1024) @ ''.0''"
proof -
  assume "n mod 1024 = 0"
  then obtain k where "n = 1024 * k" by auto
  then have "(n * 10 + 512) div 1024 = 10 * k" by simp
  then show ?thesis using \<open>n = 1024 * k\<close> by (simp add: size_kb_def nat_str_less10 js_eval)
qed

text \<open>In every state the handlers produce, the preview's valid and erroneous rows
  add up to its row count, and the action bar's button is enabled exactly when it
  announces records to import.\<close>

lemma ImportDialog_preview:
  assumes "modal_inv st" and "ImportDialog st = FlowPanel fp" and "fp_preview fp = Some pv"
  shows "pv_valid pv + (case pv_invalid pv of None \<Rightarrow> 0 | Some n \<Rightarrow> n) = pv_rows pv \<and>
         fp_actions fp = Some (if 0 < pv_valid pv then nat_str (pv_valid pv) @ '' record(s) will be imported.''
                               else ''No valid records to import.'', 0 < pv_valid pv)"
proof -
  have m: "\<forall>r \<in> set (parsedRows st). mapped_row r" using assms(1) by (simp add: modal_inv_def)
  have "length (validRows st) + length (invalidRows st) = length (parsedRows st)"
    using valid_invalid_length [OF m] .
  then show ?thesis using assms(2,3)
    by (auto simp: ImportDialog_def Let_def import_enabled_def split: option.splits if_splits)
qed

end
