(* ===== verification/Spec2Isabelle.thy ===== *)
theory Spec2Isabelle
  imports Access EntryForm DateFilter Reports ResourceViews Shell ImportView
begin

text \<open>
  \<^bold>\<open>TeamTrack resource import and access control: a verification development.\<close>

  TeamTrack (\<open>src/frontend\<close>) is a React single-page application over a backend actor
  whose generated interface is \<open>src/frontend/src/backend.d.ts\<close>. Its non-trivial logic
  is the bulk import of resources (\<open>components/ResourceImportModal.tsx\<close>): a CSV
  text or a decoded spreadsheet is split into a header and rows, each row is mapped
  to a \<open>Resource\<close> and validated, and the valid ones are sent to the actor in one
  \<open>addBulkResources\<close> call. The CSV export (\<open>utils/exportUtils.ts\<close>) prints
  resources in the same 21-column layout, and the role-based routing of \<open>App.tsx\<close>
  and \<open>components/Layout.tsx\<close> decides which pages a signed-in profile sees.

  \<^bold>\<open>Theories.\<close>
  \<^item> \<open>Prelude\<close>: the JavaScript string operations the code calls (\<open>trim\<close>,
    \<open>toLowerCase\<close>, \<open>split\<close>, \<open>join\<close>, \<open>||\<close>, \<open>row[i] ?? ''\<close>) over
    \<open>string = char list\<close>, restricted to Latin-1 code points, and their lemmas; the
    collections \<open>js_simps\<close> (characteristic equations) and \<open>js_eval\<close> (evaluation
    of the helpers on literals by the simplifier).
  \<^item> \<open>Backend\<close>: the enums and the \<open>Resource\<close> record of \<open>backend.d.ts\<close>; the
    actor's \<open>addBulkResources\<close> (not in the sources; modelled from the spec as
    appending to the stored list).
  \<^item> \<open>Csv\<close>: \<open>parseCSVLine\<close> (the character loop as \<open>csv_scan\<close>), \<open>parseCSV\<close>
    (\<open>split(/\r?\n/)\<close>, blank lines dropped, first line the header), and the printer
    \<open>escapeCSV\<close>/\<open>csv_row\<close>/\<open>csv_doc\<close> of both \<open>generateSampleCSV\<close> and
    \<open>exportResourcesAsCSV\<close>. Results: line and document round trips (C1, C2).
  \<^item> \<open>RowMapping\<close>: the template constants, the lenient enum parsers, \<open>parseSkills\<close>,
    \<open>parseDateToTime\<close> and \<open>mapRowToResource\<close>. Results: the validation outcome
    invariant (C3), what an accepted row guarantees (C4), and a row with its required
    fields filled, non-billable, whose category cell is filled but not a recognised
    label, accepted without errors and with no category where the specification asks
    for an error (C5).
  \<^item> \<open>ImportModal\<close>: the component's state (its six \<open>useState\<close> hooks) as the record
    \<open>modal_state\<close>; \<open>processFile\<close> (format dispatch, required-column check, blank-row
    filter, row numbering), \<open>handleImport\<close> (the \<open>useBulkAddResources\<close> mutation as
    \<open>bulkAddResources_call\<close>, whose environment \<open>call_env\<close> says whether the actor
    is ready and whether the network call succeeds), \<open>resetState\<close> and the drag
    handlers; \<open>modal_step\<close> applies an event only when the rendered control that
    raises it is present (\<open>drop_zone_shown\<close>, \<open>import_enabled\<close>,
    \<open>reset_shown\<close>), and \<open>modal_reach\<close> is the inductive set of states reachable
    from the initial one. Results: the reachable-state invariant by rule induction (C6),
    the import summary (C7), retry after a failed call (C8), the batch-wide failure a
    category cell naming an \<open>Object.prototype\<close> member causes (C9), row numbering
    (C10), the missing-columns error (C11).
  \<^item> \<open>Calendar\<close>: the ECMAScript \<open>Date\<close> arithmetic the export calls
    (\<open>DayFromYear\<close>, \<open>YearFromTime\<close> by a terminating search, \<open>MonthFromTime\<close>,
    \<open>DateFromTime\<close>, \<open>MakeDay\<close>), \<open>String(n)\<close>, \<open>padStart\<close>, and \<open>Date.parse\<close>
    on \<open>YYYY-MM-DD\<close>; proved: \<open>MakeDay\<close> inverts the civil date of a day and the
    date-only parser reads back what is printed for four-digit years.
  \<^item> \<open>Export\<close>: \<open>utils/exportUtils.ts\<close>, the formatters, \<open>resourceToRow\<close>, the
    file text and the download record of \<open>exportResourcesAsCSV\<close>/\<open>XLSX\<close>. Results:
    an exported file imported again gives back each exportable resource with a fresh
    identifier and with role, department and skill tags emptied (C12); a date moves one
    day earlier in a browser west of UTC (C13); a value with a line break breaks its row.
  \<^item> \<open>Access\<close>: \<open>ROLE_ACCESS\<close>, \<open>getDefaultRoute\<close>, \<open>RouteGuard\<close>,
    \<open>RootLayout\<close> and \<open>IndexRedirect\<close> of \<open>App.tsx\<close> as functions from their inputs
    (\<open>auth_env\<close>) to what they render; the sidebar of \<open>Layout.tsx\<close>; \<open>ReportsPage\<close>;
    the demo session of \<open>useDemoAuth.ts\<close> with the login page's and the logout buttons'
    handlers as the step function \<open>session_step\<close> over \<open>session\<close> (identity, stored
    and displayed demo profile, stored and cached user profile, route) and its
    reachable states \<open>session_reach\<close>. Results: the
    index redirect lands on an admitted route (C14), the reports guard and page disagree
    (C15), the demo state and storage agree in every reachable session (C16), the
    sidebar logout does not end a demo session, which only the access-denied logout
    ends (C17), and the profile form lets a new user choose any role (C18).
  \<^item> \<open>Queries\<close>: \<open>hooks/useQueries.ts\<close> against a model of the actor's
    collections (\<open>backend\<close>: resources, projects, timesheet entries, caller profile,
    Power BI link). The queries are functions of the backend; each mutation hook is a
    constructor of \<open>mutation\<close> and \<open>run_mutation\<close> runs its \<open>mutationFn\<close> (the
    \<open>actor\<close> check, the actor call, or the \<open>Promise.resolve()\<close> stub) and returns the
    query keys its \<open>onSuccess\<close> invalidates. Results: the project, timesheet and delete
    hooks leave the backend unchanged (C19), and a mutation fails only without an
    actor, on a network failure of a hook that calls the actor, or on a resource that
    cannot be encoded (C20).
  \<^item> \<open>Timesheets\<close>: the week helpers of \<open>lib/utils.ts\<close>, \<open>WeeklyTimesheetView\<close>
    (days, per-day grouping and totals, each row's controls and the handler each one
    calls) and \<open>TimesheetsPage\<close>. Results: the week starts on a Monday (C21), the
    weekly total splits into the per-day totals plus the entries of other days (C22).
  \<^item> \<open>Dashboard\<close>: \<open>DashboardDateFilter\<close>'s state, \<open>isDateInPeriod\<close> and
    \<open>formatPeriodLabel\<close>, and \<open>DashboardPage\<close>'s filtered lists, counters, hours per
    project (a plain JavaScript object, \<open>hours_acc\<close>: a label naming a member of
    \<open>Object.prototype\<close> reads the inherited member, so its bar becomes text, and
    \<open>__proto__\<close> loses its hours; \<open>Object.entries\<close> order is modelled) and the
    activity feed (a stable sort by time, the first eight). Results: when no label
    names an \<open>Object.prototype\<close> member, the bars are numbers with distinct labels
    that add up to the period's total (C23), and otherwise they are not
    (\<open>hoursPerProject_proto_names\<close>); the feed holds
    at most eight events, newest first, at most five timesheet and three project events
    (C24), and an event whose resource was filtered out of the period shows "Unknown".
  \<^item> \<open>ArraySort\<close>: \<open>Array.prototype.sort\<close> with a comparator as a stable insertion
    sort, \<open>js_sort\<close>; it returns a permutation, sorted and stable for a consistent
    comparator, and equals \<open>sort_key\<close> for a comparator that subtracts integer keys.
  \<^item> \<open>Resources\<close>: \<open>ResourceTableView\<close> (the sort column and direction,
    \<open>handleSort\<close>, the comparator \<open>sortCompare\<close> with \<open>Number(bigint)\<close> as
    \<open>js_Number\<close> and \<open>localeCompare\<close> as the parameter \<open>lc\<close>, the cells of a row)
    and \<open>ResourcesPage\<close> (its state, the search, billability and practice filters,
    and every handler as \<open>resources_step\<close>, with the sessions \<open>page_reach\<close>).
    Results: sorting by a date is \<open>sort_key\<close> on the date as a double (C25); at most
    two header clicks give any sort order (C26).
  \<^item> \<open>ResourceForm\<close>: \<open>ResourceFormModal\<close> and the skills multi-select hook
    \<open>useMultiSelectDropdown\<close>. The multi-select's state and every control of
    \<open>SkillsMultiSelect\<close> (\<open>ms_step\<close>; its selection stays distinct, trimmed and
    free of empty tags); the form's fields, their loading when the form opens
    (\<open>open_form\<close>, dates through \<open>toISOString\<close>), the field setters, and
    \<open>handleSubmit\<close> (the three checks, the email pattern, the dates read back by the
    browser's parser) as \<open>form_step\<close>. Result: opening the edit form on a resource in
    the form's normal shape and saving it unchanged submits exactly that resource (C27).
  \<^item> \<open>ProjectViews\<close>: \<open>ProjectKanbanBoard\<close> (\<open>COLUMNS\<close>, the cards), \<open>MilestoneChecklist\<close>
    and \<open>ProjectDetailModal\<close> as functions from their props to what they show, with
    \<open>formatCurrency\<close> of \<open>lib/utils.ts\<close>. The percentage
    \<open>Math.round((completed / total) * 100)\<close> is \<open>progress\<close>, the double division
    and product rounded as IEEE 754 does (\<open>rhe_div\<close>, \<open>div_scale\<close>,
    \<open>round_double\<close>). Results: the percentage lies between 0 and 100 and is 100
    when all milestones are done (C28); the loaded board shows each project exactly
    once (C29).
  \<^item> \<open>ProjectForm\<close>: \<open>ProjectFormModal\<close> (its fields, the load on open, \<open>toggleResource\<close>,
    \<open>handleSubmit\<close>, the controls as \<open>pform_step\<close>) and \<open>ProjectsPage\<close> (its four
    state hooks, every handler as \<open>projects_step\<close>, its sessions \<open>projects_reach\<close>).
    The budget goes through text: \<open>String(Number(b))\<close> is \<open>js_toString\<close> (ECMAScript's
    \<open>Number::toString\<close>: the fewest digits that read back as the same double, found
    by \<open>while_option\<close> over the digit count) and \<open>parseInt\<close> is \<open>js_parseInt\<close>.
    Results: an unchanged project saved from the edit form is the same project (C30);
    a budget typed as \<open>1e5\<close> or \<open>12.5\<close> is cut at the exponent or point (C31);
    \<open>toggleResource\<close> refines toggling set membership (C32); no page session
    changes the backend, and a project
    is edited only while the form is open (C33).
  \<^item> \<open>EntryForm\<close>: \<open>TimesheetEntryFormModal\<close> (rendered by no page): its fields,
    their loading (the hours as \<open>String(Number(hours))\<close>), \<open>handleSubmit\<close> (the
    required fields, \<open>parseInt\<close> of the hours between 1 and 24) and the controls as
    \<open>eform_step\<close>. Result: an unchanged entry saved from the edit form is the same
    entry (C34).
  \<^item> \<open>DateFilter\<close>: \<open>DashboardDateFilter\<close>'s handlers (the month and year selects,
    the date input read by the browser's local date-time parser, the clear button) and
    the effect that empties the input when the date is cleared, as \<open>filter_step\<close>
    over the page's \<open>FilterState\<close> and the component's \<open>dateInput\<close>, with the sessions
    \<open>filter_reach\<close>. Results: the filter state is well formed in every session, its
    month one of the twelve so that the period label's month name is defined (C35); the
    month select is ignored while a date is selected (\<open>month_select_ignored\<close>).
  \<^item> \<open>Reports\<close>: the reports page's state (the dialog flag, the iframe key) and
    \<open>PowerBIConfigModal\<close> (its URL text, the effect loading the stored URL, \<open>handleSave\<close>
    through \<open>useSetPowerBIEmbedUrl\<close> with its toasts) composed with the backend as
    \<open>reports_step\<close>, with the sessions \<open>reports_reach\<close>. Results: only the embed URL
    changes, only an admin changes it, and it stays trimmed and non-empty (C36); the
    dialog reopens on the URL just saved (\<open>save_then_reopen\<close>).
  \<^item> \<open>ResourceViews\<close>: \<open>ResourceCard\<close> and the resources page's content area (skeletons,
    the table, the card grid). Lemmas: a card accounts for every skill tag; the table
    and the cards show the same resources (\<open>content_views_agree\<close>).
  \<^item> \<open>Shell\<close>: \<open>Layout\<close>'s sidebar toggle and what the sidebar, header and footer show.
    Lemmas: the header's title is the first active link's label; collapsing keeps the
    links.
  \<^item> \<open>ImportView\<close>: what the import dialog shows for a modal state (the result panel,
    the flow with the file size as \<open>toFixed(1)\<close>, the preview table, the action bar).
    Lemma: the preview's counts add up and the import button is enabled exactly when
    records are announced (\<open>ImportDialog_preview\<close>).

  \<^bold>\<open>Parameters.\<close> What the browser computes is a parameter, never a stub: the
  JavaScript date parser of the import (a function from text to milliseconds, \<open>None\<close>
  for an invalid date; the export results assume only that it reads \<open>YYYY-MM-DD\<close> as
  \<open>Date.parse\<close> does), the browser's time-zone offset, the clock, and the
  identifiers \<open>generateId\<close> returns.

  \<^bold>\<open>Fuel and bounds.\<close> Every loop of the modelled code runs over a finite list
  (characters of a line, lines of a file, rows of a table), so every definition is
  structurally recursive and total; no fuel is needed. The one unbounded search, the
  digit count of \<open>Number::toString\<close> (\<open>min_digits\<close>, a \<open>while_option\<close>), is
  proved to stop within as many digits as the integer has (\<open>min_digits_Some\<close>). Budgets are proved to
  survive the form below \<open>2^53\<close>, where every integer is a double.

  \<^bold>\<open>Plan.\<close> The login page's rendering; the dashboard's charts and cards.

  \<^bold>\<open>Not modelled.\<close> Styling, icons and routing mechanics (what a view shows
  is modelled, not how it is laid out); the skeleton placeholders and the charts; the identity
  provider (its login and \<open>clear\<close> are actions of the session model, its
  initialisation an input); a stored demo profile whose role is not one of the six
  (the model's roles are the datatype); SheetJS decoding (its output rows are the input of the model); the
  network (the actor call's success or failure is an input); the Candid encoder, of
  which only the failure on a foreign \<open>nonBillableStatus\<close> value is modelled; the
  pending state of a mutation (the forms' \<open>isLoading\<close> is an input); the milestone
  toggle, which \<open>ProjectsPage\<close> wires to an empty function. The actor's
  \<open>addResource\<close>, which both \<open>useAddResource\<close> and \<open>useUpdateResource\<close> call, is
  not in the sources and its contract is not specified (an append or an upsert by
  identifier); it is modelled as appending the record, and no result stated here
  depends on that choice.
\<close>

end
